theory Spec2Isabelle
  imports Complex_Main "HOL-Library.Word"
begin

unbundle bit_operations_syntax

section \<open>JavaScript values and strings\<close>

text \<open>
  The values a payload is made of. A string is the list of its code units, taken from the
  first 256 (a \<open>char\<close> of the logic): \<open>isWhitespace\<close> holds of the seven of them that
  \<open>String.prototype.trim\<close> and the whitespace class of a regular expression remove (tab, line
  feed, vertical tab, form feed, carriage return, space and the no-break space U+00A0), and
  the case mappings are those of \<open>toLowerCase\<close> and \<open>toUpperCase\<close> on these code units.
  An object is the list of its own entries in \<open>Object.entries\<close> order, with distinct keys.
\<close>

datatype jsnum = Fin rat | PosInf | NegInf | NaN

datatype jsval =
    JUndefined
  | JNull
  | JBool bool
  | JNum jsnum
  | JStr string
  | JDate "int option"
  | JArr "jsval list"
  | JObj "(string \<times> jsval) list"

definition isWhitespace :: "char \<Rightarrow> bool" where
  "isWhitespace c =
     (c \<in> set [CHR '' '', CHR 0x09, CHR 0x0A, CHR 0x0B, CHR 0x0C, CHR 0x0D, CHR 0xA0])"

definition trim :: "string \<Rightarrow> string" where
  "trim s = rev (dropWhile isWhitespace (rev (dropWhile isWhitespace s)))"

text \<open>
  \<open>toLowerCase\<close> maps A to Z and the letters U+00C0 to U+00DE (the multiplication sign
  U+00D7 apart) to the code unit 32 above. \<open>toUpperCase\<close> maps a to z and the letters
  U+00E0 to U+00FE (the division sign U+00F7 apart) to the code unit 32 below and the sharp
  s U+00DF to \<open>SS\<close>; the upper-case forms of the micro sign U+00B5 and of U+00FF are code
  units above 255, and these two are left as they are (the service only compares an
  upper-cased string with ASCII literals).
\<close>

definition lowerChar :: "char \<Rightarrow> char" where
  "lowerChar c =
     (let n = of_char c :: int
      in if (65 \<le> n \<and> n \<le> 90) \<or> (192 \<le> n \<and> n \<le> 222 \<and> n \<noteq> 215) then char_of (n + 32) else c)"

definition upperChars :: "char \<Rightarrow> string" where
  "upperChars c =
     (let n = of_char c :: int
      in if (97 \<le> n \<and> n \<le> 122) \<or> (224 \<le> n \<and> n \<le> 254 \<and> n \<noteq> 247) then [char_of (n - 32)]
         else if n = 223 then ''SS''
         else [c])"

definition toLowerCase :: "string \<Rightarrow> string" where
  "toLowerCase s = map lowerChar s"

definition toUpperCase :: "string \<Rightarrow> string" where
  "toUpperCase s = concat (map upperChars s)"

definition startsWith :: "string \<Rightarrow> string \<Rightarrow> bool" where
  "startsWith s p = (take (length p) s = p)"

fun includesStr :: "string \<Rightarrow> string \<Rightarrow> bool" where
  "includesStr [] p = (p = [])"
| "includesStr (c # cs) p = (startsWith (c # cs) p \<or> includesStr cs p)"

definition isDigit :: "char \<Rightarrow> bool" where
  "isDigit c = (c \<in> set ''0123456789'')"

definition digitValue :: "char \<Rightarrow> int" where
  "digitValue c =
     (case map_of (zip ''0123456789'' [0, 1, 2, 3, 4, 5, 6, 7, 8, 9]) c of
        Some d \<Rightarrow> d | None \<Rightarrow> 0)"

definition digitsValue :: "string \<Rightarrow> int" where
  "digitsValue s = foldl (\<lambda>acc c. acc * 10 + digitValue c) 0 s"

definition digitChar :: "int \<Rightarrow> char" where
  "digitChar n =
     (case map_of (zip [0, 1, 2, 3, 4, 5, 6, 7, 8, 9] ''0123456789'') (n mod 10) of
        Some c \<Rightarrow> c | None \<Rightarrow> CHR ''0'')"

function decimal :: "int \<Rightarrow> string" where
  "decimal n = (if n < 10 then [digitChar n] else decimal (n div 10) @ [digitChar n])"
  by pat_completeness auto
termination
  by (relation "measure nat") auto

definition intToString :: "int \<Rightarrow> string" where
  "intToString i = (if i < 0 then CHR ''-'' # decimal (- i) else decimal i)"

subsection \<open>Numbers\<close>

text \<open>
  A number is an IEEE 754 double: \<open>Fin q\<close> is the finite double nearest to the rational
  \<open>q\<close> (\<open>q\<close> itself when it is a double, as every integer up to \<open>2 ^ 53\<close> in magnitude is).
  \<open>toDouble\<close> is the rounding to the nearest double with ties to the even significand
  (subnormal below \<open>2 ^ -1022\<close>, infinite from \<open>2 ^ 1024\<close>); it is what the arithmetic of the
  language and the reading of a numeric literal apply to the exact result.
  \<open>scaled a b e\<close> is the fraction \<open>a / b * 2 ^ e\<close>, \<open>ilog2 a b\<close> the binary exponent of
  \<open>a / b\<close>.
\<close>

definition pow10 :: "int \<Rightarrow> rat" where
  "pow10 e = (if e \<ge> 0 then of_int (10 ^ nat e) else Fract 1 (10 ^ nat (- e)))"

function bitLength :: "int \<Rightarrow> int" where
  "bitLength n = (if n \<le> 0 then 0 else 1 + bitLength (n div 2))"
  by pat_completeness auto
termination
  by (relation "measure nat") auto

declare bitLength.simps [simp del]

definition scaled :: "int \<Rightarrow> int \<Rightarrow> int \<Rightarrow> int \<times> int" where
  "scaled a b e = (if e \<ge> 0 then (a * 2 ^ nat e, b) else (a, b * 2 ^ nat (- e)))"

definition ilog2 :: "int \<Rightarrow> int \<Rightarrow> int" where
  "ilog2 a b =
     (let e = bitLength a - bitLength b;
          (n, d) = scaled a b (- e)
      in if d \<le> n then e else e - 1)"

definition roundHalfEven :: "int \<Rightarrow> int \<Rightarrow> int" where
  "roundHalfEven n d =
     (let f = n div d; r = n mod d
      in if 2 * r < d then f else if d < 2 * r then f + 1 else if even f then f else f + 1)"

text \<open>\<open>roundPositive a b\<close> is the double nearest to \<open>a / b\<close>, for positive \<open>a\<close> and \<open>b\<close>.\<close>

definition roundPositive :: "int \<Rightarrow> int \<Rightarrow> jsnum" where
  "roundPositive a b =
     (let e = max (ilog2 a b) (- 1022);
          m = roundHalfEven (fst (scaled a b (52 - e))) (snd (scaled a b (52 - e)))
      in if 1023 < e \<or> (e = 1023 \<and> m = 2 ^ 53) then PosInf
         else Fin (Fract (fst (scaled m 1 (e - 52))) (snd (scaled m 1 (e - 52)))))"

fun negate :: "jsnum \<Rightarrow> jsnum" where
  "negate (Fin q) = Fin (- q)"
| "negate PosInf = NegInf"
| "negate NegInf = PosInf"
| "negate NaN = NaN"

definition toDouble :: "rat \<Rightarrow> jsnum" where
  "toDouble q =
     (let (p, b) = quotient_of q
      in if p = 0 then Fin 0
         else if p < 0 then negate (roundPositive (- p) b)
         else roundPositive p b)"

text \<open>
  \<open>String(number)\<close>: the shortest decimal digits that read back as the same double
  (\<open>shortest\<close> tries 1 to 17 digits and takes the candidate nearest to the value),
  written in positional notation for a decimal exponent from -6 up to 21 and in
  exponent notation otherwise.
\<close>

definition decimalExponent :: "rat \<Rightarrow> int" where
  "decimalExponent x =
     (let (a, b) = quotient_of x;
          n = int (length (decimal a)) - int (length (decimal b))
      in if pow10 n \<le> x then n + 1 else n)"

fun shortest :: "nat \<Rightarrow> rat \<Rightarrow> int \<Rightarrow> int \<Rightarrow> int \<times> int" where
  "shortest 0 x n k = (\<lfloor>x / pow10 (n - k)\<rfloor>, k)"
| "shortest (Suc fuel) x n k =
     (let scale = pow10 (n - k);
          lo = \<lfloor>x / scale\<rfloor>;
          hi = lo + 1;
          okLo = (toDouble (of_int lo * scale) = Fin x);
          okHi = (toDouble (of_int hi * scale) = Fin x)
      in if okLo \<and> okHi then
           (if x - of_int lo * scale < of_int hi * scale - x then (lo, k)
            else if of_int hi * scale - x < x - of_int lo * scale then (hi, k)
            else if even lo then (lo, k) else (hi, k))
         else if okLo then (lo, k)
         else if okHi then (hi, k)
         else shortest fuel x n (k + 1))"

definition stripZeros :: "string \<Rightarrow> string" where
  "stripZeros ds = rev (dropWhile (\<lambda>c. c = CHR ''0'') (rev ds))"

definition formatNumber :: "string \<Rightarrow> int \<Rightarrow> string" where
  "formatNumber ds n =
     (let k = int (length ds)
      in if k \<le> n \<and> n \<le> 21 then ds @ replicate (nat (n - k)) (CHR ''0'')
         else if 0 < n \<and> n \<le> 21 then take (nat n) ds @ ''.'' @ drop (nat n) ds
         else if - 6 < n \<and> n \<le> 0 then ''0.'' @ replicate (nat (- n)) (CHR ''0'') @ ds
         else (let e = n - 1;
                   ex = (if e < 0 then ''-'' else ''+'') @ decimal \<bar>e\<bar>
               in if k = 1 then ds @ ''e'' @ ex
                  else take 1 ds @ ''.'' @ drop 1 ds @ ''e'' @ ex))"

definition positiveToString :: "rat \<Rightarrow> string" where
  "positiveToString x =
     (let n = decimalExponent x;
          (s, k) = shortest 17 x n 1;
          ds = decimal s
      in formatNumber (stripZeros ds) (n + (int (length ds) - k)))"

fun numToString :: "jsnum \<Rightarrow> string" where
  "numToString (Fin q) =
     (case toDouble q of
        Fin x \<Rightarrow> (if x = 0 then ''0'' else if x < 0 then ''-'' @ positiveToString (- x)
                   else positiveToString x)
      | PosInf \<Rightarrow> ''Infinity''
      | NegInf \<Rightarrow> ''-Infinity''
      | NaN \<Rightarrow> ''NaN'')"
| "numToString PosInf = ''Infinity''"
| "numToString NegInf = ''-Infinity''"
| "numToString NaN = ''NaN''"

fun isObject :: "jsval \<Rightarrow> bool" where
  "isObject (JArr xs) = True"
| "isObject (JObj kvs) = True"
| "isObject (JDate d) = True"
| "isObject _ = False"

definition nullish :: "jsval \<Rightarrow> bool" where
  "nullish v = (v = JNull \<or> v = JUndefined)"

definition orElse :: "jsval \<Rightarrow> jsval \<Rightarrow> jsval" where
  "orElse a b = (if nullish a then b else a)"

fun jsize :: "jsval \<Rightarrow> nat" where
  "jsize (JArr xs) = Suc (sum_list (map jsize xs))"
| "jsize (JObj kvs) = Suc (sum_list (map (\<lambda>kv. jsize (snd kv)) kvs))"
| "jsize _ = 1"


section \<open>Payload normalizer (normalizer/normalizer.service.ts)\<close>

text \<open>
  A nullable string is an \<open>option\<close>; it is truthy when it is neither null nor empty.
\<close>

definition truthy :: "string option \<Rightarrow> bool" where
  "truthy v = (case v of None \<Rightarrow> False | Some s \<Rightarrow> s \<noteq> [])"

datatype EventKind = MESSAGE | TEMPLATE | USER | UNKNOWN

datatype MessageStatus = accepted | sent | delivered | read | failed

datatype TemplateStatus = APPROVED | REJECTED | T_PENDING | T_SUBMITTED

datatype ConsentEvent = OPT_IN | OPT_OUT | BLOCKED

record NormalizedMessageEvent =
  me_providerEventId :: "string option"
  me_messageId :: "string option"
  me_whatsappMessageId :: "string option"
  me_status :: "MessageStatus option"
  me_eventAt :: "int option"
  me_errorCode :: "string option"
  me_errorReason :: "string option"
  me_errorPayload :: "jsval option"

record NormalizedTemplateEvent =
  te_providerEventId :: "string option"
  te_templateName :: "string option"
  te_templateProviderId :: "string option"
  te_templateStatus :: "TemplateStatus option"
  te_language :: "string option"
  te_rejectionReason :: "string option"
  te_correctCategory :: "string option"
  te_eventAt :: "int option"

record NormalizedUserEvent =
  ue_providerEventId :: "string option"
  ue_phone :: "string option"
  ue_consentEvent :: "ConsentEvent option"
  ue_eventAt :: "int option"

record NormalizedUnknownEvent =
  un_providerEventId :: "string option"
  un_eventAt :: "int option"

datatype NormalizedWebhookEvent =
    MessageEvent NormalizedMessageEvent
  | TemplateEvent NormalizedTemplateEvent
  | UserEvent NormalizedUserEvent
  | UnknownEvent NormalizedUnknownEvent

fun kindOf :: "NormalizedWebhookEvent \<Rightarrow> EventKind" where
  "kindOf (MessageEvent e) = MESSAGE"
| "kindOf (TemplateEvent e) = TEMPLATE"
| "kindOf (UserEvent e) = USER"
| "kindOf (UnknownEvent e) = UNKNOWN"

fun providerEventIdOf :: "NormalizedWebhookEvent \<Rightarrow> string option" where
  "providerEventIdOf (MessageEvent e) = me_providerEventId e"
| "providerEventIdOf (TemplateEvent e) = te_providerEventId e"
| "providerEventIdOf (UserEvent e) = ue_providerEventId e"
| "providerEventIdOf (UnknownEvent e) = un_providerEventId e"

fun eventAtOf :: "NormalizedWebhookEvent \<Rightarrow> int option" where
  "eventAtOf (MessageEvent e) = me_eventAt e"
| "eventAtOf (TemplateEvent e) = te_eventAt e"
| "eventAtOf (UserEvent e) = ue_eventAt e"
| "eventAtOf (UnknownEvent e) = un_eventAt e"

subsection \<open>Helpers\<close>

fun isEmpty :: "jsval \<Rightarrow> bool" where
  "isEmpty JNull = True"
| "isEmpty JUndefined = True"
| "isEmpty (JStr s) = (trim s = [])"
| "isEmpty (JArr xs) = (xs = [])"
| "isEmpty _ = False"

fun extractString :: "jsval \<Rightarrow> string option" where
  "extractString (JStr s) = (let trimmed = trim s in if trimmed \<noteq> [] then Some trimmed else None)"
| "extractString (JNum n) = Some (numToString n)"
| "extractString (JBool b) = Some (if b then ''true'' else ''false'')"
| "extractString _ = None"

text \<open>\<open>path.replace(/\[(\d+)\]/g, '.$1')\<close> and \<open>split('.')\<close>.\<close>

function replaceIndex :: "string \<Rightarrow> string" where
  "replaceIndex [] = []"
| "replaceIndex (c # cs) =
     (if c = CHR ''['' \<and> takeWhile isDigit cs \<noteq> [] \<and> dropWhile isDigit cs \<noteq> []
         \<and> hd (dropWhile isDigit cs) = CHR '']''
      then CHR ''.'' # takeWhile isDigit cs @ replaceIndex (tl (dropWhile isDigit cs))
      else c # replaceIndex cs)"
  by pat_completeness auto
termination
proof (relation "measure length")
  show "wf (measure length)" by simp
next
  fix c :: char and cs :: string
  have "length (tl (dropWhile isDigit cs)) \<le> length cs"
    using length_dropWhile_le[of isDigit cs] by simp
  then show "(tl (dropWhile isDigit cs), c # cs) \<in> measure length" by simp
next
  fix c :: char and cs :: string
  show "(cs, c # cs) \<in> measure length" by simp
qed

fun splitDot :: "string \<Rightarrow> string list" where
  "splitDot [] = [[]]"
| "splitDot (c # cs) =
     (if c = CHR ''.'' then [] # splitDot cs
      else (case splitDot cs of p # ps \<Rightarrow> (c # p) # ps | [] \<Rightarrow> [[c]]))"

text \<open>
  \<open>node[part]\<close> on an own property: a key of an object, an index or \<open>length\<close> of an
  array. Inherited properties (\<open>constructor\<close>, \<open>toString\<close>, ...) are not modelled; no path
  of the normalizer names one.
\<close>

definition arrayIndex :: "string \<Rightarrow> nat option" where
  "arrayIndex k =
     (if k \<noteq> [] \<and> list_all isDigit k \<and> (k = ''0'' \<or> hd k \<noteq> CHR ''0'')
      then Some (nat (digitsValue k)) else None)"

fun getProp :: "jsval \<Rightarrow> string \<Rightarrow> jsval" where
  "getProp (JObj kvs) k = (case map_of kvs k of Some v \<Rightarrow> v | None \<Rightarrow> JUndefined)"
| "getProp (JArr xs) k =
     (if k = ''length'' then JNum (Fin (of_nat (length xs)))
      else (case arrayIndex k of
              Some i \<Rightarrow> (if i < length xs then xs ! i else JUndefined)
            | None \<Rightarrow> JUndefined))"
| "getProp _ k = JUndefined"

fun walk :: "string list \<Rightarrow> jsval \<Rightarrow> jsval" where
  "walk [] cursor = cursor"
| "walk (part # parts) cursor =
     (if nullish cursor then JUndefined
      else if \<not> isObject cursor then JUndefined
      else walk parts (getProp cursor part))"

definition getByPath :: "jsval \<Rightarrow> string \<Rightarrow> jsval" where
  "getByPath payload path =
     (if \<not> isObject payload then JUndefined
      else walk (splitDot (replaceIndex path)) payload)"

fun pickFirst :: "jsval \<Rightarrow> string list \<Rightarrow> jsval" where
  "pickFirst payload [] = JUndefined"
| "pickFirst payload (path # paths) =
     (let v = getByPath payload path in
      if \<not> isEmpty v then v else pickFirst payload paths)"

text \<open>
  \<open>findByKeys\<close>: the breadth-first walk. \<open>scanEntries\<close> is the \<open>for\<close> loop over
  \<open>Object.entries(record)\<close>: it returns the first wanted non-empty value (\<open>Inl\<close>), or the
  queue with the object-valued entries pushed (\<open>Inr\<close>).
\<close>

fun scanEntries :: "string list \<Rightarrow> (string \<times> jsval) list \<Rightarrow> jsval list \<Rightarrow> jsval + jsval list" where
  "scanEntries wanted [] queue = Inr queue"
| "scanEntries wanted ((k, v) # rest) queue =
     (if toLowerCase k \<in> set wanted \<and> \<not> isEmpty v then Inl v
      else scanEntries wanted rest (if isObject v then queue @ [v] else queue))"

definition queueSize :: "jsval list \<Rightarrow> nat" where
  "queueSize q = sum_list (map jsize q)"

lemma scanEntries_size:
  "scanEntries wanted kvs q = Inr q' \<Longrightarrow>
   queueSize q' \<le> queueSize q + sum_list (map (\<lambda>kv. jsize (snd kv)) kvs)"
proof (induction kvs arbitrary: q)
  case Nil
  then show ?case by simp
next
  case (Cons kv kvs)
  obtain k v where kv: "kv = (k, v)" by (cases kv)
  from Cons.prems kv have
    "scanEntries wanted kvs (if isObject v then q @ [v] else q) = Inr q'"
    by (simp split: if_splits)
  from Cons.IH[OF this] show ?case
    by (simp add: kv queueSize_def split: if_splits)
qed

function bfs :: "string list \<Rightarrow> jsval list \<Rightarrow> jsval" where
  "bfs wanted [] = JUndefined"
| "bfs wanted (node # queue) =
     (case node of
        JArr xs \<Rightarrow> bfs wanted (queue @ xs)
      | JObj kvs \<Rightarrow>
          (case scanEntries wanted kvs queue of
             Inl v \<Rightarrow> v
           | Inr queue' \<Rightarrow> bfs wanted queue')
      | _ \<Rightarrow> bfs wanted queue)"
  by pat_completeness auto
termination
proof (relation "measure (\<lambda>(wanted, q). queueSize q)")
  show "wf (measure (\<lambda>(wanted, q). queueSize q))" by simp
next
  fix wanted node queue kvs x2
  assume "node = JObj kvs" and "scanEntries wanted kvs queue = Inr x2"
  then show "((wanted, x2), wanted, node # queue) \<in> measure (\<lambda>(wanted, q). queueSize q)"
    using scanEntries_size[of wanted kvs queue x2] by (simp add: queueSize_def)
qed (simp_all add: queueSize_def)

definition findByKeys :: "jsval \<Rightarrow> string list \<Rightarrow> jsval" where
  "findByKeys payload keys =
     (if \<not> isObject payload then JUndefined
      else bfs (map toLowerCase keys) [payload])"


definition toRecord :: "jsval \<Rightarrow> jsval option" where
  "toRecord v =
     (if \<not> isObject v then None
      else (case v of
              JArr xs \<Rightarrow>
                (case xs of
                   [] \<Rightarrow> None
                 | first # _ \<Rightarrow>
                     if \<not> isObject first then Some (JObj [(''value'', first)]) else Some first)
            | _ \<Rightarrow> Some v))"

definition normalizePhone :: "string option \<Rightarrow> string option" where
  "normalizePhone v =
     (case v of
        None \<Rightarrow> None
      | Some s \<Rightarrow>
          if s = [] then None
          else (let cleaned = filter (\<lambda>c. \<not> isWhitespace c) s
                in if cleaned \<noteq> [] then Some cleaned else None))"

subsection \<open>Token tables\<close>

definition mapMessageStatus :: "string option \<Rightarrow> MessageStatus option" where
  "mapMessageStatus v =
     (case v of
        None \<Rightarrow> None
      | Some s \<Rightarrow>
          if s = [] then None
          else (let normalized = toLowerCase (trim s) in
                if normalized = ''accepted'' then Some accepted
                else if normalized = ''sent'' then Some sent
                else if normalized = ''delivered'' then Some delivered
                else if normalized = ''read'' then Some read
                else if normalized \<in> set [''failed'', ''error'', ''undelivered''] then Some failed
                else None))"

definition mapTemplateStatus :: "string option \<Rightarrow> TemplateStatus option" where
  "mapTemplateStatus v =
     (case v of
        None \<Rightarrow> None
      | Some s \<Rightarrow>
          if s = [] then None
          else (let normalized = toUpperCase (trim s) in
                if normalized = ''APPROVED'' then Some APPROVED
                else if normalized = ''REJECTED'' then Some REJECTED
                else if normalized = ''PENDING'' then Some T_PENDING
                else if normalized \<in> set [''SUBMITTED'', ''IN_REVIEW''] then Some T_SUBMITTED
                else None))"

definition mapConsentEvent :: "string option \<Rightarrow> ConsentEvent option" where
  "mapConsentEvent v =
     (case v of
        None \<Rightarrow> None
      | Some s \<Rightarrow>
          if s = [] then None
          else (let normalized = toUpperCase (trim s) in
                if normalized \<in> set [''OPT_IN'', ''SUBSCRIBE'', ''CONSENT_GRANTED''] then Some OPT_IN
                else if normalized \<in> set [''OPT_OUT'', ''UNSUBSCRIBE'', ''CONSENT_REVOKED''] then Some OPT_OUT
                else if normalized \<in> set [''BLOCKED'', ''BLOCK'', ''USER_BLOCKED''] then Some BLOCKED
                else None))"

subsection \<open>Timestamps\<close>

text \<open>
  A \<open>Date\<close> is its time value in milliseconds; \<open>JDate None\<close> is an invalid date (its
  \<open>getTime()\<close> is \<open>NaN\<close>). \<open>newDate\<close> is \<open>new Date(milliseconds)\<close>: the date is valid
  exactly when the number is finite and within 8.64e15 ms of the epoch, and its time value
  is the number with the fraction cut off. \<open>Number(trimmed)\<close> of a string of digits is the
  double nearest to the integer the digits write. The parser of \<open>new Date(string)\<close> is the
  parameter \<open>dateParse\<close> (\<open>None\<close> for an invalid date).
\<close>

definition newDate :: "jsnum \<Rightarrow> int option" where
  "newDate milliseconds =
     (case milliseconds of
        Fin v \<Rightarrow>
          if \<bar>v\<bar> \<le> 8640000000000000 then Some (if 0 \<le> v then \<lfloor>v\<rfloor> else \<lceil>v\<rceil>) else None
      | _ \<Rightarrow> None)"

definition fromEpoch :: "jsnum \<Rightarrow> int option" where
  "fromEpoch value =
     (case value of
        Fin q \<Rightarrow>
          (case toDouble q of
             Fin v \<Rightarrow> newDate (if v > 9999999999 then Fin v else toDouble (v * 1000))
           | _ \<Rightarrow> None)
      | _ \<Rightarrow> None)"

fun parseTimestamp :: "(string \<Rightarrow> int option) \<Rightarrow> jsval \<Rightarrow> int option" where
  "parseTimestamp dateParse JNull = None"
| "parseTimestamp dateParse JUndefined = None"
| "parseTimestamp dateParse (JDate d) = d"
| "parseTimestamp dateParse (JNum v) = fromEpoch v"
| "parseTimestamp dateParse (JStr s) =
     (let trimmed = trim s in
      if trimmed = [] then None
      else if list_all isDigit trimmed then fromEpoch (Fin (of_int (digitsValue trimmed)))
      else dateParse trimmed)"
| "parseTimestamp dateParse _ = None"

subsection \<open>The three variants\<close>

definition extractProviderEventId :: "jsval \<Rightarrow> string option" where
  "extractProviderEventId payload =
     extractString
       (orElse (pickFirst payload [''eventId'', ''event_id'', ''event.id'', ''gs_event_id''])
               (findByKeys payload [''eventId'', ''event_id'', ''gs_event_id'']))"

text \<open>The locals of \<open>normalizeTemplate\<close>.\<close>

definition templateStatusOf :: "jsval \<Rightarrow> TemplateStatus option" where
  "templateStatusOf payload =
     mapTemplateStatus (extractString
       (orElse (pickFirst payload [''template.status'', ''status'', ''eventStatus'', ''event_status'',
                                   ''templateStatus'', ''approvalStatus''])
               (findByKeys payload [''templateStatus'', ''approvalStatus'', ''status'', ''event_status''])))"

definition templateNameOf :: "jsval \<Rightarrow> string option" where
  "templateNameOf payload =
     extractString
       (orElse (pickFirst payload [''template.name'', ''template_name'', ''templateName'',
                                   ''elementName'', ''name'', ''payload.template_name''])
               (findByKeys payload [''template_name'', ''templateName'', ''elementName'']))"

definition templateProviderIdOf :: "jsval \<Rightarrow> string option" where
  "templateProviderIdOf payload =
     extractString
       (orElse (pickFirst payload [''template.id'', ''template_provider_id'', ''templateProviderId'',
                                   ''providerTemplateId''])
               (findByKeys payload [''template_provider_id'', ''templateProviderId'',
                                    ''providerTemplateId'']))"

definition eventTypeHintOf :: "jsval \<Rightarrow> string option" where
  "eventTypeHintOf payload =
     map_option toLowerCase (extractString (pickFirst payload [''event'', ''eventType'', ''type'']))"

definition normalizeTemplate :: "(string \<Rightarrow> int option) \<Rightarrow> jsval \<Rightarrow> NormalizedTemplateEvent option" where
  "normalizeTemplate dateParse payload =
     (let templateStatus = templateStatusOf payload;
          templateName = templateNameOf payload;
          templateProviderId = templateProviderIdOf payload;
          templateSignal = (templateStatus \<noteq> None \<or> truthy templateName \<or> truthy templateProviderId)
      in if \<not> templateSignal then None
         else (let eventTypeHint = eventTypeHintOf payload in
               if templateStatus = None
                  \<and> \<not> (case eventTypeHint of None \<Rightarrow> False | Some h \<Rightarrow> includesStr h ''template'')
               then None
               else Some \<lparr>
                 te_providerEventId = extractProviderEventId payload,
                 te_templateName = templateName,
                 te_templateProviderId = templateProviderId,
                 te_templateStatus = templateStatus,
                 te_language = extractString
                   (orElse (pickFirst payload [''template.language'', ''language'', ''lang''])
                           (findByKeys payload [''language'', ''lang''])),
                 te_rejectionReason = extractString
                   (orElse (pickFirst payload [''template.rejectionReason'', ''rejectionReason'',
                                               ''rejection_reason'', ''reason''])
                           (findByKeys payload [''rejectionReason'', ''rejection_reason'', ''reason''])),
                 te_correctCategory = extractString
                   (orElse (pickFirst payload [''template.correctCategory'', ''correctCategory'',
                                               ''correct_category''])
                           (findByKeys payload [''correctCategory'', ''correct_category''])),
                 te_eventAt = parseTimestamp dateParse
                   (orElse (pickFirst payload [''timestamp'', ''time'', ''eventTime'', ''event_ts''])
                           (findByKeys payload [''timestamp'', ''eventTime'', ''event_ts'']))\<rparr>))"

text \<open>The locals of \<open>normalizeMessage\<close>.\<close>

definition messageIdOf :: "jsval \<Rightarrow> string option" where
  "messageIdOf payload =
     extractString
       (orElse (pickFirst payload [''messages[0].id'', ''statuses[0].id'', ''message.id'', ''messageId'',
                                   ''message_id'', ''payload.messages[0].id'', ''payload.statuses[0].id'',
                                   ''data.messages[0].id'', ''data.statuses[0].id''])
               (findByKeys payload [''message_id'', ''messageId'']))"

definition whatsappMessageIdOf :: "jsval \<Rightarrow> string option" where
  "whatsappMessageIdOf payload =
     extractString
       (orElse (pickFirst payload [''messages[0].whatsappMessageId'', ''messages[0].waMessageId'',
                                   ''statuses[0].whatsappMessageId'', ''statuses[0].waMessageId'',
                                   ''whatsapp_message_id'', ''whatsappMessageId'', ''wa_message_id'',
                                   ''waMessageId''])
               (findByKeys payload [''whatsapp_message_id'', ''whatsappMessageId'', ''waMessageId'',
                                    ''wa_id'']))"

definition messageStatusOf :: "jsval \<Rightarrow> MessageStatus option" where
  "messageStatusOf payload =
     mapMessageStatus (extractString
       (orElse (pickFirst payload [''statuses[0].status'', ''status'', ''eventStatus'', ''event_status'',
                                   ''message.status'', ''messages[0].status'', ''data.status''])
               (findByKeys payload [''status'', ''eventStatus'', ''event_status''])))"

definition templateHintOf :: "jsval \<Rightarrow> string option" where
  "templateHintOf payload =
     extractString
       (orElse (pickFirst payload [''template.name'', ''templateName'', ''template_name'', ''elementName''])
               (findByKeys payload [''template_name'', ''templateName'', ''elementName'']))"

definition normalizeMessage :: "(string \<Rightarrow> int option) \<Rightarrow> jsval \<Rightarrow> NormalizedMessageEvent option" where
  "normalizeMessage dateParse payload =
     (let messageId = messageIdOf payload;
          whatsappMessageId = whatsappMessageIdOf payload;
          status = messageStatusOf payload;
          templateHint = templateHintOf payload;
          hasMessageSignals = (truthy messageId \<or> truthy whatsappMessageId \<or> status \<noteq> None)
      in if \<not> truthy messageId \<and> \<not> truthy whatsappMessageId \<and> truthy templateHint then None
         else if \<not> hasMessageSignals then None
         else (let errorsNode =
                     orElse (pickFirst payload [''statuses[0].errors[0]'', ''messages[0].errors[0]'',
                                                ''error'', ''errors[0]''])
                            (findByKeys payload [''error'', ''errors''])
               in Some \<lparr>
                 me_providerEventId = extractProviderEventId payload,
                 me_messageId = messageId,
                 me_whatsappMessageId = whatsappMessageId,
                 me_status = status,
                 me_eventAt = parseTimestamp dateParse
                   (orElse (pickFirst payload [''statuses[0].timestamp'', ''messages[0].timestamp'',
                                               ''timestamp'', ''time'', ''eventTime'', ''event_ts''])
                           (findByKeys payload [''timestamp'', ''eventTime'', ''event_ts''])),
                 me_errorCode = extractString
                   (orElse (pickFirst payload [''statuses[0].errors[0].code'', ''messages[0].errors[0].code'',
                                               ''errorCode'', ''error_code''])
                           (findByKeys errorsNode [''code'', ''errorCode'', ''error_code''])),
                 me_errorReason = extractString
                   (orElse (pickFirst payload [''statuses[0].errors[0].message'',
                                               ''messages[0].errors[0].message'', ''reason'',
                                               ''errorReason'', ''error_reason''])
                           (findByKeys errorsNode [''message'', ''reason'', ''errorReason'', ''error_reason''])),
                 me_errorPayload = toRecord errorsNode\<rparr>))"

text \<open>The locals of \<open>normalizeUser\<close>.\<close>

definition consentEventOf :: "jsval \<Rightarrow> ConsentEvent option" where
  "consentEventOf payload =
     mapConsentEvent (extractString
       (orElse (pickFirst payload [''event'', ''eventType'', ''status'', ''consent'', ''opt''])
               (findByKeys payload [''event'', ''eventType'', ''consent'', ''opt'', ''status''])))"

definition phoneOf :: "jsval \<Rightarrow> string option" where
  "phoneOf payload =
     extractString
       (orElse (pickFirst payload [''phone'', ''phone_number'', ''msisdn'', ''user.phone'',
                                   ''user.phone_number'', ''payload.phone'', ''payload.msisdn'',
                                   ''data.phone''])
               (findByKeys payload [''phone'', ''phone_number'', ''msisdn'']))"

definition normalizeUser :: "(string \<Rightarrow> int option) \<Rightarrow> jsval \<Rightarrow> NormalizedUserEvent option" where
  "normalizeUser dateParse payload =
     (let consentEvent = consentEventOf payload;
          phone = phoneOf payload
      in if consentEvent = None \<and> \<not> truthy phone then None
         else Some \<lparr>
           ue_providerEventId = extractProviderEventId payload,
           ue_phone = normalizePhone phone,
           ue_consentEvent = consentEvent,
           ue_eventAt = parseTimestamp dateParse
             (orElse (pickFirst payload [''timestamp'', ''time'', ''eventTime'', ''event_ts''])
                     (findByKeys payload [''timestamp'', ''eventTime'', ''event_ts'']))\<rparr>)"

definition normalize :: "(string \<Rightarrow> int option) \<Rightarrow> jsval \<Rightarrow> NormalizedWebhookEvent" where
  "normalize dateParse payload =
     (case normalizeTemplate dateParse payload of
        Some templateEvent \<Rightarrow> TemplateEvent templateEvent
      | None \<Rightarrow>
          (case normalizeMessage dateParse payload of
             Some messageEvent \<Rightarrow> MessageEvent messageEvent
           | None \<Rightarrow>
               (case normalizeUser dateParse payload of
                  Some userEvent \<Rightarrow> UserEvent userEvent
                | None \<Rightarrow>
                    UnknownEvent \<lparr>
                      un_providerEventId = extractProviderEventId payload,
                      un_eventAt = parseTimestamp dateParse
                        (pickFirst payload [''timestamp'', ''time'', ''eventTime'', ''event_ts''])\<rparr>)))"


subsection \<open>Properties of \<open>parseTimestamp\<close>\<close>

lemma bitLength_nonneg: "0 \<le> bitLength a"
  by (induction a rule: bitLength.induct) (subst bitLength.simps, simp)

lemma bitLength_pos: "0 < a \<Longrightarrow> 1 \<le> bitLength a"
  using bitLength_nonneg[of "a div 2"] by (subst bitLength.simps) simp

lemma bitLength_bounds:
  "0 < a \<Longrightarrow> 2 ^ nat (bitLength a - 1) \<le> a \<and> a < 2 ^ nat (bitLength a)"
proof (induction a rule: bitLength.induct)
  case (1 n)
  show ?case
  proof (cases "n = 1")
    case True
    have "bitLength 1 = 1" by (simp add: bitLength.simps[of 1] bitLength.simps[of 0])
    then show ?thesis using True by simp
  next
    case False
    with 1 have h: "0 < n div 2" by simp
    from 1 have ih: "2 ^ nat (bitLength (n div 2) - 1) \<le> n div 2 \<and> n div 2 < 2 ^ nat (bitLength (n div 2))"
      using h by simp
    have bl: "bitLength n = 1 + bitLength (n div 2)"
      using 1(2) by (subst bitLength.simps) simp
    have p: "1 \<le> bitLength (n div 2)" using h by (rule bitLength_pos)
    have e1: "(2::int) ^ nat (bitLength n - 1) = 2 * 2 ^ nat (bitLength (n div 2) - 1)"
    proof -
      have "nat (bitLength n - 1) = Suc (nat (bitLength (n div 2) - 1))" using bl p by simp
      then show ?thesis by simp
    qed
    have e2: "(2::int) ^ nat (bitLength n) = 2 * 2 ^ nat (bitLength (n div 2))"
    proof -
      have "nat (bitLength n) = Suc (nat (bitLength (n div 2)))" using bl p by simp
      then show ?thesis by simp
    qed
    from ih show ?thesis unfolding e1 e2 by presburger
  qed
qed

lemma ilog2_int:
  assumes "0 < a"
  shows "ilog2 a 1 = bitLength a - 1"
proof -
  have b1: "bitLength 1 = 1" by (simp add: bitLength.simps[of 1] bitLength.simps[of 0])
  have p: "1 \<le> bitLength a" using assms by (rule bitLength_pos)
  have le: "2 ^ nat (bitLength a - 1) \<le> a" using bitLength_bounds[OF assms] by simp
  show ?thesis
    using assms p le by (simp add: ilog2_def b1 scaled_def Let_def)
qed

text \<open>An integer up to \<open>2 ^ 53\<close> in magnitude is a double.\<close>

lemma roundPositive_int:
  assumes apos: "0 < a" and le: "a \<le> 9007199254740992"
  shows "roundPositive a 1 = Fin (of_int a)"
proof -
  define e where "e = bitLength a - 1"
  have p: "1 \<le> bitLength a" using apos by (rule bitLength_pos)
  have e0: "0 \<le> e" using p by (simp add: e_def)
  have lo: "2 ^ nat e \<le> a"
    using bitLength_bounds[OF apos] by (simp add: e_def)
  have e53: "e \<le> 53"
  proof (rule ccontr)
    assume "\<not> e \<le> 53"
    then have "54 \<le> nat e" by simp
    then have "(2::int) ^ 54 \<le> 2 ^ nat e" by (intro power_increasing) simp_all
    with lo le show False by simp
  qed
  have il: "max (ilog2 a 1) (- 1022) = e" using ilog2_int[OF apos] e0 by (simp add: e_def)
  show ?thesis
  proof (cases "e \<le> 52")
    case True
    have s1: "scaled a 1 (52 - e) = (a * 2 ^ nat (52 - e), 1)"
      using True by (simp add: scaled_def)
    have m: "roundHalfEven (a * 2 ^ nat (52 - e)) 1 = a * 2 ^ nat (52 - e)"
      by (simp add: roundHalfEven_def)
    have s2: "scaled (a * 2 ^ nat (52 - e)) 1 (e - 52) = (a * 2 ^ nat (52 - e), 2 ^ nat (52 - e))"
    proof (cases "e = 52")
      case True
      then show ?thesis by (simp add: scaled_def)
    next
      case False
      with \<open>e \<le> 52\<close> have "\<not> 0 \<le> e - 52" by simp
      then show ?thesis by (simp add: scaled_def)
    qed
    have nov: "\<not> (1023 < e \<or> (e = 1023 \<and> a * 2 ^ nat (52 - e) = 2 ^ 53))"
      using True by simp
    have fr: "Fract (a * 2 ^ nat (52 - e)) (2 ^ nat (52 - e)) = (of_int a :: rat)"
      by (simp add: Fract_of_int_quotient)
    show ?thesis
      unfolding roundPositive_def il Let_def s1 fst_conv snd_conv m s2 if_not_P[OF nov] fr ..
  next
    case False
    then have e: "e = 53" using e53 by simp
    have "(2::int) ^ nat e = 2 ^ 53" using e by simp
    with lo le have a: "a = 9007199254740992" by simp
    have s1: "scaled a 1 (52 - e) = (9007199254740992, 2)"
      by (simp add: scaled_def e a)
    have m: "roundHalfEven 9007199254740992 2 = 4503599627370496"
      by (simp add: roundHalfEven_def)
    have s2: "scaled 4503599627370496 1 (e - 52) = (9007199254740992, 1)"
      by (simp add: scaled_def e)
    have nov: "\<not> (1023 < e \<or> (e = 1023 \<and> (4503599627370496::int) = 2 ^ 53))"
      using e by simp
    have fr: "Fract 9007199254740992 1 = (of_int a :: rat)"
      by (simp add: a Fract_of_int_quotient)
    show ?thesis
      unfolding roundPositive_def il Let_def s1 fst_conv snd_conv m s2 if_not_P[OF nov] fr ..
  qed
qed

lemma toDouble_int:
  assumes "\<bar>n\<bar> \<le> 9007199254740992"
  shows "toDouble (of_int n) = Fin (of_int n)"
proof -
  have q: "quotient_of (of_int n :: rat) = (n, 1)" by simp
  consider "n = 0" | "n < 0" | "0 < n" by linarith
  then show ?thesis
  proof cases
    case 1
    then show ?thesis unfolding toDouble_def q by simp
  next
    case 2
    then have "roundPositive (- n) 1 = Fin (of_int (- n))"
      using assms by (intro roundPositive_int) simp_all
    then show ?thesis using 2 unfolding toDouble_def q by simp
  next
    case 3
    then have "roundPositive n 1 = Fin (of_int n)"
      using assms by (intro roundPositive_int) simp_all
    then show ?thesis using 3 unfolding toDouble_def q by simp
  qed
qed

lemma newDate_int:
  "newDate (Fin (of_int m)) = (if \<bar>m\<bar> \<le> 8640000000000000 then Some m else None)"
proof -
  have "(\<bar>of_int m :: rat\<bar> \<le> 8640000000000000) = (\<bar>m\<bar> \<le> 8640000000000000)"
  proof -
    have "\<bar>of_int m :: rat\<bar> = of_int \<bar>m\<bar>" by simp
    moreover have "(of_int \<bar>m\<bar> \<le> (8640000000000000::rat)) = (\<bar>m\<bar> \<le> 8640000000000000)"
      using of_int_le_iff[of "\<bar>m\<bar>" 8640000000000000, where ?'a = rat] by simp
    ultimately show ?thesis by simp
  qed
  then show ?thesis by (simp add: newDate_def)
qed

lemma fromEpoch_int:
  assumes "- 9007199254740 \<le> n" and "n \<le> 9007199254740992"
  shows "fromEpoch (Fin (of_int n)) =
     (let ms = (if n \<le> 9999999999 then n * 1000 else n)
      in if \<bar>ms\<bar> \<le> 8640000000000000 then Some ms else None)"
proof -
  have d: "toDouble (of_int n) = Fin (of_int n)"
    using assms by (intro toDouble_int) simp
  have cmp: "((of_int n :: rat) > 9999999999) = (n > 9999999999)"
    using of_int_less_iff[of 9999999999 n, where ?'a = rat] by simp
  show ?thesis
  proof (cases "n \<le> 9999999999")
    case True
    have "toDouble (of_int (n * 1000)) = Fin (of_int (n * 1000))"
      using assms True by (intro toDouble_int) simp
    then have "toDouble (of_int n * 1000) = Fin (of_int (n * 1000))" by simp
    then show ?thesis
      using True cmp d by (simp add: fromEpoch_def newDate_int Let_def del: of_int_mult)
  next
    case False
    then show ?thesis
      using cmp d assms by (simp add: fromEpoch_def newDate_int Let_def)
  qed
qed

lemma digitValue_le: "0 \<le> digitValue c \<and> digitValue c \<le> 9"
proof -
  have "digitValue c \<in> {0,1,2,3,4,5,6,7,8,9}"
    unfolding digitValue_def
    by (simp split: option.split)
  then show ?thesis by auto
qed

lemma digitsValue_snoc: "digitsValue (s @ [c]) = digitsValue s * 10 + digitValue c"
  by (simp add: digitsValue_def)

lemma digitsValue_bounds: "0 \<le> digitsValue s \<and> digitsValue s < 10 ^ length s"
proof (induction s rule: rev_induct)
  case Nil
  then show ?case by (simp add: digitsValue_def)
next
  case (snoc c s)
  have d: "0 \<le> digitValue c \<and> digitValue c \<le> 9" by (rule digitValue_le)
  from snoc d show ?case by (simp add: digitsValue_snoc)
qed

lemma digitsValue_short:
  assumes "length s \<le> 10"
  shows "digitsValue s \<le> 9999999999"
proof -
  have "digitsValue s < 10 ^ length s" using digitsValue_bounds by blast
  also have "(10::int) ^ length s \<le> 10 ^ 10"
    using assms by (intro power_increasing) simp_all
  finally show ?thesis by simp
qed

lemma parseTimestamp_digits:
  assumes "trim s \<noteq> []" and "list_all isDigit (trim s)"
  shows "parseTimestamp dp (JStr s) = fromEpoch (Fin (of_int (digitsValue (trim s))))"
  using assms by (simp add: Let_def)

text \<open>
  Claim C8, as the code has it. \<open>parseTimestamp\<close> returns null for null, undefined, a
  blank string, a non-finite number, an invalid date, and for a boolean, an array or an
  object; it returns a valid date as it is. A finite number is epoch seconds (multiplied
  by 1000, the product rounded to a double) when its value is at most 9999999999 and epoch
  milliseconds when it is larger; the date is returned when the milliseconds lie within
  8.64e15 of the epoch (its time value is the milliseconds with the fraction cut off), null
  otherwise. For an integer from -9007199254740 to 9007199254740992 that is the integer
  times 1000, or the integer itself above 9999999999. A string that is all digits after
  trimming is read as that number: with at most 10 digits it is always seconds, and it is
  milliseconds when its value exceeds 9999999999. Any other non-blank string is given to
  the date parser, whose result (null when it cannot parse) is returned.
\<close>

theorem parseTimestamp_cases:
  "parseTimestamp dp JNull = None
   \<and> parseTimestamp dp JUndefined = None
   \<and> parseTimestamp dp (JDate (Some t)) = Some t
   \<and> parseTimestamp dp (JDate None) = None
   \<and> parseTimestamp dp (JNum PosInf) = None
   \<and> parseTimestamp dp (JNum NegInf) = None
   \<and> parseTimestamp dp (JNum NaN) = None
   \<and> parseTimestamp dp (JNum (Fin v)) =
        (case toDouble v of
           Fin x \<Rightarrow>
             (case (if x \<le> 9999999999 then toDouble (x * 1000) else Fin x) of
                Fin ms \<Rightarrow>
                  if \<bar>ms\<bar> \<le> 8640000000000000 then Some (if 0 \<le> ms then \<lfloor>ms\<rfloor> else \<lceil>ms\<rceil>)
                  else None
              | _ \<Rightarrow> None)
         | _ \<Rightarrow> None)
   \<and> (- 9007199254740 \<le> n \<and> n \<le> 9007199254740992 \<longrightarrow>
        parseTimestamp dp (JNum (Fin (of_int n))) =
          (let ms = (if n \<le> 9999999999 then n * 1000 else n)
           in if \<bar>ms\<bar> \<le> 8640000000000000 then Some ms else None))
   \<and> (trim s = [] \<longrightarrow> parseTimestamp dp (JStr s) = None)
   \<and> (trim s \<noteq> [] \<and> list_all isDigit (trim s) \<longrightarrow>
        parseTimestamp dp (JStr s) = parseTimestamp dp (JNum (Fin (of_int (digitsValue (trim s))))))
   \<and> (trim s \<noteq> [] \<and> list_all isDigit (trim s) \<and> length (trim s) \<le> 10 \<longrightarrow>
        parseTimestamp dp (JStr s) = Some (digitsValue (trim s) * 1000))
   \<and> (trim s \<noteq> [] \<and> list_all isDigit (trim s) \<and> 9999999999 < digitsValue (trim s)
        \<and> digitsValue (trim s) \<le> 8640000000000000 \<longrightarrow>
        parseTimestamp dp (JStr s) = Some (digitsValue (trim s)))
   \<and> (trim s \<noteq> [] \<and> \<not> list_all isDigit (trim s) \<longrightarrow>
        parseTimestamp dp (JStr s) = dp (trim s))
   \<and> parseTimestamp dp (JBool b) = None
   \<and> parseTimestamp dp (JArr xs) = None
   \<and> parseTimestamp dp (JObj kvs) = None"
proof -
  have num: "parseTimestamp dp (JNum (Fin v)) =
        (case toDouble v of
           Fin x \<Rightarrow>
             (case (if x \<le> 9999999999 then toDouble (x * 1000) else Fin x) of
                Fin ms \<Rightarrow>
                  if \<bar>ms\<bar> \<le> 8640000000000000 then Some (if 0 \<le> ms then \<lfloor>ms\<rfloor> else \<lceil>ms\<rceil>)
                  else None
              | _ \<Rightarrow> None)
         | _ \<Rightarrow> None)"
    by (simp add: fromEpoch_def newDate_def not_less split: jsnum.split)
  have int: "- 9007199254740 \<le> n \<and> n \<le> 9007199254740992 \<longrightarrow>
        parseTimestamp dp (JNum (Fin (of_int n))) =
          (let ms = (if n \<le> 9999999999 then n * 1000 else n)
           in if \<bar>ms\<bar> \<le> 8640000000000000 then Some ms else None)"
    using fromEpoch_int[of n] by simp
  have blank: "trim s = [] \<longrightarrow> parseTimestamp dp (JStr s) = None"
    by simp
  have dig: "trim s \<noteq> [] \<and> list_all isDigit (trim s) \<longrightarrow>
        parseTimestamp dp (JStr s) = parseTimestamp dp (JNum (Fin (of_int (digitsValue (trim s)))))"
    using parseTimestamp_digits[of s dp] by simp
  have short: "trim s \<noteq> [] \<and> list_all isDigit (trim s) \<and> length (trim s) \<le> 10 \<longrightarrow>
        parseTimestamp dp (JStr s) = Some (digitsValue (trim s) * 1000)"
  proof (intro impI)
    assume a: "trim s \<noteq> [] \<and> list_all isDigit (trim s) \<and> length (trim s) \<le> 10"
    have le: "digitsValue (trim s) \<le> 9999999999" using a digitsValue_short by blast
    have ge: "0 \<le> digitsValue (trim s)" using digitsValue_bounds by blast
    have "parseTimestamp dp (JStr s) = fromEpoch (Fin (of_int (digitsValue (trim s))))"
      using a parseTimestamp_digits by blast
    also have "\<dots> = Some (digitsValue (trim s) * 1000)"
      using le ge fromEpoch_int[of "digitsValue (trim s)"] by simp
    finally show "parseTimestamp dp (JStr s) = Some (digitsValue (trim s) * 1000)" .
  qed
  have long: "trim s \<noteq> [] \<and> list_all isDigit (trim s) \<and> 9999999999 < digitsValue (trim s)
        \<and> digitsValue (trim s) \<le> 8640000000000000 \<longrightarrow>
        parseTimestamp dp (JStr s) = Some (digitsValue (trim s))"
  proof (intro impI)
    assume a: "trim s \<noteq> [] \<and> list_all isDigit (trim s) \<and> 9999999999 < digitsValue (trim s)
        \<and> digitsValue (trim s) \<le> 8640000000000000"
    have "parseTimestamp dp (JStr s) = fromEpoch (Fin (of_int (digitsValue (trim s))))"
      using a parseTimestamp_digits by blast
    also have "\<dots> = Some (digitsValue (trim s))"
      using a fromEpoch_int[of "digitsValue (trim s)"] by simp
    finally show "parseTimestamp dp (JStr s) = Some (digitsValue (trim s))" .
  qed
  have iso: "trim s \<noteq> [] \<and> \<not> list_all isDigit (trim s) \<longrightarrow>
        parseTimestamp dp (JStr s) = dp (trim s)"
    by (simp add: Let_def)
  have rest: "parseTimestamp dp JNull = None \<and> parseTimestamp dp JUndefined = None
      \<and> parseTimestamp dp (JDate (Some t)) = Some t \<and> parseTimestamp dp (JDate None) = None
      \<and> parseTimestamp dp (JNum PosInf) = None \<and> parseTimestamp dp (JNum NegInf) = None
      \<and> parseTimestamp dp (JNum NaN) = None \<and> parseTimestamp dp (JBool b) = None
      \<and> parseTimestamp dp (JArr xs) = None \<and> parseTimestamp dp (JObj kvs) = None"
    by (simp add: fromEpoch_def)
  from rest num int blank dig short long iso show ?thesis by blast
qed

theorem parseTimestamp_cases_witness:
  "parseTimestamp (\<lambda>s. if s = ''2025-02-09T14:40:00.000Z'' then Some 1739112000000 else None)
      (JStr ''1739112000'') = Some 1739112000000
   \<and> parseTimestamp (\<lambda>s. if s = ''2025-02-09T14:40:00.000Z'' then Some 1739112000000 else None)
      (JStr ''1739112000000'') = Some 1739112000000
   \<and> parseTimestamp (\<lambda>s. if s = ''2025-02-09T14:40:00.000Z'' then Some 1739112000000 else None)
      (JStr ([CHR 0xA0] @ ''1739112000'')) = Some 1739112000000
   \<and> parseTimestamp (\<lambda>s. if s = ''2025-02-09T14:40:00.000Z'' then Some 1739112000000 else None)
      (JNum (Fin 1739112000)) = Some 1739112000000
   \<and> parseTimestamp (\<lambda>s. if s = ''2025-02-09T14:40:00.000Z'' then Some 1739112000000 else None)
      (JStr '' 2025-02-09T14:40:00.000Z '') = Some 1739112000000
   \<and> parseTimestamp (\<lambda>s. if s = ''2025-02-09T14:40:00.000Z'' then Some 1739112000000 else None)
      (JStr ''soon'') = None
   \<and> parseTimestamp (\<lambda>s. if s = ''2025-02-09T14:40:00.000Z'' then Some 1739112000000 else None)
      (JStr ''   '') = None"
proof -
  let ?dp = "\<lambda>s. if s = ''2025-02-09T14:40:00.000Z'' then Some (1739112000000::int) else None"
  have t1: "trim ''1739112000'' = ''1739112000'' \<and> list_all isDigit ''1739112000''
      \<and> digitsValue ''1739112000'' = 1739112000"
    by code_simp
  have t2: "trim ''1739112000000'' = ''1739112000000'' \<and> list_all isDigit ''1739112000000''
      \<and> digitsValue ''1739112000000'' = 1739112000000"
    by code_simp
  have t3: "trim ([CHR 0xA0] @ ''1739112000'') = ''1739112000''"
    by code_simp
  have t4: "trim '' 2025-02-09T14:40:00.000Z '' = ''2025-02-09T14:40:00.000Z''
      \<and> \<not> list_all isDigit ''2025-02-09T14:40:00.000Z''"
    by code_simp
  have t5: "trim ''soon'' = ''soon'' \<and> \<not> list_all isDigit ''soon''"
    by code_simp
  have t6: "trim ''   '' = []"
    by code_simp
  have w1: "parseTimestamp ?dp (JStr ''1739112000'') = Some 1739112000000"
    using parseTimestamp_cases[of ?dp 0 0 0 "''1739112000''" True "[]" "[]"] t1 by simp
  have w2: "parseTimestamp ?dp (JStr ''1739112000000'') = Some 1739112000000"
    using parseTimestamp_cases[of ?dp 0 0 0 "''1739112000000''" True "[]" "[]"] t2 by simp
  have w3: "parseTimestamp ?dp (JStr ([CHR 0xA0] @ ''1739112000'')) = Some 1739112000000"
    using parseTimestamp_cases[of ?dp 0 0 0 "[CHR 0xA0] @ ''1739112000''" True "[]" "[]"] t1 t3
    by simp
  have w4: "parseTimestamp ?dp (JNum (Fin 1739112000)) = Some 1739112000000"
    using parseTimestamp_cases[of ?dp 0 0 1739112000 "[]" True "[]" "[]"] by simp
  have w5: "parseTimestamp ?dp (JStr '' 2025-02-09T14:40:00.000Z '') = Some 1739112000000"
    using parseTimestamp_cases[of ?dp 0 0 0 "'' 2025-02-09T14:40:00.000Z ''" True "[]" "[]"] t4
    by simp
  have w6: "parseTimestamp ?dp (JStr ''soon'') = None"
    using parseTimestamp_cases[of ?dp 0 0 0 "''soon''" True "[]" "[]"] t5 by simp
  have w7: "parseTimestamp ?dp (JStr ''   '') = None"
    using parseTimestamp_cases[of ?dp 0 0 0 "''   ''" True "[]" "[]"] t6 by simp
  from w1 w2 w3 w4 w5 w6 w7 show ?thesis by simp
qed

text \<open>
  Numbers with a fraction: 1739112000.5 seconds is 1739112000500 ms; the double written
  1.999 is slightly below 1.999 and its product with 1000 rounds to 1999; a time of 1.5 ms
  is cut to 1 ms.
\<close>

lemma parseTimestamp_fractions:
  "parseTimestamp dp (JNum (Fin (3478224001 / 2))) = Some 1739112000500
   \<and> parseTimestamp dp (JNum (Fin (1999 / 1000))) = Some 1999
   \<and> parseTimestamp dp (JNum (Fin (15 / 10000))) = Some 1
   \<and> parseTimestamp dp (JNum (Fin (- 15 / 10000))) = Some (- 1)
   \<and> parseTimestamp dp (JNum (Fin (10 ^ 400))) = None"
  by code_simp

text \<open>
  The digit count does not decide between seconds and milliseconds: the 11-digit string
  \<open>00000000001\<close> has the value 1, is taken as seconds and yields the date 1000 ms, not
  the date 1 ms.
\<close>

theorem parseTimestamp_digit_count_counterexample:
  "list_all isDigit ''00000000001''
   \<and> length ''00000000001'' > 10
   \<and> parseTimestamp (\<lambda>s. None) (JStr ''00000000001'') = Some 1000
   \<and> parseTimestamp (\<lambda>s. None) (JStr ''00000000001'') \<noteq> Some (digitsValue ''00000000001'')"
  by code_simp


subsection \<open>The order of the variants\<close>

lemma normalizeTemplate_matches:
  "normalizeTemplate dp p \<noteq> None \<longleftrightarrow>
     (templateStatusOf p \<noteq> None \<or> truthy (templateNameOf p) \<or> truthy (templateProviderIdOf p))
     \<and> (templateStatusOf p \<noteq> None
          \<or> (case eventTypeHintOf p of None \<Rightarrow> False | Some h \<Rightarrow> includesStr h ''template''))"
  by (auto simp: normalizeTemplate_def Let_def)

lemma normalizeMessage_matches:
  "normalizeMessage dp p \<noteq> None \<longleftrightarrow>
     (truthy (messageIdOf p) \<or> truthy (whatsappMessageIdOf p) \<or> messageStatusOf p \<noteq> None)
     \<and> \<not> (truthy (templateHintOf p) \<and> \<not> truthy (messageIdOf p) \<and> \<not> truthy (whatsappMessageIdOf p))"
  by (auto simp: normalizeMessage_def Let_def)

lemma normalizeUser_matches:
  "normalizeUser dp p \<noteq> None \<longleftrightarrow> (consentEventOf p \<noteq> None \<or> truthy (phoneOf p))"
  by (auto simp: normalizeUser_def Let_def)

lemma normalize_kind:
  "kindOf (normalize dp p) =
     (if normalizeTemplate dp p \<noteq> None then TEMPLATE
      else if normalizeMessage dp p \<noteq> None then MESSAGE
      else if normalizeUser dp p \<noteq> None then USER
      else UNKNOWN)"
  by (simp add: normalize_def split: option.splits)





section \<open>Recipient projection (repos/recipient.repo.ts)\<close>

text \<open>
  A nullable column is an \<open>option\<close>; a \<open>DATETIME\<close> column holds the time value of
  the date in milliseconds. The JSON column \<open>error\<close> holds the JSON value itself.
\<close>

datatype RecipientStatus =
  PENDING | SKIPPED | SUBMITTED | SENT | DELIVERED | READ | FAILED | RETRYING

datatype Transition = UPGRADE | SAME | IGNORE

fun STATUS_RANK :: "RecipientStatus \<Rightarrow> nat" where
  "STATUS_RANK PENDING = 0"
| "STATUS_RANK SKIPPED = 0"
| "STATUS_RANK SUBMITTED = 1"
| "STATUS_RANK RETRYING = 1"
| "STATUS_RANK SENT = 2"
| "STATUS_RANK DELIVERED = 3"
| "STATUS_RANK READ = 4"
| "STATUS_RANK FAILED = 5"

fun TARGET_STATUS_BY_MESSAGE_EVENT :: "MessageStatus \<Rightarrow> RecipientStatus" where
  "TARGET_STATUS_BY_MESSAGE_EVENT accepted = SUBMITTED"
| "TARGET_STATUS_BY_MESSAGE_EVENT sent = SENT"
| "TARGET_STATUS_BY_MESSAGE_EVENT delivered = DELIVERED"
| "TARGET_STATUS_BY_MESSAGE_EVENT read = READ"
| "TARGET_STATUS_BY_MESSAGE_EVENT failed = FAILED"

definition evaluateTransition ::
  "RecipientStatus \<Rightarrow> RecipientStatus \<Rightarrow> MessageStatus \<Rightarrow> Transition" where
  "evaluateTransition current target sourceStatus =
     (if sourceStatus = failed then
        (if current = READ then IGNORE
         else if current = FAILED then SAME
         else UPGRADE)
      else if current = FAILED then IGNORE
      else if STATUS_RANK target > STATUS_RANK current then UPGRADE
      else if STATUS_RANK target = STATUS_RANK current \<and> target = current then SAME
      else IGNORE)"

definition shouldSetLastEventAt :: "int option \<Rightarrow> int \<Rightarrow> bool" where
  "shouldSetLastEventAt current candidate =
     (case current of None \<Rightarrow> True | Some c \<Rightarrow> candidate > c)"

record RecipientRow =
  rc_id :: nat
  rc_status :: RecipientStatus
  rc_gupshup_message_id :: "string option"
  rc_whatsapp_message_id :: "string option"
  rc_accepted_at :: "int option"
  rc_sent_at :: "int option"
  rc_reached_at :: "int option"
  rc_failed_at :: "int option"
  rc_last_event_at :: "int option"
  rc_last_error_code :: "string option"
  rc_last_error_reason :: "string option"
  rc_error :: "jsval option"
  rc_updated_at :: "int option"

text \<open>One entry of the \<open>updates\<close> array: a column assignment together with its parameter.\<close>

datatype RecipientUpdate =
  SetStatus RecipientStatus
| SetWhatsappMessageId string
| SetLastEventAt int
| SetAcceptedAt int
| SetSentAt int
| SetReachedAt int
| SetFailedAt int
| SetLastErrorCode string
| SetLastErrorReason string
| SetError jsval

datatype ApplyResult = UPDATED | NOOP | NOT_FOUND

text \<open>
  The body of \<open>applyMessageEvent\<close> from the point where the recipient row has been
  found and the event status is known: the transition, \<open>nextStatus\<close> and the list of
  column updates, in the order the source pushes them. \<open>None\<close> is the early
  \<open>return 'NOOP'\<close> on \<open>IGNORE\<close>.
\<close>

definition nextStatus :: "RecipientRow \<Rightarrow> MessageStatus \<Rightarrow> RecipientStatus option" where
  "nextStatus recipient st =
     (let targetStatus = TARGET_STATUS_BY_MESSAGE_EVENT st;
          transition = evaluateTransition (rc_status recipient) targetStatus st
      in if transition = UPGRADE \<or> (st = failed \<and> rc_status recipient \<noteq> FAILED)
         then Some targetStatus else None)"

definition statusUpdate :: "RecipientRow \<Rightarrow> MessageStatus \<Rightarrow> RecipientUpdate list" where
  "statusUpdate recipient st =
     (case nextStatus recipient st of
        Some ns \<Rightarrow> (if ns \<noteq> rc_status recipient then [SetStatus ns] else [])
      | None \<Rightarrow> [])"

definition otherUpdates ::
  "RecipientRow \<Rightarrow> NormalizedMessageEvent \<Rightarrow> MessageStatus \<Rightarrow> int \<Rightarrow> Transition \<Rightarrow> RecipientUpdate list" where
  "otherUpdates recipient event st eventAt transition =
     (if \<not> truthy (rc_whatsapp_message_id recipient) \<and> truthy (me_whatsappMessageId event)
      then [SetWhatsappMessageId (the (me_whatsappMessageId event))] else [])
     @ (if transition = UPGRADE \<and> shouldSetLastEventAt (rc_last_event_at recipient) eventAt
        then [SetLastEventAt eventAt] else [])
     @ (if st = accepted \<and> rc_accepted_at recipient = None then [SetAcceptedAt eventAt] else [])
     @ (if st = sent \<and> rc_sent_at recipient = None then [SetSentAt eventAt] else [])
     @ (if (st = delivered \<or> st = read) \<and> rc_reached_at recipient = None
        then [SetReachedAt eventAt] else [])
     @ (if st = failed \<and> rc_status recipient \<noteq> READ then
          (if rc_failed_at recipient = None then [SetFailedAt eventAt] else [])
          @ (if truthy (me_errorCode event) then [SetLastErrorCode (the (me_errorCode event))] else [])
          @ (if truthy (me_errorReason event)
             then [SetLastErrorReason (the (me_errorReason event))] else [])
          @ (case me_errorPayload event of Some j \<Rightarrow> [SetError j] | None \<Rightarrow> [])
        else [])"

definition recipientUpdates ::
  "RecipientRow \<Rightarrow> NormalizedMessageEvent \<Rightarrow> MessageStatus \<Rightarrow> int \<Rightarrow> RecipientUpdate list option" where
  "recipientUpdates recipient event st eventAt =
     (let targetStatus = TARGET_STATUS_BY_MESSAGE_EVENT st;
          transition = evaluateTransition (rc_status recipient) targetStatus st
      in if transition = IGNORE then None
         else Some (statusUpdate recipient st @ otherUpdates recipient event st eventAt transition))"


text \<open>The SQL \<open>UPDATE ... SET\<close> applied to the row, one assignment at a time.\<close>

fun applyUpdate :: "RecipientUpdate \<Rightarrow> RecipientRow \<Rightarrow> RecipientRow" where
  "applyUpdate (SetStatus s) r = r\<lparr>rc_status := s\<rparr>"
| "applyUpdate (SetWhatsappMessageId w) r = r\<lparr>rc_whatsapp_message_id := Some w\<rparr>"
| "applyUpdate (SetLastEventAt t) r = r\<lparr>rc_last_event_at := Some t\<rparr>"
| "applyUpdate (SetAcceptedAt t) r = r\<lparr>rc_accepted_at := Some t\<rparr>"
| "applyUpdate (SetSentAt t) r = r\<lparr>rc_sent_at := Some t\<rparr>"
| "applyUpdate (SetReachedAt t) r = r\<lparr>rc_reached_at := Some t\<rparr>"
| "applyUpdate (SetFailedAt t) r = r\<lparr>rc_failed_at := Some t\<rparr>"
| "applyUpdate (SetLastErrorCode c) r = r\<lparr>rc_last_error_code := Some c\<rparr>"
| "applyUpdate (SetLastErrorReason c) r = r\<lparr>rc_last_error_reason := Some c\<rparr>"
| "applyUpdate (SetError j) r = r\<lparr>rc_error := Some j\<rparr>"

definition applyUpdates :: "RecipientUpdate list \<Rightarrow> int \<Rightarrow> RecipientRow \<Rightarrow> RecipientRow" where
  "applyUpdates updates now r = (fold applyUpdate updates r)\<lparr>rc_updated_at := Some now\<rparr>"


subsection \<open>The transition decision\<close>












section \<open>Consent projection (repos/consent.repo.ts)\<close>

text \<open>
  The table \<open>whatsapp_marketing_current\<close> is a list of rows. \<open>selectCurrent\<close> is the
  locking \<open>SELECT\<close> (\<open>rows[0]\<close>, or null when there is none); \<open>upsertCurrentRows\<close> is the
  effect of \<open>upsertMarketingCurrent\<close> on the table: the \<open>INSERT\<close> when no row was found,
  the \<open>UPDATE ... WHERE user_id = ? AND company_id = ?\<close> otherwise. \<open>date_le\<close> orders
  nullable timestamps with null below every date.
\<close>

datatype ConsentType = CT_OPT_IN | CT_OPT_OUT

datatype CurrentStatus = CUR_UNKNOWN | CUR_OPT_IN | CUR_OPT_OUT

record MarketingCurrentRow =
  mc_user_id :: nat
  mc_company_id :: nat
  mc_status :: CurrentStatus
  mc_last_opt_in_at :: "int option"
  mc_last_opt_out_at :: "int option"
  mc_updated_at :: int

definition maxDate :: "int option \<Rightarrow> int \<Rightarrow> int" where
  "maxDate existing candidate =
     (case existing of None \<Rightarrow> candidate
      | Some e \<Rightarrow> if e \<ge> candidate then e else candidate)"

definition computeStatus :: "int option \<Rightarrow> int option \<Rightarrow> CurrentStatus" where
  "computeStatus lastOptIn lastOptOut =
     (if lastOptIn \<noteq> None \<and> lastOptOut \<noteq> None then
        (if the lastOptIn \<ge> the lastOptOut then CUR_OPT_IN else CUR_OPT_OUT)
      else if lastOptIn \<noteq> None then CUR_OPT_IN
      else if lastOptOut \<noteq> None then CUR_OPT_OUT
      else CUR_UNKNOWN)"

definition selectCurrent :: "MarketingCurrentRow list \<Rightarrow> nat \<Rightarrow> nat \<Rightarrow> MarketingCurrentRow option" where
  "selectCurrent tbl userId companyId =
     find (\<lambda>r. mc_user_id r = userId \<and> mc_company_id r = companyId) tbl"

definition nextLastOptIn :: "MarketingCurrentRow option \<Rightarrow> ConsentType \<Rightarrow> int \<Rightarrow> int option" where
  "nextLastOptIn current eventType eventAt =
     (let existing = (case current of None \<Rightarrow> None | Some c \<Rightarrow> mc_last_opt_in_at c)
      in if eventType = CT_OPT_IN then Some (maxDate existing eventAt) else existing)"

definition nextLastOptOut :: "MarketingCurrentRow option \<Rightarrow> ConsentType \<Rightarrow> int \<Rightarrow> int option" where
  "nextLastOptOut current eventType eventAt =
     (let existing = (case current of None \<Rightarrow> None | Some c \<Rightarrow> mc_last_opt_out_at c)
      in if eventType = CT_OPT_OUT then Some (maxDate existing eventAt) else existing)"

definition upsertCurrentRows ::
  "int \<Rightarrow> MarketingCurrentRow list \<Rightarrow> nat \<Rightarrow> nat \<Rightarrow> ConsentType \<Rightarrow> int \<Rightarrow> MarketingCurrentRow list" where
  "upsertCurrentRows now tbl userId companyId eventType eventAt =
     (let current = selectCurrent tbl userId companyId;
          nextIn = nextLastOptIn current eventType eventAt;
          nextOut = nextLastOptOut current eventType eventAt;
          nextSt = computeStatus nextIn nextOut
      in case current of
           None \<Rightarrow>
             tbl @ [\<lparr>mc_user_id = userId, mc_company_id = companyId, mc_status = nextSt,
                     mc_last_opt_in_at = nextIn, mc_last_opt_out_at = nextOut,
                     mc_updated_at = now\<rparr>]
         | Some _ \<Rightarrow>
             map (\<lambda>r. if mc_user_id r = userId \<and> mc_company_id r = companyId
                       then r\<lparr>mc_status := nextSt, mc_last_opt_in_at := nextIn,
                              mc_last_opt_out_at := nextOut, mc_updated_at := now\<rparr>
                       else r) tbl)"

definition date_le :: "int option \<Rightarrow> int option \<Rightarrow> bool" where
  "date_le a b = (case a of None \<Rightarrow> True | Some x \<Rightarrow> (case b of None \<Rightarrow> False | Some y \<Rightarrow> x \<le> y))"

lemma selectCurrent_None:
  "selectCurrent tbl u c = None \<longleftrightarrow> (\<forall>r \<in> set tbl. \<not> (mc_user_id r = u \<and> mc_company_id r = c))"
  by (auto simp: selectCurrent_def find_None_iff)

lemma selectCurrent_Some:
  "selectCurrent tbl u c = Some r \<Longrightarrow> r \<in> set tbl \<and> mc_user_id r = u \<and> mc_company_id r = c"
  unfolding selectCurrent_def by (auto simp: find_Some_iff)

lemma selectCurrent_exists:
  "r \<in> set tbl \<Longrightarrow> mc_user_id r = u \<and> mc_company_id r = c \<Longrightarrow> \<exists>r'. selectCurrent tbl u c = Some r'"
  using selectCurrent_None[of tbl u c] by (cases "selectCurrent tbl u c") auto

lemma maxDate_ge: "date_le e (Some (maxDate e t))"
  by (simp add: maxDate_def date_le_def split: option.splits)

lemma date_le_refl: "date_le e e"
  by (simp add: date_le_def split: option.splits)

lemma maxDate_max: "maxDate None t = t" "maxDate (Some e) t = max e t"
  by (auto simp: maxDate_def)

lemma computeStatus_rule:
  "computeStatus (Some i) None = CUR_OPT_IN"
  "computeStatus None (Some ou) = CUR_OPT_OUT"
  "computeStatus None None = CUR_UNKNOWN"
  "computeStatus (Some i) (Some ou) = (if i \<ge> ou then CUR_OPT_IN else CUR_OPT_OUT)"
  by (simp_all add: computeStatus_def)

lemma upsert_row:
  assumes "r \<in> set (upsertCurrentRows now tbl u c ty t)"
    and "mc_user_id r = u" and "mc_company_id r = c"
  shows "mc_last_opt_in_at r = nextLastOptIn (selectCurrent tbl u c) ty t
       \<and> mc_last_opt_out_at r = nextLastOptOut (selectCurrent tbl u c) ty t
       \<and> mc_status r = computeStatus (mc_last_opt_in_at r) (mc_last_opt_out_at r)"
proof (cases "selectCurrent tbl u c")
  case None
  then have notin: "r \<notin> set tbl"
    using assms(2,3) selectCurrent_None[of tbl u c] by blast
  from None assms(1) notin show ?thesis
    by (simp add: upsertCurrentRows_def Let_def)
next
  case (Some cur)
  from Some assms(1) obtain r0 where r0: "r0 \<in> set tbl"
    and r: "r = (if mc_user_id r0 = u \<and> mc_company_id r0 = c
       then r0\<lparr>mc_status := computeStatus (nextLastOptIn (Some cur) ty t) (nextLastOptOut (Some cur) ty t),
              mc_last_opt_in_at := nextLastOptIn (Some cur) ty t,
              mc_last_opt_out_at := nextLastOptOut (Some cur) ty t, mc_updated_at := now\<rparr>
       else r0)"
    by (auto simp: upsertCurrentRows_def Let_def)
  show ?thesis
  proof (cases "mc_user_id r0 = u \<and> mc_company_id r0 = c")
    case True
    then show ?thesis using r Some by simp
  next
    case False
    have "r = r0" using r unfolding if_not_P[OF False] .
    then show ?thesis using False assms(2,3) by simp
  qed
qed

lemma upsert_exists: "\<exists>r. selectCurrent (upsertCurrentRows now tbl u c ty t) u c = Some r"
proof (cases "selectCurrent tbl u c")
  case None
  let ?n = "\<lparr>mc_user_id = u, mc_company_id = c,
      mc_status = computeStatus (nextLastOptIn None ty t) (nextLastOptOut None ty t),
      mc_last_opt_in_at = nextLastOptIn None ty t, mc_last_opt_out_at = nextLastOptOut None ty t,
      mc_updated_at = now\<rparr>"
  have "?n \<in> set (upsertCurrentRows now tbl u c ty t)"
    using None by (simp add: upsertCurrentRows_def Let_def)
  then show ?thesis by (rule selectCurrent_exists) simp
next
  case (Some cur)
  note mem = selectCurrent_Some[OF Some]
  let ?f = "\<lambda>r. if mc_user_id r = u \<and> mc_company_id r = c
       then r\<lparr>mc_status := computeStatus (nextLastOptIn (Some cur) ty t) (nextLastOptOut (Some cur) ty t),
              mc_last_opt_in_at := nextLastOptIn (Some cur) ty t,
              mc_last_opt_out_at := nextLastOptOut (Some cur) ty t, mc_updated_at := now\<rparr>
       else r"
  have eq: "upsertCurrentRows now tbl u c ty t = map ?f tbl"
    using Some by (simp add: upsertCurrentRows_def Let_def)
  have "cur \<in> set tbl" using mem by simp
  then have "?f cur \<in> ?f ` set tbl" by (rule imageI)
  then have "?f cur \<in> set (map ?f tbl)" by (simp only: set_map)
  then have "?f cur \<in> set (upsertCurrentRows now tbl u c ty t)" by (simp only: eq)
  then show ?thesis by (rule selectCurrent_exists) (simp add: mem)
qed

lemma nextLastOptIn_mono:
  "date_le (case cur of None \<Rightarrow> None | Some r \<Rightarrow> mc_last_opt_in_at r) (nextLastOptIn cur ty t)"
  using maxDate_ge date_le_refl by (simp add: nextLastOptIn_def Let_def)

lemma nextLastOptOut_mono:
  "date_le (case cur of None \<Rightarrow> None | Some r \<Rightarrow> mc_last_opt_out_at r) (nextLastOptOut cur ty t)"
  using maxDate_ge date_le_refl by (simp add: nextLastOptOut_def Let_def)

text \<open>
  The table after the upsert: the aggregate row of the pair exists, its status is the
  value \<open>computeStatus\<close> derives from its two timestamps, and neither timestamp has
  decreased.
\<close>

lemma upsertCurrentRows_status_derived:
  fixes tbl u c ty t now
  defines "tbl' \<equiv> upsertCurrentRows now tbl u c ty t"
  defines "old \<equiv> selectCurrent tbl u c"
  defines "oldIn \<equiv> (case old of None \<Rightarrow> None | Some r \<Rightarrow> mc_last_opt_in_at r)"
  defines "oldOut \<equiv> (case old of None \<Rightarrow> None | Some r \<Rightarrow> mc_last_opt_out_at r)"
  shows "(\<exists>r. selectCurrent tbl' u c = Some r)
    \<and> (\<forall>r \<in> set tbl'. mc_user_id r = u \<and> mc_company_id r = c \<longrightarrow>
          mc_status r = computeStatus (mc_last_opt_in_at r) (mc_last_opt_out_at r)
        \<and> mc_last_opt_in_at r = (if ty = CT_OPT_IN then Some (maxDate oldIn t) else oldIn)
        \<and> mc_last_opt_out_at r = (if ty = CT_OPT_OUT then Some (maxDate oldOut t) else oldOut)
        \<and> date_le oldIn (mc_last_opt_in_at r) \<and> date_le oldOut (mc_last_opt_out_at r))
    \<and> (\<forall>i ou. computeStatus (Some i) None = CUR_OPT_IN
          \<and> computeStatus None (Some ou) = CUR_OPT_OUT
          \<and> computeStatus None None = CUR_UNKNOWN
          \<and> computeStatus (Some i) (Some ou) = (if i \<ge> ou then CUR_OPT_IN else CUR_OPT_OUT))
    \<and> (\<forall>e. maxDate None t = t \<and> maxDate (Some e) t = max e t)"
proof (intro conjI)
  show "\<exists>r. selectCurrent tbl' u c = Some r"
    unfolding tbl'_def by (rule upsert_exists)
  show "\<forall>r \<in> set tbl'. mc_user_id r = u \<and> mc_company_id r = c \<longrightarrow>
          mc_status r = computeStatus (mc_last_opt_in_at r) (mc_last_opt_out_at r)
        \<and> mc_last_opt_in_at r = (if ty = CT_OPT_IN then Some (maxDate oldIn t) else oldIn)
        \<and> mc_last_opt_out_at r = (if ty = CT_OPT_OUT then Some (maxDate oldOut t) else oldOut)
        \<and> date_le oldIn (mc_last_opt_in_at r) \<and> date_le oldOut (mc_last_opt_out_at r)"
  proof (intro ballI impI)
    fix r assume mem: "r \<in> set tbl'" and key: "mc_user_id r = u \<and> mc_company_id r = c"
    from upsert_row[OF mem[unfolded tbl'_def]] key
    have f: "mc_last_opt_in_at r = nextLastOptIn old ty t"
      "mc_last_opt_out_at r = nextLastOptOut old ty t"
      "mc_status r = computeStatus (mc_last_opt_in_at r) (mc_last_opt_out_at r)"
      by (simp_all add: old_def)
    have i: "nextLastOptIn old ty t = (if ty = CT_OPT_IN then Some (maxDate oldIn t) else oldIn)"
      by (simp add: nextLastOptIn_def oldIn_def Let_def)
    have o: "nextLastOptOut old ty t = (if ty = CT_OPT_OUT then Some (maxDate oldOut t) else oldOut)"
      by (simp add: nextLastOptOut_def oldOut_def Let_def)
    have mi: "date_le oldIn (mc_last_opt_in_at r)"
      unfolding f(1) oldIn_def by (rule nextLastOptIn_mono)
    have mo: "date_le oldOut (mc_last_opt_out_at r)"
      unfolding f(2) oldOut_def by (rule nextLastOptOut_mono)
    from f(3) f(1) f(2) i o mi mo
    show "mc_status r = computeStatus (mc_last_opt_in_at r) (mc_last_opt_out_at r)
        \<and> mc_last_opt_in_at r = (if ty = CT_OPT_IN then Some (maxDate oldIn t) else oldIn)
        \<and> mc_last_opt_out_at r = (if ty = CT_OPT_OUT then Some (maxDate oldOut t) else oldOut)
        \<and> date_le oldIn (mc_last_opt_in_at r) \<and> date_le oldOut (mc_last_opt_out_at r)"
      by simp
  qed
  show "\<forall>i ou. computeStatus (Some i) None = CUR_OPT_IN
          \<and> computeStatus None (Some ou) = CUR_OPT_OUT
          \<and> computeStatus None None = CUR_UNKNOWN
          \<and> computeStatus (Some i) (Some ou) = (if i \<ge> ou then CUR_OPT_IN else CUR_OPT_OUT)"
    by (simp add: computeStatus_def)
  show "\<forall>e. maxDate None t = t \<and> maxDate (Some e) t = max e t"
    by (auto simp: maxDate_def)
qed

lemma upsert_others:
  assumes "r \<in> set (upsertCurrentRows now tbl u c ty t)"
    and "\<not> (mc_user_id r = u \<and> mc_company_id r = c)"
  shows "r \<in> set tbl"
proof (cases "selectCurrent tbl u c")
  case None
  then show ?thesis using assms by (auto simp: upsertCurrentRows_def Let_def)
next
  case (Some cur)
  from Some assms(1) obtain r0 where r0: "r0 \<in> set tbl"
    and r: "r = (if mc_user_id r0 = u \<and> mc_company_id r0 = c
       then r0\<lparr>mc_status := computeStatus (nextLastOptIn (Some cur) ty t) (nextLastOptOut (Some cur) ty t),
              mc_last_opt_in_at := nextLastOptIn (Some cur) ty t,
              mc_last_opt_out_at := nextLastOptOut (Some cur) ty t, mc_updated_at := now\<rparr>
       else r0)"
    by (auto simp: upsertCurrentRows_def Let_def)
  show ?thesis
  proof (cases "mc_user_id r0 = u \<and> mc_company_id r0 = c")
    case True
    then show ?thesis using r assms(2) by simp
  next
    case False
    have "r = r0" using r unfolding if_not_P[OF False] .
    then show ?thesis using r0 by simp
  qed
qed


section \<open>The database and the runtime\<close>

text \<open>
  The functions of the Node runtime that the service calls are parameters of the model:
  \<open>JSON.parse\<close> (\<open>None\<close> when it throws), the date parser of \<open>new Date(string)\<close>
  (\<open>None\<close> for an invalid date) and \<open>Date.prototype.toISOString\<close>.
\<close>

record Runtime =
  JSON_parse :: "string \<Rightarrow> jsval option"
  Date_parse :: "string \<Rightarrow> int option"
  toISOString :: "int \<Rightarrow> string"

record RawEventRow =
  raw_id :: nat
  raw_app_id :: string
  raw_event_kind :: EventKind
  raw_provider_event_id :: "string option"
  raw_message_id :: "string option"
  raw_whatsapp_message_id :: "string option"
  raw_template_name :: "string option"
  raw_template_provider_id :: "string option"
  raw_event_status :: "string option"
  raw_received_at :: int
  raw_payload_json :: jsval
  raw_processed :: nat
  raw_attempts :: int
  raw_last_error :: "string option"
  raw_processed_at :: "int option"
  raw_dedupe_key :: string

datatype TemplateColumnStatus = TC_DRAFT | TC_SUBMITTED | TC_PENDING | TC_APPROVED | TC_REJECTED

fun columnStatus :: "TemplateStatus \<Rightarrow> TemplateColumnStatus" where
  "columnStatus APPROVED = TC_APPROVED"
| "columnStatus REJECTED = TC_REJECTED"
| "columnStatus T_PENDING = TC_PENDING"
| "columnStatus T_SUBMITTED = TC_SUBMITTED"

record TemplateRow =
  tp_id :: nat
  tp_company_id :: nat
  tp_integration_id :: nat
  tp_name :: string
  tp_language :: "string option"
  tp_provider_template_id :: "string option"
  tp_status :: TemplateColumnStatus
  tp_rejection_reason :: "string option"
  tp_correct_category :: "string option"
  tp_last_synced_at :: "int option"
  tp_updated_at :: "int option"

record TemplateVersionRow =
  tv_id :: nat
  tv_template_id :: nat
  tv_version_no :: nat
  tv_status :: TemplateColumnStatus
  tv_submitted_at :: "int option"
  tv_approved_at :: "int option"
  tv_rejected_at :: "int option"
  tv_rejection_reason :: "string option"
  tv_updated_at :: "int option"

record IntegrationMapping =
  ig_id :: nat
  ig_company_id :: nat
  ig_gupshup_app_id :: string
  ig_is_active :: nat

record UserRow =
  us_id :: nat
  us_columns :: "(string \<times> string) list"

record ConsentEventRow =
  ce_user_id :: nat
  ce_company_id :: nat
  ce_event_type :: ConsentType
  ce_event_at :: int

text \<open>
  The state of the database, with what the model needs of its environment: \<open>w_now\<close> is
  the clock (\<open>NOW()\<close> and \<open>new Date()\<close>); \<open>w_faults\<close> decides, statement by statement,
  whether the next statement sent to the server fails (\<open>Some message\<close>) or succeeds, so
  that every way the driver can throw is a run of the model; \<open>w_locked\<close> are the ids of
  the raw rows that other transactions hold locked; \<open>w_found_rows\<close> tells whether the
  connection counts matched rather than changed rows (the flag \<open>FOUND_ROWS\<close>);
  \<open>w_user_columns\<close> are the columns of the user table.
\<close>

record World =
  w_raw :: "RawEventRow list"
  w_recipients :: "RecipientRow list"
  w_templates :: "TemplateRow list"
  w_versions :: "TemplateVersionRow list"
  w_integrations :: "IntegrationMapping list"
  w_users :: "UserRow list"
  w_user_columns :: "string list"
  w_consent_events :: "ConsentEventRow list"
  w_current :: "MarketingCurrentRow list"
  w_now :: int
  w_faults :: "string option list"
  w_locked :: "nat list"
  w_found_rows :: bool

text \<open>
  \<open>db/mysql.service.ts\<close> creates the pool with \<open>createPool\<close> and gives it no \<open>flags\<close>,
  so its connections carry the default flags of the driver; those of \<open>mysql2\<close> include
  \<open>FOUND_ROWS\<close>. On the connections of the service \<open>w_found_rows\<close> has this value.
\<close>

definition pool_FOUND_ROWS :: bool where
  "pool_FOUND_ROWS = True"

datatype 'a Outcome = Return 'a World | Throw string World

fun bind :: "'a Outcome \<Rightarrow> ('a \<Rightarrow> World \<Rightarrow> 'b Outcome) \<Rightarrow> 'b Outcome" where
  "bind (Return a w) f = f a w"
| "bind (Throw e w) f = Throw e w"

fun worldOf :: "'a Outcome \<Rightarrow> World" where
  "worldOf (Return a w) = w"
| "worldOf (Throw e w) = w"

text \<open>One statement sent to the server: it fails when the fault plan says so.\<close>

definition query :: "World \<Rightarrow> unit Outcome" where
  "query w =
     (case w_faults w of
        [] \<Rightarrow> Return () w
      | None # fs \<Rightarrow> Return () (w\<lparr>w_faults := fs\<rparr>)
      | Some e # fs \<Rightarrow> Throw e (w\<lparr>w_faults := fs\<rparr>))"

section \<open>Raw event store (repos/raw.repo.ts)\<close>

definition trimError :: "string option \<Rightarrow> string option" where
  "trimError message =
     (case message of
        None \<Rightarrow> None
      | Some m \<Rightarrow>
          if m = [] then None
          else if length m \<le> 255 then Some m
          else Some (take 252 m @ ''...''))"

record RawEventInsertInput =
  in_appId :: string
  in_eventKind :: EventKind
  in_providerEventId :: "string option"
  in_messageId :: "string option"
  in_whatsappMessageId :: "string option"
  in_templateName :: "string option"
  in_templateProviderId :: "string option"
  in_eventStatus :: "string option"
  in_payloadJson :: jsval
  in_dedupeKey :: string

definition nextRawId :: "RawEventRow list \<Rightarrow> nat" where
  "nextRawId rows = Suc (foldr max (map raw_id rows) 0)"

text \<open>
  Modelled from the spec: the defaults of the columns \<open>processed\<close> and \<open>attempts\<close> of the
  table \<open>wpp_webhook_event_raw\<close> (\<open>processed TINYINT DEFAULT 0\<close>, \<open>attempts INT DEFAULT 0\<close>);
  the migration that creates the table is not among the sources.
\<close>

definition DEFAULT_processed :: nat where
  "DEFAULT_processed = 0"

definition DEFAULT_attempts :: int where
  "DEFAULT_attempts = 0"

text \<open>
  \<open>insertRawEvent\<close>: \<open>INSERT ... ON DUPLICATE KEY UPDATE id = id\<close> on the table with
  the unique key \<open>dedupe_key\<close>; \<open>received_at\<close> defaults to \<open>NOW()\<close>. The server answers
  \<open>affectedRows = 1\<close> for a new row; for a duplicate the update changes nothing and the
  answer is 0, or 1 on a connection that counts matched rows.
\<close>

definition newRawRow :: "RawEventInsertInput \<Rightarrow> World \<Rightarrow> RawEventRow" where
  "newRawRow input w =
     \<lparr>raw_id = nextRawId (w_raw w),
      raw_app_id = in_appId input,
      raw_event_kind = in_eventKind input,
      raw_provider_event_id = in_providerEventId input,
      raw_message_id = in_messageId input,
      raw_whatsapp_message_id = in_whatsappMessageId input,
      raw_template_name = in_templateName input,
      raw_template_provider_id = in_templateProviderId input,
      raw_event_status = in_eventStatus input,
      raw_received_at = w_now w,
      raw_payload_json = in_payloadJson input,
      raw_processed = DEFAULT_processed,
      raw_attempts = DEFAULT_attempts,
      raw_last_error = None,
      raw_processed_at = None,
      raw_dedupe_key = in_dedupeKey input\<rparr>"

definition insertRawEvent :: "RawEventInsertInput \<Rightarrow> World \<Rightarrow> bool Outcome" where
  "insertRawEvent input w =
     bind (query w) (\<lambda>_ w'.
       if in_dedupeKey input \<in> set (map raw_dedupe_key (w_raw w'))
       then (let affectedRows = (if w_found_rows w' then 1 else 0 :: nat)
             in Return (affectedRows = 1) w')
       else (let affectedRows = (1 :: nat)
             in Return (affectedRows = 1) (w'\<lparr>w_raw := w_raw w' @ [newRawRow input w']\<rparr>)))"

text \<open>
  \<open>lockNextBatch\<close>: the pending rows that no other transaction holds, oldest first, at
  most \<open>batchSize\<close> of them.
\<close>

definition lockNextBatch :: "nat \<Rightarrow> World \<Rightarrow> RawEventRow list Outcome" where
  "lockNextBatch batchSize w =
     bind (query w) (\<lambda>_ w'.
       Return (take batchSize
                 (sort_key raw_received_at
                    (filter (\<lambda>r. raw_processed r = 0 \<and> raw_id r \<notin> set (w_locked w')) (w_raw w'))))
              w')"

definition markProcessed :: "nat \<Rightarrow> string option \<Rightarrow> World \<Rightarrow> unit Outcome" where
  "markProcessed rid lastError w =
     bind (query w) (\<lambda>_ w'.
       Return ()
         (w'\<lparr>w_raw :=
            map (\<lambda>r. if raw_id r = rid
                      then r\<lparr>raw_processed := 1, raw_processed_at := Some (w_now w'),
                             raw_last_error := trimError lastError\<rparr>
                      else r) (w_raw w')\<rparr>))"

definition markFailedAttempt :: "nat \<Rightarrow> int \<Rightarrow> string \<Rightarrow> bool \<Rightarrow> World \<Rightarrow> unit Outcome" where
  "markFailedAttempt rid attempts errorMessage finalize w =
     (if finalize then
        bind (query w) (\<lambda>_ w'.
          Return ()
            (w'\<lparr>w_raw :=
               map (\<lambda>r. if raw_id r = rid
                         then r\<lparr>raw_processed := 1, raw_processed_at := Some (w_now w'),
                                raw_attempts := attempts,
                                raw_last_error := trimError (Some errorMessage)\<rparr>
                         else r) (w_raw w')\<rparr>))
      else
        bind (query w) (\<lambda>_ w'.
          Return ()
            (w'\<lparr>w_raw :=
               map (\<lambda>r. if raw_id r = rid
                         then r\<lparr>raw_processed := 0, raw_attempts := attempts,
                                raw_last_error := trimError (Some errorMessage)\<rparr>
                         else r) (w_raw w')\<rparr>)))"

text \<open>
  \<open>parsePayloadJson\<close> on the value the driver returns for the JSON column (a byte
  buffer is no value of the model).
\<close>

definition parsePayloadJson :: "Runtime \<Rightarrow> jsval \<Rightarrow> jsval" where
  "parsePayloadJson rt payload =
     (case payload of
        JNull \<Rightarrow> JNull
      | JUndefined \<Rightarrow> JNull
      | JStr s \<Rightarrow> (case JSON_parse rt s of Some v \<Rightarrow> v | None \<Rightarrow> JObj [(''_raw'', JStr s)])
      | _ \<Rightarrow> payload)"


section \<open>SHA-256 (\<open>createHash('sha256').update(material).digest('hex')\<close>)\<close>

text \<open>
  The digest of FIPS 180-4 over the UTF-8 bytes of the string (one byte for a code unit
  below 128, two for the others), written as 64 lower-case hexadecimal digits. The round
  constants \<open>K256\<close> are the first 32 bits of the fractional parts of the cube roots
  of the first 64 primes, given in decimal.
\<close>

definition K256 :: "32 word list" where
  "K256 =
     [1116352408, 1899447441, 3049323471, 3921009573,  961987163, 1508970993, 2453635748, 2870763221,
      3624381080,  310598401,  607225278, 1426881987, 1925078388, 2162078206, 2614888103, 3248222580,
      3835390401, 4022224774,  264347078,  604807628,  770255983, 1249150122, 1555081692, 1996064986,
      2554220882, 2821834349, 2952996808, 3210313671, 3336571891, 3584528711,  113926993,  338241895,
       666307205,  773529912, 1294757372, 1396182291, 1695183700, 1986661051, 2177026350, 2456956037,
      2730485921, 2820302411, 3259730800, 3345764771, 3516065817, 3600352804, 4094571909,  275423344,
       430227734,  506948616,  659060556,  883997877,  958139571, 1322822218, 1537002063, 1747873779,
      1955562222, 2024104815, 2227730452, 2361852424, 2428436474, 2756734187, 3204031479, 3329325298]"

type_synonym hash = "32 word \<times> 32 word \<times> 32 word \<times> 32 word \<times> 32 word \<times> 32 word \<times> 32 word \<times> 32 word"

definition H256 :: hash where
  "H256 = (0x6a09e667, 0xbb67ae85, 0x3c6ef372, 0xa54ff53a, 0x510e527f, 0x9b05688c, 0x1f83d9ab, 0x5be0cd19)"

definition rotr :: "nat \<Rightarrow> 32 word \<Rightarrow> 32 word" where
  "rotr n x = word_rotr n x"

definition Ch :: "32 word \<Rightarrow> 32 word \<Rightarrow> 32 word \<Rightarrow> 32 word" where
  "Ch x y z = (x AND y) XOR (NOT x AND z)"

definition Maj :: "32 word \<Rightarrow> 32 word \<Rightarrow> 32 word \<Rightarrow> 32 word" where
  "Maj x y z = (x AND y) XOR (x AND z) XOR (y AND z)"

definition Sigma0 :: "32 word \<Rightarrow> 32 word" where
  "Sigma0 x = rotr 2 x XOR rotr 13 x XOR rotr 22 x"

definition Sigma1 :: "32 word \<Rightarrow> 32 word" where
  "Sigma1 x = rotr 6 x XOR rotr 11 x XOR rotr 25 x"

definition sigma0 :: "32 word \<Rightarrow> 32 word" where
  "sigma0 x = rotr 7 x XOR rotr 18 x XOR drop_bit 3 x"

definition sigma1 :: "32 word \<Rightarrow> 32 word" where
  "sigma1 x = rotr 17 x XOR rotr 19 x XOR drop_bit 10 x"

definition utf8 :: "string \<Rightarrow> int list" where
  "utf8 s = concat (map (\<lambda>c. let n = of_char c :: int in
                               if n < 128 then [n] else [192 + n div 64, 128 + n mod 64]) s)"

definition pad :: "int list \<Rightarrow> int list" where
  "pad bs =
     (let l = int (length bs)
      in bs @ [128] @ replicate (nat ((55 - l) mod 64)) 0
         @ map (\<lambda>i. ((8 * l) div 256 ^ i) mod 256) [7, 6, 5, 4, 3, 2, 1, 0])"

fun words :: "int list \<Rightarrow> 32 word list" where
  "words (b0 # b1 # b2 # b3 # bs) = word_of_int (((b0 * 256 + b1) * 256 + b2) * 256 + b3) # words bs"
| "words _ = []"

fun blocks :: "32 word list \<Rightarrow> 32 word list list" where
  "blocks [] = []"
| "blocks ws = take 16 ws # blocks (drop 16 ws)"

fun schedule :: "nat \<Rightarrow> 32 word list \<Rightarrow> 32 word list" where
  "schedule 0 w = w"
| "schedule (Suc n) w =
     schedule n (w @ [sigma1 (w ! (length w - 2)) + w ! (length w - 7)
                      + sigma0 (w ! (length w - 15)) + w ! (length w - 16)])"

fun sha256_round :: "hash \<Rightarrow> 32 word \<times> 32 word \<Rightarrow> hash" where
  "sha256_round (a, b, c, d, e, f, g, h) (k, w) =
     (let t1 = h + Sigma1 e + Ch e f g + k + w;
          t2 = Sigma0 a + Maj a b c
      in (t1 + t2, a, b, c, d + t1, e, f, g))"

fun add8 :: "hash \<Rightarrow> hash \<Rightarrow> hash" where
  "add8 (a, b, c, d, e, f, g, h) (a', b', c', d', e', f', g', h') =
     (a + a', b + b', c + c', d + d', e + e', f + f', g + g', h + h')"

definition compress :: "hash \<Rightarrow> 32 word list \<Rightarrow> hash" where
  "compress H block = add8 H (foldl sha256_round H (zip K256 (schedule 48 block)))"

definition hexDigit :: "nat \<Rightarrow> char" where
  "hexDigit n = ''0123456789abcdef'' ! n"

definition hex32 :: "32 word \<Rightarrow> string" where
  "hex32 w = map (\<lambda>i. hexDigit (unat (drop_bit (4 * i) w AND 15))) [7, 6, 5, 4, 3, 2, 1, 0]"

fun hexHash :: "hash \<Rightarrow> string" where
  "hexHash (a, b, c, d, e, f, g, h) =
     hex32 a @ hex32 b @ hex32 c @ hex32 d @ hex32 e @ hex32 f @ hex32 g @ hex32 h"

definition sha256_hex :: "string \<Rightarrow> string" where
  "sha256_hex material = hexHash (foldl compress H256 (blocks (words (pad (utf8 material)))))"

lemma hex32_length: "length (hex32 w) = 8"
  by (simp add: hex32_def)

lemma hexDigit_hex: "n < 16 \<Longrightarrow> hexDigit n \<in> set ''0123456789abcdef''"
  unfolding hexDigit_def by (rule nth_mem) simp

lemma hex32_hex: "set (hex32 w) \<subseteq> set ''0123456789abcdef''"
proof -
  have "unat (x AND 15) < 16" for x :: "32 word"
  proof -
    have "x AND 15 \<le> 15" by (rule word_and_le1)
    then show ?thesis by (simp add: word_le_nat_alt)
  qed
  then have "hexDigit (unat (drop_bit (4 * i) w AND 15)) \<in> set ''0123456789abcdef''" for i
    by (intro hexDigit_hex)
  then show ?thesis unfolding hex32_def set_map by (intro image_subsetI)
qed

lemma sha256_hex_shape:
  "length (sha256_hex m) = 64 \<and> set (sha256_hex m) \<subseteq> set ''0123456789abcdef''"
proof -
  obtain a b c d e f g h where
    "foldl compress H256 (blocks (words (pad (utf8 m)))) = (a, b, c, d, e, f, g, h)"
    by (rule hexHash.cases)
  then show ?thesis using hex32_hex by (simp add: sha256_hex_def hex32_length)
qed


section \<open>Ingest (webhook/webhook.service.ts, webhook/webhook.controller.ts)\<close>

datatype PayloadFormat = FormatJson | FormatText | FormatEmpty

record ParsedBody =
  normalizedPayload :: jsval
  payloadJson :: jsval
  format :: PayloadFormat

definition parseRawBody :: "Runtime \<Rightarrow> string \<Rightarrow> ParsedBody" where
  "parseRawBody rt rawBody =
     (if trim rawBody = [] then
        \<lparr>normalizedPayload = JObj [],
         payloadJson = JObj [(''_raw'', JStr rawBody), (''_empty'', JBool True)],
         format = FormatEmpty\<rparr>
      else (case JSON_parse rt rawBody of
              Some parsed \<Rightarrow>
                \<lparr>normalizedPayload = parsed, payloadJson = parsed, format = FormatJson\<rparr>
            | None \<Rightarrow>
                \<lparr>normalizedPayload = JObj [(''_raw'', JStr rawBody)],
                 payloadJson = JObj [(''_raw'', JStr rawBody), (''_format'', JStr ''text/plain'')],
                 format = FormatText\<rparr>))"

text \<open>The string a union member is in a template literal and in a column.\<close>

fun kindName :: "EventKind \<Rightarrow> string" where
  "kindName MESSAGE = ''MESSAGE''"
| "kindName TEMPLATE = ''TEMPLATE''"
| "kindName USER = ''USER''"
| "kindName UNKNOWN = ''UNKNOWN''"

fun messageStatusName :: "MessageStatus \<Rightarrow> string" where
  "messageStatusName accepted = ''accepted''"
| "messageStatusName sent = ''sent''"
| "messageStatusName delivered = ''delivered''"
| "messageStatusName read = ''read''"
| "messageStatusName failed = ''failed''"

fun templateStatusName :: "TemplateStatus \<Rightarrow> string" where
  "templateStatusName APPROVED = ''APPROVED''"
| "templateStatusName REJECTED = ''REJECTED''"
| "templateStatusName T_PENDING = ''PENDING''"
| "templateStatusName T_SUBMITTED = ''SUBMITTED''"

fun consentEventName :: "ConsentEvent \<Rightarrow> string" where
  "consentEventName OPT_IN = ''OPT_IN''"
| "consentEventName OPT_OUT = ''OPT_OUT''"
| "consentEventName BLOCKED = ''BLOCKED''"

fun pickEventStatus :: "NormalizedWebhookEvent \<Rightarrow> string option" where
  "pickEventStatus (MessageEvent e) = map_option messageStatusName (me_status e)"
| "pickEventStatus (TemplateEvent e) = map_option templateStatusName (te_templateStatus e)"
| "pickEventStatus (UserEvent e) = map_option consentEventName (ue_consentEvent e)"
| "pickEventStatus (UnknownEvent e) = None"

fun pickMessageId :: "NormalizedWebhookEvent \<Rightarrow> string option" where
  "pickMessageId (MessageEvent e) = me_messageId e"
| "pickMessageId _ = None"

fun pickWhatsappMessageId :: "NormalizedWebhookEvent \<Rightarrow> string option" where
  "pickWhatsappMessageId (MessageEvent e) = me_whatsappMessageId e"
| "pickWhatsappMessageId _ = None"

fun pickTemplateName :: "NormalizedWebhookEvent \<Rightarrow> string option" where
  "pickTemplateName (TemplateEvent e) = te_templateName e"
| "pickTemplateName _ = None"

fun pickTemplateProviderId :: "NormalizedWebhookEvent \<Rightarrow> string option" where
  "pickTemplateProviderId (TemplateEvent e) = te_templateProviderId e"
| "pickTemplateProviderId _ = None"

text \<open>\<open>value ?? ''\<close> on a nullable string.\<close>

definition orEmpty :: "string option \<Rightarrow> string" where
  "orEmpty v = (case v of None \<Rightarrow> [] | Some s \<Rightarrow> s)"

text \<open>The variable \<open>material\<close> of \<open>buildDedupeKey\<close>, and the key.\<close>

definition dedupeMaterial :: "Runtime \<Rightarrow> string \<Rightarrow> NormalizedWebhookEvent \<Rightarrow> string \<Rightarrow> string" where
  "dedupeMaterial rt appId normalized rawBody =
     (let providerEventId = providerEventIdOf normalized;
          eventKind = kindOf normalized
      in if truthy providerEventId
         then appId @ ''|'' @ kindName eventKind @ ''|'' @ orEmpty providerEventId
         else (let messageId = pickMessageId normalized;
                   eventStatus = pickEventStatus normalized;
                   timestamp = (case eventAtOf normalized of
                                  Some d \<Rightarrow> toISOString rt d | None \<Rightarrow> [])
               in if truthy messageId \<or> truthy eventStatus \<or> timestamp \<noteq> []
                  then appId @ ''|'' @ kindName eventKind @ ''|'' @ orEmpty messageId @ ''|''
                       @ orEmpty eventStatus @ ''|'' @ timestamp
                  else rawBody))"

definition buildDedupeKey :: "Runtime \<Rightarrow> string \<Rightarrow> NormalizedWebhookEvent \<Rightarrow> string \<Rightarrow> string" where
  "buildDedupeKey rt appId normalized rawBody =
     sha256_hex (dedupeMaterial rt appId normalized rawBody)"

record WebhookIngestResult =
  inserted :: bool
  dedupeKey :: string
  eventKind :: EventKind
  payloadFormat :: PayloadFormat

definition ingest :: "Runtime \<Rightarrow> string \<Rightarrow> string \<Rightarrow> World \<Rightarrow> WebhookIngestResult Outcome" where
  "ingest rt appId rawBody w =
     (let parsedPayload = parseRawBody rt rawBody;
          normalized = normalize (Date_parse rt) (normalizedPayload parsedPayload);
          key = buildDedupeKey rt appId normalized rawBody
      in bind (insertRawEvent
                 \<lparr>in_appId = appId,
                  in_eventKind = kindOf normalized,
                  in_providerEventId = providerEventIdOf normalized,
                  in_messageId = pickMessageId normalized,
                  in_whatsappMessageId = pickWhatsappMessageId normalized,
                  in_templateName = pickTemplateName normalized,
                  in_templateProviderId = pickTemplateProviderId normalized,
                  in_eventStatus = pickEventStatus normalized,
                  in_payloadJson = payloadJson parsedPayload,
                  in_dedupeKey = key\<rparr> w)
           (\<lambda>persistedInserted w'.
              Return \<lparr>inserted = persistedInserted, dedupeKey = key,
                      eventKind = kindOf normalized,
                      payloadFormat = format parsedPayload\<rparr> w'))"

definition validateSecret :: "string \<Rightarrow> string option \<Rightarrow> bool" where
  "validateSecret expected providedSecret =
     (case providedSecret of
        None \<Rightarrow> False
      | Some provided \<Rightarrow>
          if provided = [] then False
          else if length expected \<noteq> length provided then False
          else expected = provided)"

datatype HttpResponse = Ok200 | Unauthorized401 | InternalServerError500

definition receiveGupshupWebhook ::
  "Runtime \<Rightarrow> string \<Rightarrow> string \<Rightarrow> string option \<Rightarrow> string \<Rightarrow> World \<Rightarrow> HttpResponse \<times> World" where
  "receiveGupshupWebhook rt expectedSecret appId secret rawBody w =
     (if \<not> validateSecret expectedSecret secret then (Unauthorized401, w)
      else (case ingest rt appId rawBody w of
              Return result w' \<Rightarrow> (Ok200, w')
            | Throw reason w' \<Rightarrow> (InternalServerError500, w')))"


subsection \<open>The dedupe key\<close>

lemma pickEventStatus_truthy: "truthy (pickEventStatus ev) \<longleftrightarrow> pickEventStatus ev \<noteq> None"
proof (cases ev)
  case (MessageEvent e)
  then show ?thesis
    by (cases "me_status e") (auto simp: truthy_def intro: MessageStatus.exhaust[of "the (me_status e)"]
         elim!: messageStatusName.elims)
next
  case (TemplateEvent e)
  then show ?thesis
    by (cases "te_templateStatus e") (auto simp: truthy_def elim!: templateStatusName.elims)
next
  case (UserEvent e)
  then show ?thesis
    by (cases "ue_consentEvent e") (auto simp: truthy_def elim!: consentEventName.elims)
next
  case (UnknownEvent e)
  then show ?thesis by (simp add: truthy_def)
qed

text \<open>
  Claim C2. For a runtime whose \<open>toISOString\<close> is never empty, \<open>buildDedupeKey\<close> returns
  the SHA-256 digest, 64 lower-case hexadecimal characters, of this material:
  \<open>appId|kind|providerEventId\<close> when the normalized event carries a provider event id;
  otherwise \<open>appId|kind|messageId|eventStatus|isoTimestamp\<close> when the message id, the
  event status or the event time is present, where the message id is that of a MESSAGE
  event and empty for the other kinds, the event status is the message status of a
  MESSAGE event, the template status of a TEMPLATE event, the consent event of a USER
  event and empty for an UNKNOWN event, and an absent part is the empty string; otherwise
  the raw request body. Being a function of the application id, the normalized event and
  the body, the key is the same for the same inputs.
\<close>

theorem buildDedupeKey_material:
  assumes iso: "\<forall>d. toISOString rt d \<noteq> []"
  shows "buildDedupeKey rt appId (MessageEvent m) body =
       sha256_hex
         (if truthy (me_providerEventId m)
          then appId @ ''|MESSAGE|'' @ the (me_providerEventId m)
          else if truthy (me_messageId m) \<or> me_status m \<noteq> None \<or> me_eventAt m \<noteq> None
          then appId @ ''|MESSAGE|''
               @ (case me_messageId m of None \<Rightarrow> [] | Some i \<Rightarrow> i) @ ''|''
               @ (case me_status m of
                    None \<Rightarrow> []
                  | Some accepted \<Rightarrow> ''accepted''
                  | Some sent \<Rightarrow> ''sent''
                  | Some delivered \<Rightarrow> ''delivered''
                  | Some read \<Rightarrow> ''read''
                  | Some failed \<Rightarrow> ''failed'') @ ''|''
               @ (case me_eventAt m of None \<Rightarrow> [] | Some d \<Rightarrow> toISOString rt d)
          else body)
     \<and> buildDedupeKey rt appId (TemplateEvent t) body =
       sha256_hex
         (if truthy (te_providerEventId t)
          then appId @ ''|TEMPLATE|'' @ the (te_providerEventId t)
          else if te_templateStatus t \<noteq> None \<or> te_eventAt t \<noteq> None
          then appId @ ''|TEMPLATE||''
               @ (case te_templateStatus t of
                    None \<Rightarrow> []
                  | Some APPROVED \<Rightarrow> ''APPROVED''
                  | Some REJECTED \<Rightarrow> ''REJECTED''
                  | Some T_PENDING \<Rightarrow> ''PENDING''
                  | Some T_SUBMITTED \<Rightarrow> ''SUBMITTED'') @ ''|''
               @ (case te_eventAt t of None \<Rightarrow> [] | Some d \<Rightarrow> toISOString rt d)
          else body)
     \<and> buildDedupeKey rt appId (UserEvent u) body =
       sha256_hex
         (if truthy (ue_providerEventId u)
          then appId @ ''|USER|'' @ the (ue_providerEventId u)
          else if ue_consentEvent u \<noteq> None \<or> ue_eventAt u \<noteq> None
          then appId @ ''|USER||''
               @ (case ue_consentEvent u of
                    None \<Rightarrow> []
                  | Some OPT_IN \<Rightarrow> ''OPT_IN''
                  | Some OPT_OUT \<Rightarrow> ''OPT_OUT''
                  | Some BLOCKED \<Rightarrow> ''BLOCKED'') @ ''|''
               @ (case ue_eventAt u of None \<Rightarrow> [] | Some d \<Rightarrow> toISOString rt d)
          else body)
     \<and> buildDedupeKey rt appId (UnknownEvent n) body =
       sha256_hex
         (if truthy (un_providerEventId n)
          then appId @ ''|UNKNOWN|'' @ the (un_providerEventId n)
          else if un_eventAt n \<noteq> None
          then appId @ ''|UNKNOWN|||''
               @ (case un_eventAt n of None \<Rightarrow> [] | Some d \<Rightarrow> toISOString rt d)
          else body)
     \<and> length (buildDedupeKey rt appId ev body) = 64
     \<and> set (buildDedupeKey rt appId ev body) \<subseteq> set ''0123456789abcdef''"
proof -
  have ts: "((case e of Some d \<Rightarrow> toISOString rt d | None \<Rightarrow> []) \<noteq> []) = (e \<noteq> None)" for e
    using iso by (cases e) simp_all
  have pid: "truthy p \<Longrightarrow> orEmpty p = the p" for p
    by (cases p) (simp_all add: truthy_def orEmpty_def)
  have ms: "truthy (map_option messageStatusName st) = (st \<noteq> None)" for st
    by (cases st) (auto simp: truthy_def elim!: messageStatusName.elims)
  have tst: "truthy (map_option templateStatusName st) = (st \<noteq> None)" for st
    by (cases st) (auto simp: truthy_def elim!: templateStatusName.elims)
  have cs: "truthy (map_option consentEventName st) = (st \<noteq> None)" for st
    by (cases st) (auto simp: truthy_def elim!: consentEventName.elims)
  have msn: "orEmpty (map_option messageStatusName st) =
      (case st of None \<Rightarrow> [] | Some accepted \<Rightarrow> ''accepted'' | Some sent \<Rightarrow> ''sent''
       | Some delivered \<Rightarrow> ''delivered'' | Some read \<Rightarrow> ''read'' | Some failed \<Rightarrow> ''failed'')" for st
    by (simp add: orEmpty_def split: option.split MessageStatus.split)
  have tsn: "orEmpty (map_option templateStatusName st) =
      (case st of None \<Rightarrow> [] | Some APPROVED \<Rightarrow> ''APPROVED'' | Some REJECTED \<Rightarrow> ''REJECTED''
       | Some T_PENDING \<Rightarrow> ''PENDING'' | Some T_SUBMITTED \<Rightarrow> ''SUBMITTED'')" for st
    by (simp add: orEmpty_def split: option.split TemplateStatus.split)
  have csn: "orEmpty (map_option consentEventName st) =
      (case st of None \<Rightarrow> [] | Some OPT_IN \<Rightarrow> ''OPT_IN'' | Some OPT_OUT \<Rightarrow> ''OPT_OUT''
       | Some BLOCKED \<Rightarrow> ''BLOCKED'')" for st
    by (simp add: orEmpty_def split: option.split ConsentEvent.split)
  have oe: "orEmpty i = (case i of None \<Rightarrow> [] | Some x \<Rightarrow> x)" for i
    by (simp add: orEmpty_def)
  have nt: "\<not> truthy None" by (simp add: truthy_def)
  have en: "orEmpty None = []" by (simp add: orEmpty_def)
  have m: "buildDedupeKey rt appId (MessageEvent m) body =
       sha256_hex
         (if truthy (me_providerEventId m)
          then appId @ ''|MESSAGE|'' @ the (me_providerEventId m)
          else if truthy (me_messageId m) \<or> me_status m \<noteq> None \<or> me_eventAt m \<noteq> None
          then appId @ ''|MESSAGE|''
               @ (case me_messageId m of None \<Rightarrow> [] | Some i \<Rightarrow> i) @ ''|''
               @ (case me_status m of
                    None \<Rightarrow> []
                  | Some accepted \<Rightarrow> ''accepted''
                  | Some sent \<Rightarrow> ''sent''
                  | Some delivered \<Rightarrow> ''delivered''
                  | Some read \<Rightarrow> ''read''
                  | Some failed \<Rightarrow> ''failed'') @ ''|''
               @ (case me_eventAt m of None \<Rightarrow> [] | Some d \<Rightarrow> toISOString rt d)
          else body)"
    unfolding buildDedupeKey_def dedupeMaterial_def Let_def
    by (simp add: ts ms msn pid oe[of "me_messageId m"] cong: option.case_cong)
  have t: "buildDedupeKey rt appId (TemplateEvent t) body =
       sha256_hex
         (if truthy (te_providerEventId t)
          then appId @ ''|TEMPLATE|'' @ the (te_providerEventId t)
          else if te_templateStatus t \<noteq> None \<or> te_eventAt t \<noteq> None
          then appId @ ''|TEMPLATE||''
               @ (case te_templateStatus t of
                    None \<Rightarrow> []
                  | Some APPROVED \<Rightarrow> ''APPROVED''
                  | Some REJECTED \<Rightarrow> ''REJECTED''
                  | Some T_PENDING \<Rightarrow> ''PENDING''
                  | Some T_SUBMITTED \<Rightarrow> ''SUBMITTED'') @ ''|''
               @ (case te_eventAt t of None \<Rightarrow> [] | Some d \<Rightarrow> toISOString rt d)
          else body)"
    unfolding buildDedupeKey_def dedupeMaterial_def Let_def
    by (simp add: ts tst tsn pid nt en cong: option.case_cong)
  have u: "buildDedupeKey rt appId (UserEvent u) body =
       sha256_hex
         (if truthy (ue_providerEventId u)
          then appId @ ''|USER|'' @ the (ue_providerEventId u)
          else if ue_consentEvent u \<noteq> None \<or> ue_eventAt u \<noteq> None
          then appId @ ''|USER||''
               @ (case ue_consentEvent u of
                    None \<Rightarrow> []
                  | Some OPT_IN \<Rightarrow> ''OPT_IN''
                  | Some OPT_OUT \<Rightarrow> ''OPT_OUT''
                  | Some BLOCKED \<Rightarrow> ''BLOCKED'') @ ''|''
               @ (case ue_eventAt u of None \<Rightarrow> [] | Some d \<Rightarrow> toISOString rt d)
          else body)"
    unfolding buildDedupeKey_def dedupeMaterial_def Let_def
    by (simp add: ts cs csn pid nt en cong: option.case_cong)
  have n: "buildDedupeKey rt appId (UnknownEvent n) body =
       sha256_hex
         (if truthy (un_providerEventId n)
          then appId @ ''|UNKNOWN|'' @ the (un_providerEventId n)
          else if un_eventAt n \<noteq> None
          then appId @ ''|UNKNOWN|||''
               @ (case un_eventAt n of None \<Rightarrow> [] | Some d \<Rightarrow> toISOString rt d)
          else body)"
    unfolding buildDedupeKey_def dedupeMaterial_def Let_def
    by (simp add: ts pid nt en cong: option.case_cong)
  have shape: "length (buildDedupeKey rt appId ev body) = 64
     \<and> set (buildDedupeKey rt appId ev body) \<subseteq> set ''0123456789abcdef''"
    unfolding buildDedupeKey_def by (rule sha256_hex_shape)
  from m t u n shape show ?thesis by (intro conjI) simp_all
qed

text \<open>
  A delivered message without provider event id, and an event that carries nothing: the
  digests are those of \<open>A|MESSAGE|gs-1|delivered|2025-02-09T14:40:00.000Z\<close> and of the
  body \<open>{}\<close>.
\<close>

theorem buildDedupeKey_material_witness:
  "buildDedupeKey
     \<lparr>JSON_parse = (\<lambda>s. None), Date_parse = (\<lambda>s. None),
      toISOString = (\<lambda>d. ''2025-02-09T14:40:00.000Z'')\<rparr>
     ''A''
     (MessageEvent \<lparr>me_providerEventId = None, me_messageId = Some ''gs-1'',
        me_whatsappMessageId = None, me_status = Some delivered,
        me_eventAt = Some 1739112000000, me_errorCode = None, me_errorReason = None,
        me_errorPayload = None\<rparr>)
     ''{}''
   = ''48b171aff08ae899e12ef3dedc2734daa8d3915a482ad7a25a394fa442eb7300''
   \<and> buildDedupeKey
     \<lparr>JSON_parse = (\<lambda>s. None), Date_parse = (\<lambda>s. None),
      toISOString = (\<lambda>d. ''2025-02-09T14:40:00.000Z'')\<rparr>
     ''A''
     (UnknownEvent \<lparr>un_providerEventId = None, un_eventAt = None\<rparr>)
     ''{}''
   = ''44136fa355b3678a1146ad16f7e8649e94fb4fc21fe77e8310c060f61caaff8a''"
proof -
  let ?rt = "\<lparr>JSON_parse = (\<lambda>s. None), Date_parse = (\<lambda>s. None),
      toISOString = (\<lambda>d. ''2025-02-09T14:40:00.000Z'')\<rparr>"
  have i: "\<forall>d. toISOString ?rt d \<noteq> []" by simp
  have d1: "sha256_hex ''A|MESSAGE|gs-1|delivered|2025-02-09T14:40:00.000Z''
            = ''48b171aff08ae899e12ef3dedc2734daa8d3915a482ad7a25a394fa442eb7300''"
    by code_simp
  have d2: "sha256_hex ''{}'' = ''44136fa355b3678a1146ad16f7e8649e94fb4fc21fe77e8310c060f61caaff8a''"
    by code_simp
  note k = buildDedupeKey_material[OF i, of "''A''" _ "''{}''"]
  have k1: "buildDedupeKey ?rt ''A''
     (MessageEvent \<lparr>me_providerEventId = None, me_messageId = Some ''gs-1'',
        me_whatsappMessageId = None, me_status = Some delivered,
        me_eventAt = Some 1739112000000, me_errorCode = None, me_errorReason = None,
        me_errorPayload = None\<rparr>) ''{}''
     = sha256_hex ''A|MESSAGE|gs-1|delivered|2025-02-09T14:40:00.000Z''"
    using k[THEN conjunct1,
        of "\<lparr>me_providerEventId = None, me_messageId = Some ''gs-1'',
        me_whatsappMessageId = None, me_status = Some delivered,
        me_eventAt = Some 1739112000000, me_errorCode = None, me_errorReason = None,
        me_errorPayload = None\<rparr>"]
    by (simp add: truthy_def)
  have k2: "buildDedupeKey ?rt ''A'' (UnknownEvent \<lparr>un_providerEventId = None, un_eventAt = None\<rparr>) ''{}''
     = sha256_hex ''{}''"
    using k[THEN conjunct2, THEN conjunct2, THEN conjunct2, THEN conjunct1,
        of "\<lparr>un_providerEventId = None, un_eventAt = None\<rparr>"]
    by (simp add: truthy_def)
  from k1 k2 d1 d2 show ?thesis by simp
qed


subsection \<open>Repeated ingest\<close>

lemma query_no_faults: "w_faults w = [] \<Longrightarrow> query w = Return () w"
  by (simp add: query_def)

lemma insertRawEvent_duplicate:
  assumes "w_faults w = []" and "in_dedupeKey input \<in> set (map raw_dedupe_key (w_raw w))"
  shows "insertRawEvent input w = Return (w_found_rows w) w"
  using assms by (simp add: insertRawEvent_def query_no_faults Let_def del: set_map)

lemma insertRawEvent_new:
  assumes "w_faults w = []" and "in_dedupeKey input \<notin> set (map raw_dedupe_key (w_raw w))"
  shows "insertRawEvent input w = Return True (w\<lparr>w_raw := w_raw w @ [newRawRow input w]\<rparr>)"
  using assms
  by (simp add: insertRawEvent_def query_no_faults Let_def del: set_map)

lemma count_key_one:
  assumes "distinct (map raw_dedupe_key rows)" and "k \<in> set (map raw_dedupe_key rows)"
  shows "length (filter (\<lambda>r. raw_dedupe_key r = k) rows) = 1"
  using assms
proof (induction rows)
  case Nil
  then show ?case by simp
next
  case (Cons r rows)
  show ?case
  proof (cases "raw_dedupe_key r = k")
    case True
    then have "k \<notin> set (map raw_dedupe_key rows)" using Cons.prems(1) by simp
    then have "filter (\<lambda>r. raw_dedupe_key r = k) rows = []"
      by (auto simp: filter_empty_conv)
    then show ?thesis using True by simp
  next
    case False
    then have "k \<in> set (map raw_dedupe_key rows)" using Cons.prems(2) by auto
    then show ?thesis using Cons.IH Cons.prems(1) False by simp
  qed
qed

lemma ingest_result:
  assumes "w_faults w = []" and "distinct (map raw_dedupe_key (w_raw w))"
  shows "\<exists>r w'. ingest rt appId body w = Return r w'
     \<and> dedupeKey r =
         buildDedupeKey rt appId (normalize (Date_parse rt) (normalizedPayload (parseRawBody rt body))) body
     \<and> dedupeKey r \<in> set (map raw_dedupe_key (w_raw w'))
     \<and> distinct (map raw_dedupe_key (w_raw w'))
     \<and> w_faults w' = [] \<and> w_found_rows w' = w_found_rows w
     \<and> (dedupeKey r \<in> set (map raw_dedupe_key (w_raw w)) \<longrightarrow>
          w_raw w' = w_raw w \<and> inserted r = w_found_rows w)"
proof -
  let ?k = "buildDedupeKey rt appId (normalize (Date_parse rt) (normalizedPayload (parseRawBody rt body))) body"
  let ?ev = "normalize (Date_parse rt) (normalizedPayload (parseRawBody rt body))"
  let ?input = "\<lparr>in_appId = appId,
                  in_eventKind = kindOf ?ev,
                  in_providerEventId = providerEventIdOf ?ev,
                  in_messageId = pickMessageId ?ev,
                  in_whatsappMessageId = pickWhatsappMessageId ?ev,
                  in_templateName = pickTemplateName ?ev,
                  in_templateProviderId = pickTemplateProviderId ?ev,
                  in_eventStatus = pickEventStatus ?ev,
                  in_payloadJson = payloadJson (parseRawBody rt body),
                  in_dedupeKey = ?k\<rparr>"
  have ing: "ingest rt appId body w =
      bind (insertRawEvent ?input w)
        (\<lambda>persistedInserted w'.
              Return \<lparr>inserted = persistedInserted, dedupeKey = ?k,
                      eventKind = kindOf ?ev,
                      payloadFormat = format (parseRawBody rt body)\<rparr> w')"
    by (simp add: ingest_def Let_def)
  have key: "in_dedupeKey ?input = ?k" by simp
  show ?thesis
  proof (cases "?k \<in> set (map raw_dedupe_key (w_raw w))")
    case True
    have "insertRawEvent ?input w = Return (w_found_rows w) w"
      by (rule insertRawEvent_duplicate[OF assms(1)]) (simp only: key True)
    then show ?thesis using ing True assms by simp
  next
    case False
    have "in_dedupeKey ?input \<notin> set (map raw_dedupe_key (w_raw w))"
      by (simp only: key False not_False_eq_True)
    from insertRawEvent_new[OF assms(1) this]
    have ins: "insertRawEvent ?input w = Return True (w\<lparr>w_raw := w_raw w @ [newRawRow ?input w]\<rparr>)" .
    have row: "raw_dedupe_key (newRawRow ?input w) = ?k" by (simp add: newRawRow_def)
    show ?thesis using ing ins row False assms by simp
  qed
qed

text \<open>
  Two ingest calls with the same application id and the same body, with the database
  answering: both return, with the same dedupe key; the second leaves the raw table as it
  is, so that exactly one raw row has that key; it reports \<open>inserted\<close> exactly when the
  connection counts matched rows; and both requests are answered with 200.
\<close>

lemma ingest_twice:
  assumes nofault: "w_faults w = []"
    and uniq: "distinct (map raw_dedupe_key (w_raw w))"
    and secret: "validateSecret expectedSecret secret"
  shows "\<exists>r1 w1 r2 w2.
       ingest rt appId body w = Return r1 w1
     \<and> ingest rt appId body w1 = Return r2 w2
     \<and> dedupeKey r1 = dedupeKey r2
     \<and> inserted r2 = w_found_rows w
     \<and> w_raw w2 = w_raw w1
     \<and> length (filter (\<lambda>r. raw_dedupe_key r = dedupeKey r1) (w_raw w2)) = 1
     \<and> receiveGupshupWebhook rt expectedSecret appId secret body w = (Ok200, w1)
     \<and> receiveGupshupWebhook rt expectedSecret appId secret body w1 = (Ok200, w2)"
proof -
  from ingest_result[OF nofault uniq, of rt appId body] obtain r1 w1 where
    i1: "ingest rt appId body w = Return r1 w1"
    and k1: "dedupeKey r1 =
         buildDedupeKey rt appId (normalize (Date_parse rt) (normalizedPayload (parseRawBody rt body))) body"
    and mem1: "dedupeKey r1 \<in> set (map raw_dedupe_key (w_raw w1))"
    and d1: "distinct (map raw_dedupe_key (w_raw w1))"
    and f1: "w_faults w1 = []" and fr1: "w_found_rows w1 = w_found_rows w"
    by blast
  from ingest_result[OF f1 d1, of rt appId body] obtain r2 w2 where
    i2: "ingest rt appId body w1 = Return r2 w2"
    and k2: "dedupeKey r2 =
         buildDedupeKey rt appId (normalize (Date_parse rt) (normalizedPayload (parseRawBody rt body))) body"
    and dup: "dedupeKey r2 \<in> set (map raw_dedupe_key (w_raw w1)) \<longrightarrow>
          w_raw w2 = w_raw w1 \<and> inserted r2 = w_found_rows w1"
    by blast
  have keq: "dedupeKey r1 = dedupeKey r2" using k1 k2 by simp
  have same: "w_raw w2 = w_raw w1" and ins: "inserted r2 = w_found_rows w1"
    using dup mem1 keq by simp_all
  have cnt: "length (filter (\<lambda>r. raw_dedupe_key r = dedupeKey r1) (w_raw w2)) = 1"
    unfolding same by (rule count_key_one[OF d1 mem1])
  have h1: "receiveGupshupWebhook rt expectedSecret appId secret body w = (Ok200, w1)"
    using secret i1 by (simp add: receiveGupshupWebhook_def)
  have h2: "receiveGupshupWebhook rt expectedSecret appId secret body w1 = (Ok200, w2)"
    using secret i2 by (simp add: receiveGupshupWebhook_def)
  from i1 i2 keq ins fr1 same cnt h1 h2 show ?thesis by auto
qed

text \<open>
  Claim C1 (the second of two ingest calls with the same application id and body returns
  \<open>inserted = false\<close>). On a connection of the pool of the service, with the database
  answering, the second call adds no row and is answered with 200, but it returns
  \<open>inserted = true\<close>: for the duplicate the statement
  \<open>INSERT ... ON DUPLICATE KEY UPDATE id = id\<close> matches the existing row, the server
  reports one affected row to a connection with \<open>FOUND_ROWS\<close>, and \<open>insertRawEvent\<close>
  takes \<open>affectedRows === 1\<close> for an insertion.
\<close>

theorem ingest_duplicate_reported_inserted:
  assumes nofault: "w_faults w = []"
    and flag: "w_found_rows w = pool_FOUND_ROWS"
    and uniq: "distinct (map raw_dedupe_key (w_raw w))"
    and secret: "validateSecret expectedSecret secret"
  shows "\<exists>r1 w1 r2 w2.
       ingest rt appId body w = Return r1 w1
     \<and> ingest rt appId body w1 = Return r2 w2
     \<and> dedupeKey r1 = dedupeKey r2
     \<and> inserted r2
     \<and> w_raw w2 = w_raw w1
     \<and> length (filter (\<lambda>r. raw_dedupe_key r = dedupeKey r1) (w_raw w2)) = 1
     \<and> receiveGupshupWebhook rt expectedSecret appId secret body w = (Ok200, w1)
     \<and> receiveGupshupWebhook rt expectedSecret appId secret body w1 = (Ok200, w2)"
  using ingest_twice[OF nofault uniq secret, of rt appId body] flag
  by (simp add: pool_FOUND_ROWS_def)

theorem ingest_duplicate_reported_inserted_witness:
  "\<exists>r1 w1 r2 w2.
       ingest \<lparr>JSON_parse = (\<lambda>s. None), Date_parse = (\<lambda>s. None),
               toISOString = (\<lambda>d. ''2025-02-09T14:40:00.000Z'')\<rparr> ''A'' ''ping''
          \<lparr>w_raw = [], w_recipients = [], w_templates = [], w_versions = [], w_integrations = [],
           w_users = [], w_user_columns = [], w_consent_events = [], w_current = [], w_now = 1000,
           w_faults = [], w_locked = [], w_found_rows = True\<rparr> = Return r1 w1
     \<and> ingest \<lparr>JSON_parse = (\<lambda>s. None), Date_parse = (\<lambda>s. None),
               toISOString = (\<lambda>d. ''2025-02-09T14:40:00.000Z'')\<rparr> ''A'' ''ping'' w1 = Return r2 w2
     \<and> dedupeKey r1 = dedupeKey r2
     \<and> inserted r2
     \<and> w_raw w2 = w_raw w1
     \<and> length (filter (\<lambda>r. raw_dedupe_key r = dedupeKey r1) (w_raw w2)) = 1
     \<and> receiveGupshupWebhook \<lparr>JSON_parse = (\<lambda>s. None), Date_parse = (\<lambda>s. None),
               toISOString = (\<lambda>d. ''2025-02-09T14:40:00.000Z'')\<rparr> ''s3cret'' ''A'' (Some ''s3cret'') ''ping''
          \<lparr>w_raw = [], w_recipients = [], w_templates = [], w_versions = [], w_integrations = [],
           w_users = [], w_user_columns = [], w_consent_events = [], w_current = [], w_now = 1000,
           w_faults = [], w_locked = [], w_found_rows = True\<rparr> = (Ok200, w1)
     \<and> receiveGupshupWebhook \<lparr>JSON_parse = (\<lambda>s. None), Date_parse = (\<lambda>s. None),
               toISOString = (\<lambda>d. ''2025-02-09T14:40:00.000Z'')\<rparr> ''s3cret'' ''A'' (Some ''s3cret'') ''ping'' w1
         = (Ok200, w2)"
proof (rule ingest_duplicate_reported_inserted)
  show "w_faults \<lparr>w_raw = [], w_recipients = [], w_templates = [], w_versions = [], w_integrations = [],
           w_users = [], w_user_columns = [], w_consent_events = [], w_current = [], w_now = 1000,
           w_faults = [], w_locked = [], w_found_rows = True\<rparr> = []"
    by simp
  show "w_found_rows \<lparr>w_raw = [], w_recipients = [], w_templates = [], w_versions = [], w_integrations = [],
           w_users = [], w_user_columns = [], w_consent_events = [], w_current = [], w_now = 1000,
           w_faults = [], w_locked = [], w_found_rows = True\<rparr> = pool_FOUND_ROWS"
    by (simp add: pool_FOUND_ROWS_def)
  show "distinct (map raw_dedupe_key (w_raw \<lparr>w_raw = [], w_recipients = [], w_templates = [], w_versions = [], w_integrations = [],
           w_users = [], w_user_columns = [], w_consent_events = [], w_current = [], w_now = 1000,
           w_faults = [], w_locked = [], w_found_rows = True\<rparr>))"
    by simp
  show "validateSecret ''s3cret'' (Some ''s3cret'')"
    by (simp add: validateSecret_def)
qed

section \<open>Projection repositories on the database\<close>

text \<open>\<open>a ?? b\<close> on nullable values, and \<open>e?.field\<close> on a nullable event.\<close>

definition coalesce :: "'a option \<Rightarrow> 'a option \<Rightarrow> 'a option" where
  "coalesce a b = (case a of Some x \<Rightarrow> Some x | None \<Rightarrow> b)"

definition optField :: "('e \<Rightarrow> 'a option) \<Rightarrow> 'e option \<Rightarrow> 'a option" where
  "optField f e = (case e of None \<Rightarrow> None | Some x \<Rightarrow> f x)"

subsection \<open>repos/integration.repo.ts\<close>

definition findActiveByAppId :: "string \<Rightarrow> World \<Rightarrow> IntegrationMapping option Outcome" where
  "findActiveByAppId appId w =
     bind (query w) (\<lambda>_ w'.
       Return (find (\<lambda>i. ig_gupshup_app_id i = appId \<and> ig_is_active i = 1) (w_integrations w')) w')"

subsection \<open>repos/recipient.repo.ts\<close>

definition findRecipient :: "string option \<Rightarrow> string option \<Rightarrow> World \<Rightarrow> RecipientRow option Outcome" where
  "findRecipient messageId whatsappMessageId w =
     bind (if truthy messageId
           then bind (query w) (\<lambda>_ w'.
                  Return (find (\<lambda>r. rc_gupshup_message_id r = messageId) (w_recipients w')) w')
           else Return None w)
       (\<lambda>byMessageId w1.
          case byMessageId of
            Some r \<Rightarrow> Return (Some r) w1
          | None \<Rightarrow>
              if truthy whatsappMessageId
              then bind (query w1) (\<lambda>_ w'.
                     Return (find (\<lambda>r. rc_whatsapp_message_id r = whatsappMessageId) (w_recipients w')) w')
              else Return None w1)"

definition applyMessageEvent :: "NormalizedMessageEvent \<Rightarrow> World \<Rightarrow> ApplyResult Outcome" where
  "applyMessageEvent event w =
     (if \<not> truthy (me_messageId event) \<and> \<not> truthy (me_whatsappMessageId event)
      then Return NOT_FOUND w
      else bind (findRecipient (me_messageId event) (me_whatsappMessageId event) w)
             (\<lambda>found w1.
                case found of
                  None \<Rightarrow> Return NOT_FOUND w1
                | Some recipient \<Rightarrow>
                    (case me_status event of
                       None \<Rightarrow> Return NOOP w1
                     | Some st \<Rightarrow>
                         (let eventAt = (case me_eventAt event of Some t \<Rightarrow> t | None \<Rightarrow> w_now w1) in
                          case recipientUpdates recipient event st eventAt of
                            None \<Rightarrow> Return NOOP w1
                          | Some updates \<Rightarrow>
                              if updates = [] then Return NOOP w1
                              else bind (query w1) (\<lambda>_ w2.
                                     Return UPDATED
                                       (w2\<lparr>w_recipients :=
                                          map (\<lambda>r. if rc_id r = rc_id recipient
                                                    then applyUpdates updates (w_now w2) r else r)
                                              (w_recipients w2)\<rparr>))))))"


lemma query_answered: "w_faults w = [] \<Longrightarrow> query w = Return () w"
  by (simp add: query_def)



















subsection \<open>repos/template.repo.ts\<close>

definition findTemplateByProviderId :: "nat \<Rightarrow> string \<Rightarrow> World \<Rightarrow> TemplateRow option Outcome" where
  "findTemplateByProviderId integrationId providerTemplateId w =
     bind (query w) (\<lambda>_ w'.
       Return (find (\<lambda>t. tp_integration_id t = integrationId
                          \<and> tp_provider_template_id t = Some providerTemplateId) (w_templates w')) w')"

text \<open>\<open>ORDER BY key DESC LIMIT 1\<close>: the row with the greatest key, if there is a row.\<close>

definition latestBy :: "('r \<Rightarrow> nat) \<Rightarrow> 'r list \<Rightarrow> 'r option" where
  "latestBy key rows = (case rev (sort_key key rows) of [] \<Rightarrow> None | r # _ \<Rightarrow> Some r)"

definition findTemplateByName :: "nat \<Rightarrow> string \<Rightarrow> string option \<Rightarrow> World \<Rightarrow> TemplateRow option Outcome" where
  "findTemplateByName companyId templateName language w =
     bind (query w) (\<lambda>_ w'.
       Return (latestBy tp_id
                 (filter (\<lambda>t. tp_company_id t = companyId \<and> tp_name t = templateName
                               \<and> (truthy language \<longrightarrow> tp_language t = language))
                         (w_templates w'))) w')"

definition updateTemplateStatus ::
  "nat \<Rightarrow> TemplateStatus \<Rightarrow> string option \<Rightarrow> string option \<Rightarrow> World \<Rightarrow> unit Outcome" where
  "updateTemplateStatus templateId status rejectionReason correctCategory w =
     bind (query w) (\<lambda>_ w'.
       Return ()
         (w'\<lparr>w_templates :=
            map (\<lambda>t. if tp_id t = templateId
                      then t\<lparr>tp_status := columnStatus status,
                             tp_rejection_reason := (if status = REJECTED then rejectionReason else None),
                             tp_correct_category := (if status = REJECTED then correctCategory else None),
                             tp_last_synced_at := Some (w_now w'),
                             tp_updated_at := Some (w_now w')\<rparr>
                      else t) (w_templates w')\<rparr>))"

text \<open>
  The change set of \<open>updateLatestTemplateVersion\<close>, decided on the selected \<open>version\<close>
  and applied to a row \<open>v\<close> by the \<open>UPDATE\<close>.
\<close>

definition versionChanges ::
  "TemplateVersionRow \<Rightarrow> TemplateStatus \<Rightarrow> string option \<Rightarrow> int \<Rightarrow> int \<Rightarrow> TemplateVersionRow
   \<Rightarrow> TemplateVersionRow" where
  "versionChanges version status rejectionReason timestamp now v =
     (let v1 = v\<lparr>tv_status := columnStatus status\<rparr>;
          v2 = (if status = T_SUBMITTED \<and> tv_submitted_at version = None
                then v1\<lparr>tv_submitted_at := Some timestamp\<rparr> else v1);
          v3 = (if status = APPROVED \<and> tv_approved_at version = None
                then v2\<lparr>tv_approved_at := Some timestamp\<rparr> else v2);
          v4 = (if status = REJECTED
                then (if tv_rejected_at version = None then v3\<lparr>tv_rejected_at := Some timestamp\<rparr> else v3)
                       \<lparr>tv_rejection_reason := rejectionReason\<rparr>
                else v3)
      in v4\<lparr>tv_updated_at := Some now\<rparr>)"

definition updateLatestTemplateVersion ::
  "nat \<Rightarrow> TemplateStatus \<Rightarrow> string option \<Rightarrow> int option \<Rightarrow> World \<Rightarrow> unit Outcome" where
  "updateLatestTemplateVersion templateId status rejectionReason eventAt w =
     bind (query w) (\<lambda>_ w'.
       case latestBy tv_version_no (filter (\<lambda>v. tv_template_id v = templateId) (w_versions w')) of
         None \<Rightarrow> Return () w'
       | Some version \<Rightarrow>
           (let timestamp = (case eventAt of Some t \<Rightarrow> t | None \<Rightarrow> w_now w') in
            bind (query w') (\<lambda>_ w''.
              Return ()
                (w''\<lparr>w_versions :=
                   map (\<lambda>v. if tv_id v = tv_id version
                             then versionChanges version status rejectionReason timestamp (w_now w'') v
                             else v) (w_versions w'')\<rparr>))))"

subsection \<open>repos/consent.repo.ts\<close>

definition isIdentifier :: "string \<Rightarrow> bool" where
  "isIdentifier s =
     (case s of
        [] \<Rightarrow> False
      | c # cs \<Rightarrow>
          c \<in> set ''ABCDEFGHIJKLMNOPQRSTUVWXYZabcdefghijklmnopqrstuvwxyz_''
          \<and> list_all (\<lambda>d. d \<in> set ''ABCDEFGHIJKLMNOPQRSTUVWXYZabcdefghijklmnopqrstuvwxyz0123456789_'') cs)"

text \<open>
  \<open>findUserIdByPhone\<close>: the configured column name is checked before it is put into the
  statement; a column the user table does not have makes the statement fail.
\<close>

definition findUserIdByPhone :: "string \<Rightarrow> string \<Rightarrow> World \<Rightarrow> nat option Outcome" where
  "findUserIdByPhone phone phoneColumn w =
     (if \<not> isIdentifier phoneColumn then Throw ''Invalid USER_PHONE_COLUMN'' w
      else bind (query w) (\<lambda>_ w'.
             if phoneColumn \<notin> set (w_user_columns w') then Throw ''Unknown column'' w'
             else Return (map_option us_id
                            (find (\<lambda>u. map_of (us_columns u) phoneColumn = Some phone) (w_users w'))) w'))"

definition insertConsentEvent :: "nat \<Rightarrow> nat \<Rightarrow> ConsentType \<Rightarrow> int \<Rightarrow> World \<Rightarrow> unit Outcome" where
  "insertConsentEvent userId companyId eventType eventAt w =
     bind (query w) (\<lambda>_ w'.
       Return ()
         (w'\<lparr>w_consent_events := w_consent_events w' @
             [\<lparr>ce_user_id = userId, ce_company_id = companyId, ce_event_type = eventType,
               ce_event_at = eventAt\<rparr>]\<rparr>))"

definition upsertMarketingCurrent :: "nat \<Rightarrow> nat \<Rightarrow> ConsentType \<Rightarrow> int \<Rightarrow> World \<Rightarrow> unit Outcome" where
  "upsertMarketingCurrent userId companyId eventType eventAt w =
     bind (query w) (\<lambda>_ w'.
       bind (query w') (\<lambda>_ w''.
         Return ()
           (w''\<lparr>w_current :=
              upsertCurrentRows (w_now w'') (w_current w'') userId companyId eventType eventAt\<rparr>)))"


text \<open>The three ways a call of \<open>upsertMarketingCurrent\<close> can end.\<close>

lemma query_cases:
  "(query w = Return () w \<and> w_faults w = [])
   \<or> (\<exists>fs. w_faults w = None # fs \<and> query w = Return () (w\<lparr>w_faults := fs\<rparr>))
   \<or> (\<exists>e fs. w_faults w = Some e # fs \<and> query w = Throw e (w\<lparr>w_faults := fs\<rparr>))"
  by (cases "w_faults w" rule: list.exhaust[case_product option.exhaust])
     (auto simp: query_def split: option.split)

lemma query_Return: "query w = Return x w1 \<Longrightarrow> w_current w1 = w_current w \<and> w_now w1 = w_now w"
  using query_cases[of w] by auto

lemma query_Throw: "query w = Throw e w1 \<Longrightarrow> w_current w1 = w_current w"
  using query_cases[of w] by auto

lemma upsertMarketingCurrent_Return:
  assumes "upsertMarketingCurrent u c ty t w = Return x w'"
  shows "w_current w' = upsertCurrentRows (w_now w) (w_current w) u c ty t"
proof (cases "query w")
  case (Return x1 w1)
  note q1 = query_Return[OF Return]
  show ?thesis
  proof (cases "query w1")
    case (Return x2 w2)
    note q2 = query_Return[OF Return]
    from assms \<open>query w = Return x1 w1\<close> Return q1 q2 show ?thesis
      by (auto simp: upsertMarketingCurrent_def)
  next
    case (Throw e w2)
    with assms \<open>query w = Return x1 w1\<close> show ?thesis
      by (simp add: upsertMarketingCurrent_def)
  qed
next
  case (Throw e w1)
  with assms show ?thesis by (simp add: upsertMarketingCurrent_def)
qed

lemma upsertMarketingCurrent_Throw:
  assumes "upsertMarketingCurrent u c ty t w = Throw e w'"
  shows "w_current w' = w_current w"
proof (cases "query w")
  case (Return x1 w1)
  note q1 = query_Return[OF Return]
  show ?thesis
  proof (cases "query w1")
    case (Return x2 w2)
    with assms \<open>query w = Return x1 w1\<close> show ?thesis
      by (simp add: upsertMarketingCurrent_def)
  next
    case (Throw e2 w2)
    note q2 = query_Throw[OF Throw]
    from assms \<open>query w = Return x1 w1\<close> Throw q1 q2 show ?thesis
      by (auto simp: upsertMarketingCurrent_def)
  qed
next
  case (Throw e1 w1)
  note q1 = query_Throw[OF Throw]
  from assms Throw q1 show ?thesis by (auto simp: upsertMarketingCurrent_def)
qed

lemma upsertMarketingCurrent_answered:
  assumes "w_faults w = []"
  shows "upsertMarketingCurrent u c ty t w =
     Return () (w\<lparr>w_current := upsertCurrentRows (w_now w) (w_current w) u c ty t\<rparr>)"
  using assms by (simp add: upsertMarketingCurrent_def query_answered)

text \<open>
  Claim C5. A call of \<open>upsertMarketingCurrent\<close> for the pair \<open>(u, c)\<close> either fails in
  one of its statements, and then the table \<open>whatsapp_marketing_current\<close> is as it was, or
  returns, as it does when the database answers; and then the aggregate row of the pair
  exists, the rows of other pairs are rows of the table before, and every row of the pair
  has as its stored status the value that \<open>computeStatus\<close> derives from its
  \<open>(last_opt_in_at, last_opt_out_at)\<close> pair, where \<open>computeStatus\<close> gives \<open>OPT_IN\<close> when
  only the opt-in time is set, \<open>OPT_OUT\<close> when only the opt-out time is set, \<open>UNKNOWN\<close>
  when neither is, and with both set \<open>OPT_IN\<close> exactly when the opt-in time is at least
  the opt-out time. The new opt-in time is the maximum of the existing one and the event
  time for an \<open>OPT_IN\<close> event and the existing value otherwise, likewise for opt-out, so
  neither timestamp decreases.
\<close>

theorem upsertMarketingCurrent_status_derived:
  fixes w u c ty t
  defines "old \<equiv> selectCurrent (w_current w) u c"
  defines "oldIn \<equiv> (case old of None \<Rightarrow> None | Some r \<Rightarrow> mc_last_opt_in_at r)"
  defines "oldOut \<equiv> (case old of None \<Rightarrow> None | Some r \<Rightarrow> mc_last_opt_out_at r)"
  shows "(case upsertMarketingCurrent u c ty t w of
            Throw e w' \<Rightarrow> w_current w' = w_current w
          | Return x w' \<Rightarrow>
              (\<exists>r. selectCurrent (w_current w') u c = Some r)
            \<and> (\<forall>r \<in> set (w_current w'). mc_user_id r = u \<and> mc_company_id r = c \<longrightarrow>
                  mc_status r = computeStatus (mc_last_opt_in_at r) (mc_last_opt_out_at r)
                \<and> mc_last_opt_in_at r = (if ty = CT_OPT_IN then Some (maxDate oldIn t) else oldIn)
                \<and> mc_last_opt_out_at r = (if ty = CT_OPT_OUT then Some (maxDate oldOut t) else oldOut)
                \<and> date_le oldIn (mc_last_opt_in_at r) \<and> date_le oldOut (mc_last_opt_out_at r))
            \<and> (\<forall>r \<in> set (w_current w'). \<not> (mc_user_id r = u \<and> mc_company_id r = c) \<longrightarrow>
                  r \<in> set (w_current w)))
    \<and> (w_faults w = [] \<longrightarrow> (\<exists>w'. upsertMarketingCurrent u c ty t w = Return () w'))
    \<and> (\<forall>i ou. computeStatus (Some i) None = CUR_OPT_IN
          \<and> computeStatus None (Some ou) = CUR_OPT_OUT
          \<and> computeStatus None None = CUR_UNKNOWN
          \<and> computeStatus (Some i) (Some ou) = (if i \<ge> ou then CUR_OPT_IN else CUR_OPT_OUT))
    \<and> (\<forall>e. maxDate None t = t \<and> maxDate (Some e) t = max e t)"
proof -
  note rows = upsertCurrentRows_status_derived[of "w_now w" "w_current w" u c ty t]
  have run: "(case upsertMarketingCurrent u c ty t w of
            Throw e w' \<Rightarrow> w_current w' = w_current w
          | Return x w' \<Rightarrow>
              (\<exists>r. selectCurrent (w_current w') u c = Some r)
            \<and> (\<forall>r \<in> set (w_current w'). mc_user_id r = u \<and> mc_company_id r = c \<longrightarrow>
                  mc_status r = computeStatus (mc_last_opt_in_at r) (mc_last_opt_out_at r)
                \<and> mc_last_opt_in_at r = (if ty = CT_OPT_IN then Some (maxDate oldIn t) else oldIn)
                \<and> mc_last_opt_out_at r = (if ty = CT_OPT_OUT then Some (maxDate oldOut t) else oldOut)
                \<and> date_le oldIn (mc_last_opt_in_at r) \<and> date_le oldOut (mc_last_opt_out_at r))
            \<and> (\<forall>r \<in> set (w_current w'). \<not> (mc_user_id r = u \<and> mc_company_id r = c) \<longrightarrow>
                  r \<in> set (w_current w)))"
  proof (cases "upsertMarketingCurrent u c ty t w")
    case (Return x w')
    have eq: "w_current w' = upsertCurrentRows (w_now w) (w_current w) u c ty t"
      by (rule upsertMarketingCurrent_Return[OF Return])
    have ex: "\<exists>r. selectCurrent (w_current w') u c = Some r"
      unfolding eq using rows by blast
    have der: "\<forall>r \<in> set (w_current w'). mc_user_id r = u \<and> mc_company_id r = c \<longrightarrow>
                  mc_status r = computeStatus (mc_last_opt_in_at r) (mc_last_opt_out_at r)
                \<and> mc_last_opt_in_at r = (if ty = CT_OPT_IN then Some (maxDate oldIn t) else oldIn)
                \<and> mc_last_opt_out_at r = (if ty = CT_OPT_OUT then Some (maxDate oldOut t) else oldOut)
                \<and> date_le oldIn (mc_last_opt_in_at r) \<and> date_le oldOut (mc_last_opt_out_at r)"
      unfolding eq oldIn_def oldOut_def old_def using rows by blast
    have oth: "\<forall>r \<in> set (w_current w'). \<not> (mc_user_id r = u \<and> mc_company_id r = c) \<longrightarrow>
                  r \<in> set (w_current w)"
      unfolding eq using upsert_others by blast
    show ?thesis unfolding Return Outcome.case by (intro conjI ex der oth)
  next
    case (Throw e w')
    show ?thesis unfolding Throw Outcome.case by (rule upsertMarketingCurrent_Throw[OF Throw])
  qed
  have ans: "w_faults w = [] \<longrightarrow> (\<exists>w'. upsertMarketingCurrent u c ty t w = Return () w')"
    using upsertMarketingCurrent_answered by blast
  have cs: "\<forall>i ou. computeStatus (Some i) None = CUR_OPT_IN
          \<and> computeStatus None (Some ou) = CUR_OPT_OUT
          \<and> computeStatus None None = CUR_UNKNOWN
          \<and> computeStatus (Some i) (Some ou) = (if i \<ge> ou then CUR_OPT_IN else CUR_OPT_OUT)"
    by (simp add: computeStatus_def)
  have md: "\<forall>e. maxDate None t = t \<and> maxDate (Some e) t = max e t"
    by (auto simp: maxDate_def)
  from run ans cs md show ?thesis by (intro conjI)
qed

text \<open>
  A user who opted in at 500 opts out at 700, and a user without a row opts in; a call
  whose second statement fails writes nothing.
\<close>

definition exampleCurrentWorld :: "string option list \<Rightarrow> World" where
  "exampleCurrentWorld plan =
     \<lparr>w_raw = [], w_recipients = [], w_templates = [], w_versions = [], w_integrations = [],
      w_users = [], w_user_columns = [], w_consent_events = [],
      w_current = [\<lparr>mc_user_id = 1, mc_company_id = 2, mc_status = CUR_OPT_IN,
                     mc_last_opt_in_at = Some 500, mc_last_opt_out_at = None, mc_updated_at = 500\<rparr>],
      w_now = 900, w_faults = plan, w_locked = [], w_found_rows = True\<rparr>"

theorem upsertMarketingCurrent_status_derived_witness:
  "w_current (worldOf (upsertMarketingCurrent 1 2 CT_OPT_OUT 700 (exampleCurrentWorld [])))
     = [\<lparr>mc_user_id = 1, mc_company_id = 2, mc_status = CUR_OPT_OUT,
         mc_last_opt_in_at = Some 500, mc_last_opt_out_at = Some 700, mc_updated_at = 900\<rparr>]
   \<and> w_current (worldOf (upsertMarketingCurrent 7 2 CT_OPT_IN 700 (exampleCurrentWorld [])))
     = [\<lparr>mc_user_id = 1, mc_company_id = 2, mc_status = CUR_OPT_IN,
         mc_last_opt_in_at = Some 500, mc_last_opt_out_at = None, mc_updated_at = 500\<rparr>,
        \<lparr>mc_user_id = 7, mc_company_id = 2, mc_status = CUR_OPT_IN,
         mc_last_opt_in_at = Some 700, mc_last_opt_out_at = None, mc_updated_at = 900\<rparr>]
   \<and> w_current (worldOf (upsertMarketingCurrent 1 2 CT_OPT_OUT 700
                            (exampleCurrentWorld [None, Some ''deadlock''])))
     = w_current (exampleCurrentWorld [None, Some ''deadlock''])"
proof -
  have e1: "upsertMarketingCurrent 1 2 CT_OPT_OUT 700 (exampleCurrentWorld []) =
      Return () ((exampleCurrentWorld [])\<lparr>w_current :=
        [\<lparr>mc_user_id = 1, mc_company_id = 2, mc_status = CUR_OPT_OUT,
          mc_last_opt_in_at = Some 500, mc_last_opt_out_at = Some 700, mc_updated_at = 900\<rparr>]\<rparr>)"
    by (simp add: upsertMarketingCurrent_def query_def exampleCurrentWorld_def upsertCurrentRows_def
          selectCurrent_def nextLastOptIn_def nextLastOptOut_def maxDate_def computeStatus_def)
  have e2: "upsertMarketingCurrent 7 2 CT_OPT_IN 700 (exampleCurrentWorld []) =
      Return () ((exampleCurrentWorld [])\<lparr>w_current :=
        [\<lparr>mc_user_id = 1, mc_company_id = 2, mc_status = CUR_OPT_IN,
          mc_last_opt_in_at = Some 500, mc_last_opt_out_at = None, mc_updated_at = 500\<rparr>,
         \<lparr>mc_user_id = 7, mc_company_id = 2, mc_status = CUR_OPT_IN,
          mc_last_opt_in_at = Some 700, mc_last_opt_out_at = None, mc_updated_at = 900\<rparr>]\<rparr>)"
    by (simp add: upsertMarketingCurrent_def query_def exampleCurrentWorld_def upsertCurrentRows_def
          selectCurrent_def nextLastOptIn_def nextLastOptOut_def maxDate_def computeStatus_def)
  have e3: "\<exists>w'. upsertMarketingCurrent 1 2 CT_OPT_OUT 700 (exampleCurrentWorld [None, Some ''deadlock''])
      = Throw ''deadlock'' w'"
    by (simp add: upsertMarketingCurrent_def query_def exampleCurrentWorld_def)
  then obtain w3 where t3: "upsertMarketingCurrent 1 2 CT_OPT_OUT 700
      (exampleCurrentWorld [None, Some ''deadlock'']) = Throw ''deadlock'' w3" by blast
  from upsertMarketingCurrent_status_derived
      [where u = 1 and c = 2 and ty = CT_OPT_OUT and t = 700
         and w = "exampleCurrentWorld [None, Some ''deadlock'']"]
  have "w_current w3 = w_current (exampleCurrentWorld [None, Some ''deadlock''])"
    unfolding t3 by simp
  with e1 e2 t3 show ?thesis by simp
qed


section \<open>Worker (worker/worker.service.ts)\<close>

record WorkerConfig =
  batchSize :: nat
  userPhoneColumn :: string
  blockedAsOptOut :: bool

definition maxAttempts :: int where
  "maxAttempts = 10"

definition parseMessageStatus :: "string option \<Rightarrow> MessageStatus option" where
  "parseMessageStatus v =
     (case v of
        None \<Rightarrow> None
      | Some s \<Rightarrow>
          if s = [] then None
          else (let normalized = toLowerCase s in
                if normalized = ''accepted'' then Some accepted
                else if normalized = ''sent'' then Some sent
                else if normalized = ''delivered'' then Some delivered
                else if normalized = ''read'' then Some read
                else if normalized = ''failed'' then Some failed
                else None))"

definition parseTemplateStatus :: "string option \<Rightarrow> TemplateStatus option" where
  "parseTemplateStatus v =
     (case v of
        None \<Rightarrow> None
      | Some s \<Rightarrow>
          if s = [] then None
          else (let normalized = toUpperCase s in
                if normalized = ''APPROVED'' then Some APPROVED
                else if normalized = ''REJECTED'' then Some REJECTED
                else if normalized = ''PENDING'' then Some T_PENDING
                else if normalized = ''SUBMITTED'' then Some T_SUBMITTED
                else None))"

definition parseConsentEvent :: "string option \<Rightarrow> ConsentEvent option" where
  "parseConsentEvent v =
     (case v of
        None \<Rightarrow> None
      | Some s \<Rightarrow>
          if s = [] then None
          else (let normalized = toUpperCase s in
                if normalized = ''OPT_IN'' then Some OPT_IN
                else if normalized = ''OPT_OUT'' then Some OPT_OUT
                else if normalized = ''BLOCKED'' then Some BLOCKED
                else None))"

definition normalizeConsentEvent :: "WorkerConfig \<Rightarrow> ConsentEvent \<Rightarrow> ConsentType option" where
  "normalizeConsentEvent cfg event =
     (if event = OPT_IN then Some CT_OPT_IN
      else if event = OPT_OUT then Some CT_OPT_OUT
      else if event = BLOCKED then (if blockedAsOptOut cfg then Some CT_OPT_OUT else None)
      else None)"

definition processMessageEvent ::
  "RawEventRow \<Rightarrow> NormalizedMessageEvent option \<Rightarrow> World \<Rightarrow> unit Outcome" where
  "processMessageEvent row normalizedEvent w =
     (let messageStatus = coalesce (optField me_status normalizedEvent)
                                   (parseMessageStatus (raw_event_status row));
          event = \<lparr>me_providerEventId =
                     coalesce (optField me_providerEventId normalizedEvent) (raw_provider_event_id row),
                   me_messageId = coalesce (optField me_messageId normalizedEvent) (raw_message_id row),
                   me_whatsappMessageId =
                     coalesce (optField me_whatsappMessageId normalizedEvent) (raw_whatsapp_message_id row),
                   me_status = messageStatus,
                   me_eventAt = optField me_eventAt normalizedEvent,
                   me_errorCode = optField me_errorCode normalizedEvent,
                   me_errorReason = optField me_errorReason normalizedEvent,
                   me_errorPayload = optField me_errorPayload normalizedEvent\<rparr>
      in if me_status event = None
         then markProcessed (raw_id row) (Some ''Unrecognized payload'') w
         else bind (applyMessageEvent event w) (\<lambda>result w1.
                if result = NOT_FOUND
                then markProcessed (raw_id row) (Some ''Recipient not found'') w1
                else markProcessed (raw_id row) None w1))"

definition processTemplateEvent ::
  "RawEventRow \<Rightarrow> NormalizedTemplateEvent option \<Rightarrow> World \<Rightarrow> unit Outcome" where
  "processTemplateEvent row normalizedEvent w =
     bind (findActiveByAppId (raw_app_id row) w) (\<lambda>found w1.
       case found of
         None \<Rightarrow> markProcessed (raw_id row) (Some ''Integration not found for appId'') w1
       | Some integration \<Rightarrow>
           (let templateStatus = coalesce (optField te_templateStatus normalizedEvent)
                                          (parseTemplateStatus (raw_event_status row));
                event = \<lparr>te_providerEventId =
                           coalesce (optField te_providerEventId normalizedEvent) (raw_provider_event_id row),
                         te_templateName =
                           coalesce (optField te_templateName normalizedEvent) (raw_template_name row),
                         te_templateProviderId =
                           coalesce (optField te_templateProviderId normalizedEvent)
                                    (raw_template_provider_id row),
                         te_templateStatus = templateStatus,
                         te_language = optField te_language normalizedEvent,
                         te_rejectionReason = optField te_rejectionReason normalizedEvent,
                         te_correctCategory = optField te_correctCategory normalizedEvent,
                         te_eventAt = optField te_eventAt normalizedEvent\<rparr>
            in case te_templateStatus event of
                 None \<Rightarrow> markProcessed (raw_id row) (Some ''Unrecognized payload'') w1
               | Some status \<Rightarrow>
                   bind (if truthy (te_templateProviderId event)
                         then findTemplateByProviderId (ig_id integration)
                                (orEmpty (te_templateProviderId event)) w1
                         else Return None w1)
                     (\<lambda>byProviderId w2.
                        bind (if byProviderId = None \<and> truthy (te_templateName event)
                              then findTemplateByName (ig_company_id integration)
                                     (orEmpty (te_templateName event)) (te_language event) w2
                              else Return byProviderId w2)
                          (\<lambda>template w3.
                             case template of
                               None \<Rightarrow> markProcessed (raw_id row) (Some ''Template not found'') w3
                             | Some t \<Rightarrow>
                                 bind (updateTemplateStatus (tp_id t) status
                                         (te_rejectionReason event) (te_correctCategory event) w3)
                                   (\<lambda>_ w4.
                                      bind (updateLatestTemplateVersion (tp_id t) status
                                              (te_rejectionReason event) (te_eventAt event) w4)
                                        (\<lambda>_ w5. markProcessed (raw_id row) None w5))))))"

definition processUserEvent ::
  "WorkerConfig \<Rightarrow> RawEventRow \<Rightarrow> NormalizedUserEvent option \<Rightarrow> World \<Rightarrow> unit Outcome" where
  "processUserEvent cfg row normalizedEvent w =
     bind (findActiveByAppId (raw_app_id row) w) (\<lambda>found w1.
       case found of
         None \<Rightarrow> markProcessed (raw_id row) (Some ''Integration not found for appId'') w1
       | Some integration \<Rightarrow>
           (let event = \<lparr>ue_providerEventId =
                           coalesce (optField ue_providerEventId normalizedEvent) (raw_provider_event_id row),
                         ue_phone = optField ue_phone normalizedEvent,
                         ue_consentEvent =
                           coalesce (optField ue_consentEvent normalizedEvent)
                                    (parseConsentEvent (raw_event_status row)),
                         ue_eventAt = optField ue_eventAt normalizedEvent\<rparr>
            in if \<not> truthy (ue_phone event)
               then markProcessed (raw_id row) (Some ''User not found for phone'') w1
               else (case ue_consentEvent event of
                       None \<Rightarrow> markProcessed (raw_id row) (Some ''Unrecognized payload'') w1
                     | Some consentEvent \<Rightarrow>
                         (case normalizeConsentEvent cfg consentEvent of
                            None \<Rightarrow>
                              markProcessed (raw_id row) (Some ''Blocked event ignored by configuration'') w1
                          | Some normalizedConsent \<Rightarrow>
                              bind (findUserIdByPhone (orEmpty (ue_phone event)) (userPhoneColumn cfg) w1)
                                (\<lambda>foundUser w2.
                                   if foundUser = None \<or> foundUser = Some 0
                                   then markProcessed (raw_id row) (Some ''User not found for phone'') w2
                                   else (let userId = the foundUser;
                                             eventAt = (case ue_eventAt event of
                                                          Some t \<Rightarrow> t | None \<Rightarrow> w_now w2)
                                         in bind (insertConsentEvent userId (ig_company_id integration)
                                                    normalizedConsent eventAt w2)
                                              (\<lambda>_ w3.
                                                 bind (upsertMarketingCurrent userId
                                                         (ig_company_id integration)
                                                         normalizedConsent eventAt w3)
                                                   (\<lambda>_ w4. markProcessed (raw_id row) None w4))))))))"

text \<open>
  \<open>dispatchRow\<close> is the body of the \<open>try\<close> of \<open>processSingleRow\<close>, the \<open>switch\<close> on the
  stored kind; \<open>processSingleRow\<close> adds the \<open>catch\<close>.
\<close>

definition dispatchRow :: "Runtime \<Rightarrow> WorkerConfig \<Rightarrow> RawEventRow \<Rightarrow> World \<Rightarrow> unit Outcome" where
  "dispatchRow rt cfg row w =
     (let payload = parsePayloadJson rt (raw_payload_json row);
          normalized = normalize (Date_parse rt) payload
      in case raw_event_kind row of
           MESSAGE \<Rightarrow>
             processMessageEvent row (case normalized of MessageEvent e \<Rightarrow> Some e | _ \<Rightarrow> None) w
         | TEMPLATE \<Rightarrow>
             processTemplateEvent row (case normalized of TemplateEvent e \<Rightarrow> Some e | _ \<Rightarrow> None) w
         | USER \<Rightarrow>
             processUserEvent cfg row (case normalized of UserEvent e \<Rightarrow> Some e | _ \<Rightarrow> None) w
         | UNKNOWN \<Rightarrow> markProcessed (raw_id row) (Some ''Unrecognized payload'') w)"

definition processSingleRow :: "Runtime \<Rightarrow> WorkerConfig \<Rightarrow> RawEventRow \<Rightarrow> World \<Rightarrow> unit Outcome" where
  "processSingleRow rt cfg row w =
     (case dispatchRow rt cfg row w of
        Return u w' \<Rightarrow> Return u w'
      | Throw reason w' \<Rightarrow>
          (let attempts = raw_attempts row + 1;
               finalize = (attempts > maxAttempts)
           in markFailedAttempt (raw_id row) attempts reason finalize w'))"

fun processRows :: "Runtime \<Rightarrow> WorkerConfig \<Rightarrow> RawEventRow list \<Rightarrow> World \<Rightarrow> unit Outcome" where
  "processRows rt cfg [] w = Return () w"
| "processRows rt cfg (row # rows) w =
     bind (processSingleRow rt cfg row w) (\<lambda>_ w'. processRows rt cfg rows w')"

text \<open>
  \<open>processBatch\<close> inside \<open>safeTick\<close>: the transaction is committed, or rolled back when
  anything throws; a rollback restores every table.
\<close>

definition runBatch :: "Runtime \<Rightarrow> WorkerConfig \<Rightarrow> World \<Rightarrow> unit Outcome" where
  "runBatch rt cfg w =
     bind (query w) (\<lambda>_ w1.
       bind (lockNextBatch (batchSize cfg) w1) (\<lambda>rows w2.
         if rows = [] then query w2
         else bind (processRows rt cfg rows w2) (\<lambda>_ w3. query w3)))"

definition processBatch :: "Runtime \<Rightarrow> WorkerConfig \<Rightarrow> World \<Rightarrow> World" where
  "processBatch rt cfg w =
     (case runBatch rt cfg w of
        Return u w' \<Rightarrow> w'
      | Throw reason w' \<Rightarrow> w\<lparr>w_faults := w_faults w'\<rparr>)"

subsection \<open>A template without versions\<close>

lemma updateLatestTemplateVersion_no_rows:
  assumes "w_faults w = []"
    and "filter (\<lambda>v. tv_template_id v = templateId) (w_versions w) = []"
  shows "updateLatestTemplateVersion templateId status rejectionReason eventAt w = Return () w"
  using assms by (simp add: updateLatestTemplateVersion_def query_no_faults latestBy_def)

text \<open>
  Claim C10. With the database answering, an integration found for the application id, a
  template status known and a template resolved (by provider id, else by name), when the
  template has no version row at all: \<open>updateLatestTemplateVersion\<close> returns without a
  write, and the template projection returns normally having left the version table as it
  was, set the status of the template row (with the rejection reason and the corrected
  category only for \<open>REJECTED\<close>), and marked the raw row processed with no error.
\<close>

theorem template_without_versions:
  assumes nofault: "w_faults w = []"
    and integ: "find (\<lambda>i. ig_gupshup_app_id i = raw_app_id row \<and> ig_is_active i = 1) (w_integrations w)
                = Some integration"
    and status: "coalesce (optField te_templateStatus normalizedEvent)
                          (parseTemplateStatus (raw_event_status row)) = Some status"
    and pid: "providerId = coalesce (optField te_templateProviderId normalizedEvent)
                                    (raw_template_provider_id row)"
    and name: "name = coalesce (optField te_templateName normalizedEvent) (raw_template_name row)"
    and byPid: "byProviderId =
       (if truthy providerId
        then find (\<lambda>t. tp_integration_id t = ig_id integration
                        \<and> tp_provider_template_id t = Some (orEmpty providerId)) (w_templates w)
        else None)"
    and resolved: "(if byProviderId = None \<and> truthy name
        then latestBy tp_id
               (filter (\<lambda>t. tp_company_id t = ig_company_id integration \<and> tp_name t = orEmpty name
                             \<and> (truthy (optField te_language normalizedEvent) \<longrightarrow>
                                  tp_language t = optField te_language normalizedEvent))
                       (w_templates w))
        else byProviderId) = Some template"
    and noversions: "filter (\<lambda>v. tv_template_id v = tp_id template) (w_versions w) = []"
  shows "\<exists>w'. processTemplateEvent row normalizedEvent w = Return () w'
     \<and> w_versions w' = w_versions w
     \<and> w_templates w' =
         map (\<lambda>t. if tp_id t = tp_id template
                   then t\<lparr>tp_status := columnStatus status,
                          tp_rejection_reason :=
                            (if status = REJECTED then optField te_rejectionReason normalizedEvent else None),
                          tp_correct_category :=
                            (if status = REJECTED then optField te_correctCategory normalizedEvent else None),
                          tp_last_synced_at := Some (w_now w),
                          tp_updated_at := Some (w_now w)\<rparr>
                   else t) (w_templates w)
     \<and> w_raw w' =
         map (\<lambda>r. if raw_id r = raw_id row
                   then r\<lparr>raw_processed := 1, raw_processed_at := Some (w_now w), raw_last_error := None\<rparr>
                   else r) (w_raw w)"
proof -
  let ?w3 = "w\<lparr>w_templates :=
         map (\<lambda>t. if tp_id t = tp_id template
                   then t\<lparr>tp_status := columnStatus status,
                          tp_rejection_reason :=
                            (if status = REJECTED then optField te_rejectionReason normalizedEvent else None),
                          tp_correct_category :=
                            (if status = REJECTED then optField te_correctCategory normalizedEvent else None),
                          tp_last_synced_at := Some (w_now w),
                          tp_updated_at := Some (w_now w)\<rparr>
                   else t) (w_templates w)\<rparr>"
  let ?w5 = "?w3\<lparr>w_raw :=
         map (\<lambda>r. if raw_id r = raw_id row
                   then r\<lparr>raw_processed := 1, raw_processed_at := Some (w_now w), raw_last_error := None\<rparr>
                   else r) (w_raw w)\<rparr>"
  have I: "findActiveByAppId (raw_app_id row) w = Return (Some integration) w"
    using nofault integ by (simp add: findActiveByAppId_def query_no_faults)
  have A: "(if truthy providerId
            then findTemplateByProviderId (ig_id integration) (orEmpty providerId) w
            else Return None w) = Return byProviderId w"
    using nofault byPid by (simp add: findTemplateByProviderId_def query_no_faults)
  have B: "(if byProviderId = None \<and> truthy name
            then findTemplateByName (ig_company_id integration) (orEmpty name)
                   (optField te_language normalizedEvent) w
            else Return byProviderId w) = Return (Some template) w"
    using nofault resolved
    by (cases "byProviderId = None \<and> truthy name")
       (simp_all add: findTemplateByName_def query_no_faults)
  have C: "updateTemplateStatus (tp_id template) status (optField te_rejectionReason normalizedEvent)
             (optField te_correctCategory normalizedEvent) w = Return () ?w3"
    using nofault by (simp add: updateTemplateStatus_def query_no_faults)
  have D: "updateLatestTemplateVersion (tp_id template) status (optField te_rejectionReason normalizedEvent)
             (optField te_eventAt normalizedEvent) ?w3 = Return () ?w3"
    by (rule updateLatestTemplateVersion_no_rows) (simp_all add: nofault noversions)
  have E: "markProcessed (raw_id row) None ?w3 = Return () ?w5"
    using nofault by (simp add: markProcessed_def query_no_faults trimError_def)
  have "processTemplateEvent row normalizedEvent w = Return () ?w5"
    unfolding processTemplateEvent_def
    by (simp add: I Let_def status pid[symmetric] name[symmetric] A B C D E
          split del: if_split cong: if_cong)
  then show ?thesis by simp
qed


text \<open>An approved template of integration 7 that has no version row.\<close>

definition exampleTemplateRow :: RawEventRow where
  "exampleTemplateRow =
     \<lparr>raw_id = 1, raw_app_id = ''A'', raw_event_kind = TEMPLATE, raw_provider_event_id = None,
      raw_message_id = None, raw_whatsapp_message_id = None, raw_template_name = None,
      raw_template_provider_id = Some ''tpl-1'', raw_event_status = Some ''APPROVED'',
      raw_received_at = 5, raw_payload_json = JObj [], raw_processed = 0, raw_attempts = 0,
      raw_last_error = None, raw_processed_at = None, raw_dedupe_key = ''k''\<rparr>"

definition exampleTemplate :: TemplateRow where
  "exampleTemplate =
     \<lparr>tp_id = 11, tp_company_id = 3, tp_integration_id = 7, tp_name = ''welcome'',
      tp_language = None, tp_provider_template_id = Some ''tpl-1'', tp_status = TC_PENDING,
      tp_rejection_reason = None, tp_correct_category = None, tp_last_synced_at = None,
      tp_updated_at = None\<rparr>"

definition exampleIntegration :: IntegrationMapping where
  "exampleIntegration = \<lparr>ig_id = 7, ig_company_id = 3, ig_gupshup_app_id = ''A'', ig_is_active = 1\<rparr>"

definition exampleTemplateWorld :: World where
  "exampleTemplateWorld =
     \<lparr>w_raw = [exampleTemplateRow], w_recipients = [], w_templates = [exampleTemplate],
      w_versions = [], w_integrations = [exampleIntegration], w_users = [], w_user_columns = [],
      w_consent_events = [], w_current = [], w_now = 1000, w_faults = [], w_locked = [],
      w_found_rows = True\<rparr>"

theorem template_without_versions_witness:
  "\<exists>w'. processTemplateEvent exampleTemplateRow None exampleTemplateWorld = Return () w'
     \<and> w_versions w' = []
     \<and> map tp_status (w_templates w') = [TC_APPROVED]
     \<and> map raw_processed (w_raw w') = [1]
     \<and> map raw_last_error (w_raw w') = [None]"
proof -
  have h1: "w_faults exampleTemplateWorld = []"
    by (simp add: exampleTemplateWorld_def)
  have h2: "find (\<lambda>i. ig_gupshup_app_id i = raw_app_id exampleTemplateRow \<and> ig_is_active i = 1)
            (w_integrations exampleTemplateWorld) = Some exampleIntegration"
    by (simp add: exampleTemplateWorld_def exampleTemplateRow_def exampleIntegration_def)
  have h3: "coalesce (optField te_templateStatus None)
            (parseTemplateStatus (raw_event_status exampleTemplateRow)) = Some APPROVED"
    by code_simp
  have h4: "Some ''tpl-1'' = coalesce (optField te_templateProviderId None)
            (raw_template_provider_id exampleTemplateRow)"
    by code_simp
  have h5: "None = coalesce (optField te_templateName None) (raw_template_name exampleTemplateRow)"
    by code_simp
  have h6: "Some exampleTemplate =
       (if truthy (Some ''tpl-1'')
        then find (\<lambda>t. tp_integration_id t = ig_id exampleIntegration
                        \<and> tp_provider_template_id t = Some (orEmpty (Some ''tpl-1'')))
               (w_templates exampleTemplateWorld)
        else None)"
    by (simp add: truthy_def orEmpty_def exampleTemplateWorld_def exampleTemplate_def
          exampleIntegration_def)
  have h7: "(if Some exampleTemplate = None \<and> truthy None
        then latestBy tp_id
               (filter (\<lambda>t. tp_company_id t = ig_company_id exampleIntegration \<and> tp_name t = orEmpty None
                             \<and> (truthy (optField te_language None) \<longrightarrow>
                                  tp_language t = optField te_language None))
                       (w_templates exampleTemplateWorld))
        else Some exampleTemplate) = Some exampleTemplate"
    by simp
  have h8: "filter (\<lambda>v. tv_template_id v = tp_id exampleTemplate) (w_versions exampleTemplateWorld) = []"
    by (simp add: exampleTemplateWorld_def)
  from template_without_versions[OF h1 h2 h3 h4 h5 h6 h7 h8]
  obtain w' where w': "processTemplateEvent exampleTemplateRow None exampleTemplateWorld = Return () w'"
    and v: "w_versions w' = w_versions exampleTemplateWorld"
    and t: "map tp_status (w_templates w') = [TC_APPROVED]"
    and r: "map raw_processed (w_raw w') = [1]" "map raw_last_error (w_raw w') = [None]"
    by (auto simp: exampleTemplateWorld_def exampleTemplate_def exampleTemplateRow_def)
  from w' v t r show ?thesis by (simp add: exampleTemplateWorld_def)
qed

subsection \<open>Retry accounting\<close>

text \<open>
  A raw row is in order when its counter exceeds \<open>maxAttempts\<close> only if it is terminal.
  \<open>rawSafe w w'\<close>: every raw row of \<open>w'\<close> is a row of \<open>w\<close> or is in order.
\<close>

definition rowOk :: "RawEventRow \<Rightarrow> bool" where
  "rowOk r = (raw_attempts r \<le> maxAttempts \<or> raw_processed r = 1)"

definition rawSafe :: "World \<Rightarrow> World \<Rightarrow> bool" where
  "rawSafe w w' = list_all (\<lambda>r'. r' \<in> set (w_raw w) \<or> rowOk r') (w_raw w')"

text \<open>
  The states the raw table can reach: from an empty table, by an ingest call, by a worker
  tick, and by anything that leaves the raw table alone (the clock, the other tables, the
  failures to come, the locks of other transactions). Ticks are taken one at a time.
\<close>

inductive reachable :: "Runtime \<Rightarrow> WorkerConfig \<Rightarrow> World \<Rightarrow> bool" for rt :: Runtime and cfg :: WorkerConfig where
  init: "w_raw w = [] \<Longrightarrow> reachable rt cfg w"
| ingest_step: "reachable rt cfg w \<Longrightarrow> reachable rt cfg (worldOf (ingest rt appId rawBody w))"
| tick_step: "reachable rt cfg w \<Longrightarrow> reachable rt cfg (processBatch rt cfg w)"
| env_step: "reachable rt cfg w \<Longrightarrow> w_raw w' = w_raw w \<Longrightarrow> reachable rt cfg w'"

lemma rawSafe_iff: "rawSafe w w' \<longleftrightarrow> (\<forall>r' \<in> set (w_raw w'). r' \<in> set (w_raw w) \<or> rowOk r')"
  by (simp add: rawSafe_def list_all_iff)

lemma rawSafe_same: "w_raw w' = w_raw w \<Longrightarrow> rawSafe w w'"
  by (simp add: rawSafe_iff)

lemma rawSafe_trans: "rawSafe w w' \<Longrightarrow> rawSafe w' w'' \<Longrightarrow> rawSafe w w''"
  unfolding rawSafe_iff by blast

lemma rawSafe_bind:
  assumes "rawSafe w (worldOf m)"
    and "\<And>a w1. m = Return a w1 \<Longrightarrow> rawSafe w1 (worldOf (f a w1))"
  shows "rawSafe w (worldOf (bind m f))"
proof (cases m)
  case (Return a w1)
  then show ?thesis using assms rawSafe_trans by fastforce
next
  case (Throw e w1)
  then show ?thesis using assms(1) by simp
qed

lemma query_raw: "w_raw (worldOf (query w)) = w_raw w"
  by (simp add: query_def split: list.split option.split)

lemma query_Return_raw: "query w = Return a w1 \<Longrightarrow> w_raw w1 = w_raw w"
  using query_raw[of w] by simp

lemma rawSafe_query: "rawSafe w (worldOf (query w))"
  by (rule rawSafe_same) (rule query_raw)

text \<open>An operation that sends one statement and then leaves the raw table alone.\<close>

lemma rawSafe_read:
  assumes "\<And>w'. w_raw (worldOf (g w')) = w_raw w'"
  shows "rawSafe w (worldOf (bind (query w) (\<lambda>_. g)))"
  by (rule rawSafe_bind[OF rawSafe_query]) (simp add: rawSafe_same assms)

lemma rawSafe_markProcessed: "rawSafe w (worldOf (markProcessed rid lastError w))"
  unfolding markProcessed_def
  by (rule rawSafe_bind[OF rawSafe_query]) (auto simp: rawSafe_iff rowOk_def)

lemma rawSafe_markFailedAttempt:
  "rawSafe w (worldOf (markFailedAttempt rid attempts reason (attempts > maxAttempts) w))"
proof (cases "attempts > maxAttempts")
  case True
  show ?thesis
    unfolding markFailedAttempt_def if_P[OF True]
    by (rule rawSafe_bind[OF rawSafe_query]) (auto simp: rawSafe_iff rowOk_def)
next
  case False
  show ?thesis
    unfolding markFailedAttempt_def if_not_P[OF False]
    using False by (intro rawSafe_bind[OF rawSafe_query]) (auto simp: rawSafe_iff rowOk_def)
qed

lemma rawSafe_insertRawEvent: "rawSafe w (worldOf (insertRawEvent input w))"
  unfolding insertRawEvent_def
  by (rule rawSafe_bind[OF rawSafe_query])
     (auto simp: rawSafe_iff rowOk_def newRawRow_def DEFAULT_attempts_def maxAttempts_def Let_def)

lemma rawSafe_ingest: "rawSafe w (worldOf (ingest rt appId rawBody w))"
  unfolding ingest_def Let_def
  by (rule rawSafe_bind[OF rawSafe_insertRawEvent]) (simp add: rawSafe_same)


lemma keep_bind:
  assumes "w_raw (worldOf m) = w_raw w"
    and "\<And>a w1. m = Return a w1 \<Longrightarrow> w_raw (worldOf (f a w1)) = w_raw w1"
  shows "w_raw (worldOf (bind m f)) = w_raw w"
proof (cases m)
  case (Return a w1)
  then show ?thesis using assms by fastforce
next
  case (Throw e w1)
  then show ?thesis using assms(1) by simp
qed

lemma keep_findActiveByAppId: "w_raw (worldOf (findActiveByAppId appId w)) = w_raw w"
  unfolding findActiveByAppId_def by (rule keep_bind[OF query_raw]) simp

lemma keep_findRecipient: "w_raw (worldOf (findRecipient mid wid w)) = w_raw w"
  unfolding findRecipient_def
proof (rule keep_bind)
  show "w_raw (worldOf (if truthy mid
           then bind (query w) (\<lambda>_ w'.
                  Return (find (\<lambda>r. rc_gupshup_message_id r = mid) (w_recipients w')) w')
           else Return None w)) = w_raw w"
    by (cases "truthy mid") (simp_all add: keep_bind[OF query_raw])
next
  fix a w1
  show "w_raw (worldOf (case a of
            Some r \<Rightarrow> Return (Some r) w1
          | None \<Rightarrow>
              if truthy wid
              then bind (query w1) (\<lambda>_ w'.
                     Return (find (\<lambda>r. rc_whatsapp_message_id r = wid) (w_recipients w')) w')
              else Return None w1)) = w_raw w1"
    by (cases a; cases "truthy wid") (simp_all add: keep_bind[OF query_raw])
qed

lemma keep_applyMessageEvent: "w_raw (worldOf (applyMessageEvent event w)) = w_raw w"
proof (cases "\<not> truthy (me_messageId event) \<and> \<not> truthy (me_whatsappMessageId event)")
  case True
  then show ?thesis by (simp add: applyMessageEvent_def)
next
  case False
  show ?thesis
    unfolding applyMessageEvent_def if_not_P[OF False]
  proof (rule keep_bind[OF keep_findRecipient])
    fix a w1
    show "w_raw (worldOf (case a of
                  None \<Rightarrow> Return NOT_FOUND w1
                | Some recipient \<Rightarrow>
                    (case me_status event of
                       None \<Rightarrow> Return NOOP w1
                     | Some st \<Rightarrow>
                         (let eventAt = (case me_eventAt event of Some t \<Rightarrow> t | None \<Rightarrow> w_now w1) in
                          case recipientUpdates recipient event st eventAt of
                            None \<Rightarrow> Return NOOP w1
                          | Some updates \<Rightarrow>
                              if updates = [] then Return NOOP w1
                              else bind (query w1) (\<lambda>_ w2.
                                     Return UPDATED
                                       (w2\<lparr>w_recipients :=
                                          map (\<lambda>r. if rc_id r = rc_id recipient
                                                    then applyUpdates updates (w_now w2) r else r)
                                              (w_recipients w2)\<rparr>)))))) = w_raw w1"
      by (simp add: Let_def keep_bind[OF query_raw] split: option.split)
  qed
qed

lemma keep_findTemplateByProviderId:
  "w_raw (worldOf (findTemplateByProviderId i p w)) = w_raw w"
  unfolding findTemplateByProviderId_def by (rule keep_bind[OF query_raw]) simp

lemma keep_findTemplateByName:
  "w_raw (worldOf (findTemplateByName c n l w)) = w_raw w"
  unfolding findTemplateByName_def by (rule keep_bind[OF query_raw]) simp

lemma keep_updateTemplateStatus:
  "w_raw (worldOf (updateTemplateStatus t st rr cc w)) = w_raw w"
  unfolding updateTemplateStatus_def by (rule keep_bind[OF query_raw]) simp

lemma keep_updateLatestTemplateVersion:
  "w_raw (worldOf (updateLatestTemplateVersion t st rr ea w)) = w_raw w"
  unfolding updateLatestTemplateVersion_def
proof (rule keep_bind[OF query_raw])
  fix a w1
  show "w_raw (worldOf (case latestBy tv_version_no (filter (\<lambda>v. tv_template_id v = t) (w_versions w1)) of
         None \<Rightarrow> Return () w1
       | Some version \<Rightarrow>
           (let timestamp = (case ea of Some t \<Rightarrow> t | None \<Rightarrow> w_now w1) in
            bind (query w1) (\<lambda>_ w''.
              Return ()
                (w''\<lparr>w_versions :=
                   map (\<lambda>v. if tv_id v = tv_id version
                             then versionChanges version st rr timestamp (w_now w'') v
                             else v) (w_versions w'')\<rparr>))))) = w_raw w1"
    by (cases "latestBy tv_version_no (filter (\<lambda>v. tv_template_id v = t) (w_versions w1))")
       (simp_all add: Let_def keep_bind[OF query_raw])
qed

lemma keep_findUserIdByPhone: "w_raw (worldOf (findUserIdByPhone phone col w)) = w_raw w"
proof (cases "isIdentifier col")
  case False
  then show ?thesis by (simp add: findUserIdByPhone_def)
next
  case True
  have "w_raw (worldOf (bind (query w) (\<lambda>_ w'.
             if col \<notin> set (w_user_columns w') then Throw ''Unknown column'' w'
             else Return (map_option us_id
                            (find (\<lambda>u. map_of (us_columns u) col = Some phone) (w_users w'))) w')))
        = w_raw w"
    by (rule keep_bind[OF query_raw]) simp
  then show ?thesis using True by (simp add: findUserIdByPhone_def)
qed

lemma keep_insertConsentEvent: "w_raw (worldOf (insertConsentEvent u c ty t w)) = w_raw w"
  unfolding insertConsentEvent_def by (rule keep_bind[OF query_raw]) simp

lemma keep_upsertMarketingCurrent: "w_raw (worldOf (upsertMarketingCurrent u c ty t w)) = w_raw w"
  unfolding upsertMarketingCurrent_def
  by (rule keep_bind[OF query_raw]) (simp add: keep_bind[OF query_raw])

lemma keep_lockNextBatch: "w_raw (worldOf (lockNextBatch n w)) = w_raw w"
  unfolding lockNextBatch_def by (rule keep_bind[OF query_raw]) simp


lemmas keep_ops =
  keep_findActiveByAppId keep_findRecipient keep_applyMessageEvent keep_findTemplateByProviderId
  keep_findTemplateByName keep_updateTemplateStatus keep_updateLatestTemplateVersion
  keep_findUserIdByPhone keep_insertConsentEvent keep_upsertMarketingCurrent keep_lockNextBatch
  query_raw

lemma rawSafe_keep_then:
  assumes "w_raw (worldOf m) = w_raw w"
    and "\<And>a w1. rawSafe w1 (worldOf (f a w1))"
  shows "rawSafe w (worldOf (bind m f))"
  by (rule rawSafe_bind[OF rawSafe_same[OF assms(1)]]) (rule assms(2))

lemma rawSafe_processMessageEvent: "rawSafe w (worldOf (processMessageEvent row ne w))"
  unfolding processMessageEvent_def Let_def
  by (auto intro!: rawSafe_keep_then rawSafe_markProcessed simp: keep_ops split: option.split)

lemma rawSafe_processTemplateEvent: "rawSafe w (worldOf (processTemplateEvent row ne w))"
  unfolding processTemplateEvent_def Let_def
  by (auto intro!: rawSafe_keep_then rawSafe_markProcessed simp: keep_ops split: option.split)

lemma rawSafe_processUserEvent: "rawSafe w (worldOf (processUserEvent cfg row ne w))"
  unfolding processUserEvent_def Let_def
  by (auto intro!: rawSafe_keep_then rawSafe_markProcessed simp: keep_ops split: option.split)

lemma rawSafe_dispatchRow: "rawSafe w (worldOf (dispatchRow rt cfg row w))"
  unfolding dispatchRow_def Let_def
  by (cases "raw_event_kind row")
     (simp_all add: rawSafe_processMessageEvent rawSafe_processTemplateEvent
        rawSafe_processUserEvent rawSafe_markProcessed)

lemma rawSafe_processSingleRow: "rawSafe w (worldOf (processSingleRow rt cfg row w))"
proof (cases "dispatchRow rt cfg row w")
  case (Return u w')
  then show ?thesis using rawSafe_dispatchRow[of w rt cfg row] by (simp add: processSingleRow_def)
next
  case (Throw reason w')
  have "rawSafe w w'" using rawSafe_dispatchRow[of w rt cfg row] Throw by simp
  moreover have "rawSafe w' (worldOf (markFailedAttempt (raw_id row) (raw_attempts row + 1) reason
      (raw_attempts row + 1 > maxAttempts) w'))"
    by (rule rawSafe_markFailedAttempt)
  ultimately show ?thesis
    using Throw rawSafe_trans by (simp add: processSingleRow_def Let_def)
qed

lemma rawSafe_processRows: "rawSafe w (worldOf (processRows rt cfg rows w))"
proof (induction rows arbitrary: w)
  case Nil
  then show ?case by (simp add: rawSafe_same)
next
  case (Cons row rows)
  show ?case
    unfolding processRows.simps
    by (rule rawSafe_bind[OF rawSafe_processSingleRow]) (rule Cons.IH)
qed

lemma rawSafe_runBatch: "rawSafe w (worldOf (runBatch rt cfg w))"
  unfolding runBatch_def
proof (rule rawSafe_keep_then[OF query_raw])
  fix a w1
  show "rawSafe w1 (worldOf (bind (lockNextBatch (batchSize cfg) w1) (\<lambda>rows w2.
         if rows = [] then query w2
         else bind (processRows rt cfg rows w2) (\<lambda>_ w3. query w3))))"
  proof (rule rawSafe_keep_then[OF keep_lockNextBatch])
    fix rows w2
    show "rawSafe w2 (worldOf (if rows = [] then query w2
         else bind (processRows rt cfg rows w2) (\<lambda>_ w3. query w3)))"
      by (cases "rows = []")
         (simp_all add: rawSafe_query rawSafe_bind[OF rawSafe_processRows])
  qed
qed

lemma rawSafe_processBatch: "rawSafe w (processBatch rt cfg w)"
proof (cases "runBatch rt cfg w")
  case (Return u w')
  then show ?thesis using rawSafe_runBatch[of w rt cfg] by (simp add: processBatch_def)
next
  case (Throw reason w')
  then show ?thesis by (simp add: processBatch_def rawSafe_same)
qed

lemma reachable_rowOk:
  assumes "reachable rt cfg w"
  shows "\<forall>r \<in> set (w_raw w). rowOk r"
  using assms
proof (induction rule: reachable.induct)
  case (init w)
  then show ?case by simp
next
  case (ingest_step w appId rawBody)
  then show ?case using rawSafe_ingest[of w rt appId rawBody] unfolding rawSafe_iff by blast
next
  case (tick_step w)
  then show ?case using rawSafe_processBatch[of w rt cfg] unfolding rawSafe_iff by blast
next
  case (env_step w w')
  then show ?case by simp
qed


text \<open>The failing tick: a pending row of unknown kind whose \<open>markProcessed\<close> statement fails.\<close>

lemma take_single: "1 \<le> n \<Longrightarrow> take n [r] = [r]"
  by (cases n) simp_all

lemma tick_fails:
  assumes raw: "w_raw w = [r]"
    and kind: "raw_event_kind r = UNKNOWN"
    and pending: "raw_processed r = 0"
    and unlocked: "raw_id r \<notin> set (w_locked w)"
    and plan: "w_faults w = [None, None, Some reason, None, None]"
    and size: "1 \<le> batchSize cfg"
    and retry: "raw_attempts r + 1 \<le> maxAttempts"
  shows "w_raw (processBatch rt cfg w) =
      [r\<lparr>raw_processed := 0, raw_attempts := raw_attempts r + 1,
         raw_last_error := trimError (Some reason)\<rparr>]"
proof -
  let ?w1 = "w\<lparr>w_faults := [None, Some reason, None, None]\<rparr>"
  let ?w2 = "w\<lparr>w_faults := [Some reason, None, None]\<rparr>"
  let ?w3 = "w\<lparr>w_faults := [None, None]\<rparr>"
  let ?w4 = "w\<lparr>w_faults := [None],
               w_raw := [r\<lparr>raw_processed := 0, raw_attempts := raw_attempts r + 1,
                          raw_last_error := trimError (Some reason)\<rparr>]\<rparr>"
  let ?w5 = "?w4\<lparr>w_faults := []\<rparr>"
  have q0: "query w = Return () ?w1" using plan by (simp add: query_def)
  have lock: "lockNextBatch (batchSize cfg) ?w1 = Return [r] ?w2"
    using raw pending unlocked size by (simp add: lockNextBatch_def query_def take_single)
  have disp: "dispatchRow rt cfg r ?w2 = Throw reason ?w3"
    using kind by (simp add: dispatchRow_def Let_def markProcessed_def query_def)
  have fail: "markFailedAttempt (raw_id r) (raw_attempts r + 1) reason
                (raw_attempts r + 1 > maxAttempts) ?w3 = Return () ?w4"
    using retry raw by (simp add: markFailedAttempt_def query_def)
  have single: "processSingleRow rt cfg r ?w2 = Return () ?w4"
    using disp fail by (simp add: processSingleRow_def Let_def)
  have commit: "query ?w4 = Return () ?w5" by (simp add: query_def)
  have "runBatch rt cfg w = Return () ?w5"
    by (simp add: runBatch_def q0 lock single commit)
  then show ?thesis by (simp add: processBatch_def)
qed


lemma normalize_empty_object: "kindOf (normalize dp (JObj [])) = UNKNOWN"
proof -
  have "templateStatusOf (JObj []) = None \<and> \<not> truthy (templateNameOf (JObj []))
      \<and> \<not> truthy (templateProviderIdOf (JObj []))
      \<and> \<not> truthy (messageIdOf (JObj [])) \<and> \<not> truthy (whatsappMessageIdOf (JObj []))
      \<and> messageStatusOf (JObj []) = None
      \<and> consentEventOf (JObj []) = None \<and> \<not> truthy (phoneOf (JObj []))"
    by code_simp
  then show ?thesis
    unfolding normalize_kind normalizeTemplate_matches normalizeMessage_matches normalizeUser_matches
    by simp
qed

lemma ingest_empty_body:
  assumes "w_raw w = []" and "w_faults w = []"
  shows "\<exists>r. w_raw (worldOf (ingest rt appId [] w)) = [r] \<and> raw_event_kind r = UNKNOWN
           \<and> raw_processed r = 0 \<and> raw_attempts r = 0"
  using assms
  by (simp add: ingest_def Let_def parseRawBody_def trim_def insertRawEvent_def query_def
        newRawRow_def normalize_empty_object DEFAULT_processed_def DEFAULT_attempts_def)

lemma reachable_pending:
  assumes "1 \<le> batchSize cfg" and "n \<le> 10"
  shows "\<exists>w r. reachable rt cfg w \<and> w_raw w = [r] \<and> raw_event_kind r = UNKNOWN
           \<and> raw_processed r = 0 \<and> raw_attempts r = int n"
  using assms(2)
proof (induction n)
  case 0
  let ?w0 = "\<lparr>w_raw = [], w_recipients = [], w_templates = [], w_versions = [], w_integrations = [],
           w_users = [], w_user_columns = [], w_consent_events = [], w_current = [], w_now = 0,
           w_faults = [], w_locked = [], w_found_rows = True\<rparr>"
  have r0: "reachable rt cfg ?w0" by (rule reachable.init) simp
  have r1: "reachable rt cfg (worldOf (ingest rt [] [] ?w0))" by (rule reachable.ingest_step[OF r0])
  from ingest_empty_body[of ?w0 rt "[]"] obtain r where
    "w_raw (worldOf (ingest rt [] [] ?w0)) = [r]" "raw_event_kind r = UNKNOWN"
    "raw_processed r = 0" "raw_attempts r = 0"
    by auto
  with r1 show ?case by auto
next
  case (Suc n)
  then obtain w r where reach: "reachable rt cfg w" and raw: "w_raw w = [r]"
    and kind: "raw_event_kind r = UNKNOWN" and pending: "raw_processed r = 0"
    and att: "raw_attempts r = int n"
    by auto
  let ?w = "w\<lparr>w_faults := [None, None, Some ''deadlock'', None, None], w_locked := []\<rparr>"
  let ?r = "r\<lparr>raw_processed := 0, raw_attempts := raw_attempts r + 1,
         raw_last_error := trimError (Some ''deadlock'')\<rparr>"
  have reach': "reachable rt cfg ?w" by (rule reachable.env_step[OF reach]) simp
  have "w_raw (processBatch rt cfg ?w) = [?r]"
    by (rule tick_fails) (use raw kind pending att Suc.prems assms(1) in \<open>simp_all add: maxAttempts_def\<close>)
  moreover have "reachable rt cfg (processBatch rt cfg ?w)" by (rule reachable.tick_step[OF reach'])
  moreover have "raw_event_kind ?r = UNKNOWN \<and> raw_processed ?r = 0 \<and> raw_attempts ?r = int (Suc n)"
    using kind att by simp
  ultimately show ?case by blast
qed

lemma markFailedAttempt_effect:
  assumes "w_faults w = []"
  shows "markFailedAttempt rid attempts reason finalize w =
     Return ()
       (w\<lparr>w_raw :=
          map (\<lambda>r. if raw_id r = rid
                    then (if finalize
                          then r\<lparr>raw_processed := 1, raw_processed_at := Some (w_now w),
                                 raw_attempts := attempts,
                                 raw_last_error := trimError (Some reason)\<rparr>
                          else r\<lparr>raw_processed := 0, raw_attempts := attempts,
                                 raw_last_error := trimError (Some reason)\<rparr>)
                    else r) (w_raw w)\<rparr>)"
  using assms by (cases finalize) (simp_all add: markFailedAttempt_def query_no_faults)

text \<open>
  Claim C4. When the dispatch of a claimed raw row with the stored counter \<open>a\<close> throws,
  \<open>processSingleRow\<close> calls \<open>markFailedAttempt\<close> with the counter \<open>a + 1\<close> and with
  \<open>finalize\<close> exactly when \<open>a + 1 > 10\<close>; when its statement succeeds the row gets that
  counter and the trimmed reason, and is terminal with \<open>processed_at\<close> set if \<open>finalize\<close>
  holds, pending otherwise. Hence in every reachable state a raw row whose counter exceeds
  10 is terminal, while a pending row with the counter 10 is reachable (for a batch size
  of at least one).
\<close>

theorem retry_accounting:
  "(dispatchRow rt cfg row w = Throw reason w1 \<longrightarrow>
      processSingleRow rt cfg row w =
        markFailedAttempt (raw_id row) (raw_attempts row + 1) reason (raw_attempts row + 1 > 10) w1)
   \<and> (w_faults w1 = [] \<longrightarrow>
        markFailedAttempt rid attempts reason finalize w1 =
          Return ()
            (w1\<lparr>w_raw :=
               map (\<lambda>r. if raw_id r = rid
                         then (if finalize
                               then r\<lparr>raw_processed := 1, raw_processed_at := Some (w_now w1),
                                      raw_attempts := attempts,
                                      raw_last_error := trimError (Some reason)\<rparr>
                               else r\<lparr>raw_processed := 0, raw_attempts := attempts,
                                      raw_last_error := trimError (Some reason)\<rparr>)
                         else r) (w_raw w1)\<rparr>))
   \<and> (reachable rt cfg w \<longrightarrow> (\<forall>r \<in> set (w_raw w). raw_attempts r > 10 \<longrightarrow> raw_processed r = 1))
   \<and> (1 \<le> batchSize cfg \<longrightarrow>
        (\<exists>w' r. reachable rt cfg w' \<and> r \<in> set (w_raw w') \<and> raw_attempts r = 10 \<and> raw_processed r = 0))"
proof (intro conjI impI)
  assume "dispatchRow rt cfg row w = Throw reason w1"
  then show "processSingleRow rt cfg row w =
        markFailedAttempt (raw_id row) (raw_attempts row + 1) reason (raw_attempts row + 1 > 10) w1"
    by (simp add: processSingleRow_def Let_def maxAttempts_def)
next
  assume "w_faults w1 = []"
  then show "markFailedAttempt rid attempts reason finalize w1 =
          Return ()
            (w1\<lparr>w_raw :=
               map (\<lambda>r. if raw_id r = rid
                         then (if finalize
                               then r\<lparr>raw_processed := 1, raw_processed_at := Some (w_now w1),
                                      raw_attempts := attempts,
                                      raw_last_error := trimError (Some reason)\<rparr>
                               else r\<lparr>raw_processed := 0, raw_attempts := attempts,
                                      raw_last_error := trimError (Some reason)\<rparr>)
                         else r) (w_raw w1)\<rparr>)"
    by (rule markFailedAttempt_effect)
next
  assume "reachable rt cfg w"
  from reachable_rowOk[OF this]
  show "\<forall>r \<in> set (w_raw w). raw_attempts r > 10 \<longrightarrow> raw_processed r = 1"
    by (auto simp: rowOk_def maxAttempts_def)
next
  assume "1 \<le> batchSize cfg"
  from reachable_pending[OF this, of 10 rt]
  show "\<exists>w' r. reachable rt cfg w' \<and> r \<in> set (w_raw w') \<and> raw_attempts r = 10 \<and> raw_processed r = 0"
    by auto
qed


text \<open>
  A pending row of unknown kind with the counter \<open>a\<close>, in a world where the next
  statement (its \<open>markProcessed\<close>) fails.
\<close>

definition examplePendingRow :: "int \<Rightarrow> RawEventRow" where
  "examplePendingRow a =
     \<lparr>raw_id = 1, raw_app_id = ''A'', raw_event_kind = UNKNOWN, raw_provider_event_id = None,
      raw_message_id = None, raw_whatsapp_message_id = None, raw_template_name = None,
      raw_template_provider_id = None, raw_event_status = None,
      raw_received_at = 5, raw_payload_json = JObj [], raw_processed = 0, raw_attempts = a,
      raw_last_error = None, raw_processed_at = None, raw_dedupe_key = ''k''\<rparr>"

definition exampleFailingWorld :: "int \<Rightarrow> string option list \<Rightarrow> World" where
  "exampleFailingWorld a plan =
     \<lparr>w_raw = [examplePendingRow a], w_recipients = [], w_templates = [],
      w_versions = [], w_integrations = [], w_users = [], w_user_columns = [],
      w_consent_events = [], w_current = [], w_now = 1000, w_faults = plan, w_locked = [],
      w_found_rows = True\<rparr>"

definition exampleRuntime :: Runtime where
  "exampleRuntime =
     \<lparr>JSON_parse = (\<lambda>s. None), Date_parse = (\<lambda>s. None),
      toISOString = (\<lambda>d. ''2025-02-09T14:40:00.000Z'')\<rparr>"

definition exampleConfig :: WorkerConfig where
  "exampleConfig = \<lparr>batchSize = 50, userPhoneColumn = ''phone'', blockedAsOptOut = True\<rparr>"

theorem retry_accounting_witness:
  "map (\<lambda>r. (raw_attempts r, raw_processed r))
      (w_raw (worldOf (processSingleRow exampleRuntime exampleConfig (examplePendingRow 9)
                         (exampleFailingWorld 9 [Some ''deadlock''])))) = [(10, 0)]
   \<and> map (\<lambda>r. (raw_attempts r, raw_processed r))
      (w_raw (worldOf (processSingleRow exampleRuntime exampleConfig (examplePendingRow 10)
                         (exampleFailingWorld 10 [Some ''deadlock''])))) = [(11, 1)]"
proof -
  have d: "dispatchRow exampleRuntime exampleConfig (examplePendingRow a)
             (exampleFailingWorld a [Some ''deadlock'']) = Throw ''deadlock'' (exampleFailingWorld a [])"
    for a
    by (simp add: dispatchRow_def Let_def markProcessed_def query_def examplePendingRow_def
          exampleFailingWorld_def)
  have f: "w_faults (exampleFailingWorld a []) = []" for a
    by (simp add: exampleFailingWorld_def)
  note t9 = retry_accounting
    [where rt = exampleRuntime and cfg = exampleConfig and row = "examplePendingRow 9"
       and w = "exampleFailingWorld 9 [Some ''deadlock'']" and reason = "''deadlock''"
       and ?w1.0 = "exampleFailingWorld 9 []" and rid = 1 and attempts = 10 and finalize = False]
  note t10 = retry_accounting
    [where rt = exampleRuntime and cfg = exampleConfig and row = "examplePendingRow 10"
       and w = "exampleFailingWorld 10 [Some ''deadlock'']" and reason = "''deadlock''"
       and ?w1.0 = "exampleFailingWorld 10 []" and rid = 1 and attempts = 11 and finalize = True]
  have p9: "processSingleRow exampleRuntime exampleConfig (examplePendingRow 9)
              (exampleFailingWorld 9 [Some ''deadlock''])
            = markFailedAttempt 1 10 ''deadlock'' False (exampleFailingWorld 9 [])"
    using t9[THEN conjunct1] d[of 9] by (simp add: examplePendingRow_def)
  have m9: "w_raw (worldOf (markFailedAttempt 1 10 ''deadlock'' False (exampleFailingWorld 9 [])))
            = [(examplePendingRow 9)\<lparr>raw_processed := 0, raw_attempts := 10,
                 raw_last_error := trimError (Some ''deadlock'')\<rparr>]"
    using t9[THEN conjunct2, THEN conjunct1] f[of 9]
    by (simp add: exampleFailingWorld_def examplePendingRow_def)
  have p10: "processSingleRow exampleRuntime exampleConfig (examplePendingRow 10)
              (exampleFailingWorld 10 [Some ''deadlock''])
            = markFailedAttempt 1 11 ''deadlock'' True (exampleFailingWorld 10 [])"
    using t10[THEN conjunct1] d[of 10] by (simp add: examplePendingRow_def)
  have m10: "w_raw (worldOf (markFailedAttempt 1 11 ''deadlock'' True (exampleFailingWorld 10 [])))
            = [(examplePendingRow 10)\<lparr>raw_processed := 1, raw_processed_at := Some 1000,
                 raw_attempts := 11, raw_last_error := trimError (Some ''deadlock'')\<rparr>]"
    using t10[THEN conjunct2, THEN conjunct1] f[of 10]
    by (simp add: exampleFailingWorld_def examplePendingRow_def)
  from p9 m9 p10 m10 show ?thesis by (simp add: examplePendingRow_def)
qed


section \<open>Log sanitizer (logging/log-sanitizer.util.ts)\<close>

text \<open>
  The two key patterns are alternations of literals, matched anywhere in the key without
  regard to case. The values are trees, so no object is met twice and the \<open>visited\<close> set
  never answers \<open>[Circular]\<close>.
\<close>

definition SENSITIVE_KEY_PATTERN :: "string \<Rightarrow> bool" where
  "SENSITIVE_KEY_PATTERN key =
     list_ex (includesStr (toLowerCase key))
       [''secret'', ''token'', ''password'', ''authorization'', ''auth'', ''cipher'', ''signature'',
        ''apikey'', ''api_key'', ''api-key'', ''bearer'']"

definition PHONE_KEY_PATTERN :: "string \<Rightarrow> bool" where
  "PHONE_KEY_PATTERN key =
     list_ex (includesStr (toLowerCase key))
       [''phone'', ''msisdn'', ''waid'', ''wa_id'', ''wa-id'', ''whatsapp'']"

record SanitizeOptions =
  maxDepth :: nat
  maxArrayItems :: nat
  maxObjectKeys :: nat
  maxStringLength :: nat

definition DEFAULT_OPTIONS :: SanitizeOptions where
  "DEFAULT_OPTIONS = \<lparr>maxDepth = 4, maxArrayItems = 20, maxObjectKeys = 40, maxStringLength = 400\<rparr>"

definition maskPhone :: "string option \<Rightarrow> string" where
  "maskPhone phone =
     (case phone of
        None \<Rightarrow> ''null''
      | Some p \<Rightarrow>
          if p = [] then ''null''
          else (let trimmed = trim p in
                if length trimmed \<le> 4 then ''***'' @ trimmed
                else ''***'' @ drop (length trimmed - 4) trimmed))"

text \<open>The test of \<open>/^\+?[\d\s().-]+$/\<close>.\<close>

definition phoneChars :: "string \<Rightarrow> bool" where
  "phoneChars s = (s \<noteq> [] \<and> list_all (\<lambda>c. isDigit c \<or> isWhitespace c \<or> c \<in> set ''().-'') s)"

definition matchesPhoneShape :: "string \<Rightarrow> bool" where
  "matchesPhoneShape s =
     (case s of
        [] \<Rightarrow> False
      | c # cs \<Rightarrow> (c = CHR ''+'' \<and> phoneChars cs) \<or> phoneChars (c # cs))"

definition looksLikePhone :: "string \<Rightarrow> bool" where
  "looksLikePhone input =
     (let trimmed = trim input in
      if \<not> matchesPhoneShape trimmed then False
      else (let digits = filter isDigit input in length digits \<ge> 8 \<and> length digits \<le> 15))"

definition sanitizeString :: "string \<Rightarrow> nat \<Rightarrow> string option \<Rightarrow> string" where
  "sanitizeString v maxLength keyHint =
     (if truthy keyHint \<and> PHONE_KEY_PATTERN (orEmpty keyHint) then maskPhone (Some v)
      else if looksLikePhone v then maskPhone (Some v)
      else if length v \<le> maxLength then v
      else take maxLength v @ ''...[truncated:'' @ intToString (int (length v - maxLength)) @ '']'')"

text \<open>
  \<open>result[key] = value\<close> on the object being built, a plain object: the own entry of the
  key is overwritten in place or added at the end (\<open>setOwn\<close>). For the key \<open>__proto__\<close>
  the assignment reaches the accessor inherited from \<open>Object.prototype\<close>, which sets the
  prototype when the value is an object or null and does nothing otherwise: the object gets
  no entry.
\<close>

fun setOwn :: "string \<Rightarrow> jsval \<Rightarrow> (string \<times> jsval) list \<Rightarrow> (string \<times> jsval) list" where
  "setOwn k v [] = [(k, v)]"
| "setOwn k v ((k', v') # rest) = (if k' = k then (k, v) # rest else (k', v') # setOwn k v rest)"

definition assign :: "string \<Rightarrow> jsval \<Rightarrow> (string \<times> jsval) list \<Rightarrow> (string \<times> jsval) list" where
  "assign k v entries = (if k = ''__proto__'' then entries else setOwn k v entries)"

lemma jsize_member: "x \<in> set xs \<Longrightarrow> jsize x \<le> sum_list (map jsize xs)"
  by (induction xs) auto

lemma jsize_entry: "kv \<in> set kvs \<Longrightarrow> jsize (snd kv) \<le> sum_list (map (\<lambda>kv. jsize (snd kv)) kvs)"
  by (induction kvs) auto

function sanitizeValue ::
  "(int \<Rightarrow> string) \<Rightarrow> SanitizeOptions \<Rightarrow> nat \<Rightarrow> string option \<Rightarrow> jsval \<Rightarrow> jsval" where
  "sanitizeValue toIso options depth keyHint v =
     (case v of
        JNull \<Rightarrow> JNull
      | JUndefined \<Rightarrow> JUndefined
      | JStr s \<Rightarrow> JStr (sanitizeString s (maxStringLength options) keyHint)
      | JNum n \<Rightarrow> JNum n
      | JBool b \<Rightarrow> JBool b
      | JDate d \<Rightarrow> (case d of None \<Rightarrow> JNull | Some t \<Rightarrow> JStr (toIso t))
      | JArr xs \<Rightarrow>
          if depth \<ge> maxDepth options
          then JStr (''[Array('' @ intToString (int (length xs)) @ '')]'')
          else JArr (map (\<lambda>item. sanitizeValue toIso options (depth + 1) keyHint item)
                       (take (maxArrayItems options) xs)
                     @ (if length xs > maxArrayItems options
                        then [JStr (''[+'' @ intToString (int (length xs - maxArrayItems options))
                                    @ '' items]'')]
                        else []))
      | JObj entries \<Rightarrow>
          if depth \<ge> maxDepth options then JStr ''[Object]''
          else (let result =
                      foldl (\<lambda>acc kv.
                               if SENSITIVE_KEY_PATTERN (fst kv)
                               then assign (fst kv) (JStr ''[REDACTED]'') acc
                               else (case snd kv of
                                       JStr node \<Rightarrow>
                                         if PHONE_KEY_PATTERN (fst kv)
                                         then assign (fst kv) (JStr (maskPhone (Some node))) acc
                                         else assign (fst kv)
                                                (sanitizeValue toIso options (depth + 1) (Some (fst kv))
                                                   (snd kv)) acc
                                     | _ \<Rightarrow>
                                         assign (fst kv)
                                           (sanitizeValue toIso options (depth + 1) (Some (fst kv))
                                              (snd kv)) acc))
                            [] (take (maxObjectKeys options) entries)
                in JObj (if length entries > maxObjectKeys options
                         then assign ''__truncated_keys''
                                (JNum (Fin (of_nat (length entries - maxObjectKeys options)))) result
                         else result)))"
  by pat_completeness auto
termination
proof (relation "measure (\<lambda>(toIso, options, depth, keyHint, v). jsize v)")
qed (auto dest!: in_set_takeD dest: jsize_member jsize_entry simp: less_Suc_eq_le)

declare sanitizeValue.simps [simp del]

definition buildPayloadPreview :: "(int \<Rightarrow> string) \<Rightarrow> jsval \<Rightarrow> nat \<Rightarrow> jsval" where
  "buildPayloadPreview toIso payload maxLen =
     sanitizeValue toIso (DEFAULT_OPTIONS\<lparr>maxStringLength := maxLen\<rparr>) 0 None payload"

definition sanitizeForLog :: "(int \<Rightarrow> string) \<Rightarrow> jsval \<Rightarrow> jsval" where
  "sanitizeForLog toIso v = sanitizeValue toIso DEFAULT_OPTIONS 0 None v"


subsection \<open>What the sanitizer redacts and masks\<close>

text \<open>
  At every level below the depth cap, an entry among the first \<open>maxObjectKeys\<close> whose key
  matches the sensitive-key pattern is emitted as \<open>[REDACTED]\<close>, whatever its value.
\<close>

lemma setOwn_map_of: "map_of (setOwn k v acc) = (map_of acc)(k \<mapsto> v)"
  by (induction acc) auto

lemma assign_same: "k \<noteq> ''__proto__'' \<Longrightarrow> map_of (assign k v acc) k = Some v"
  by (simp add: assign_def setOwn_map_of)

lemma assign_other: "k' \<noteq> k \<Longrightarrow> map_of (assign k' v acc) k = map_of acc k"
  by (simp add: assign_def setOwn_map_of)

lemma proto_not_sensitive: "\<not> SENSITIVE_KEY_PATTERN ''__proto__''"
  by code_simp

lemma foldl_redacted:
  assumes red: "\<And>acc kv. SENSITIVE_KEY_PATTERN (fst kv) \<Longrightarrow> f acc kv = assign (fst kv) r acc"
    and upd: "\<And>acc kv. \<exists>v. f acc kv = assign (fst kv) v acc"
    and k: "SENSITIVE_KEY_PATTERN k"
  shows "k \<in> fst ` set es \<or> map_of acc k = Some r \<Longrightarrow> map_of (foldl f acc es) k = Some r"
proof (induction es arbitrary: acc)
  case Nil
  then show ?case by simp
next
  case (Cons e es)
  from k proto_not_sensitive have np: "k \<noteq> ''__proto__''" by auto
  have "k \<in> fst ` set es \<or> map_of (f acc e) k = Some r"
  proof (cases "fst e = k")
    case True
    with red[of e acc] k np show ?thesis by (simp add: assign_same)
  next
    case False
    obtain v where "f acc e = assign (fst e) v acc" using upd[of acc e] by blast
    with False Cons.prems show ?thesis by (auto simp add: assign_other)
  qed
  from Cons.IH[OF this] show ?case by simp
qed

lemma truncated_keys_not_sensitive: "\<not> SENSITIVE_KEY_PATTERN ''__truncated_keys''"
  by code_simp

lemma sanitizeValue_redacts:
  assumes d: "depth < maxDepth options"
    and e: "(k, v) \<in> set (take (maxObjectKeys options) entries)"
    and k: "SENSITIVE_KEY_PATTERN k"
  shows "\<exists>res. sanitizeValue toIso options depth keyHint (JObj entries) = JObj res
           \<and> map_of res k = Some (JStr ''[REDACTED]'')"
proof -
  let ?f = "\<lambda>acc kv.
              if SENSITIVE_KEY_PATTERN (fst kv)
              then assign (fst kv) (JStr ''[REDACTED]'') acc
              else (case snd kv of
                      JStr node \<Rightarrow>
                        if PHONE_KEY_PATTERN (fst kv)
                        then assign (fst kv) (JStr (maskPhone (Some node))) acc
                        else assign (fst kv)
                               (sanitizeValue toIso options (depth + 1) (Some (fst kv)) (snd kv)) acc
                    | _ \<Rightarrow>
                        assign (fst kv)
                          (sanitizeValue toIso options (depth + 1) (Some (fst kv)) (snd kv)) acc)"
  let ?res = "foldl ?f [] (take (maxObjectKeys options) entries)"
  have upd: "\<exists>v. ?f acc kv = assign (fst kv) v acc" for acc kv
    by (auto split: jsval.split)
  have "k \<in> fst ` set (take (maxObjectKeys options) entries)"
    using e by force
  then have r: "map_of ?res k = Some (JStr ''[REDACTED]'')"
    by (intro foldl_redacted[where f = ?f, OF _ upd k]) simp_all
  from k truncated_keys_not_sensitive have ne: "k \<noteq> ''__truncated_keys''"
    by auto
  have "sanitizeValue toIso options depth keyHint (JObj entries)
        = JObj (if length entries > maxObjectKeys options
                then assign ''__truncated_keys''
                       (JNum (Fin (of_nat (length entries - maxObjectKeys options)))) ?res
                else ?res)"
    using d by (subst sanitizeValue.simps) (simp add: Let_def)
  moreover have "map_of (if length entries > maxObjectKeys options
                then assign ''__truncated_keys''
                       (JNum (Fin (of_nat (length entries - maxObjectKeys options)))) ?res
                else ?res) k = Some (JStr ''[REDACTED]'')"
  proof (cases "length entries > maxObjectKeys options")
    case True
    have "map_of (assign ''__truncated_keys''
                    (JNum (Fin (of_nat (length entries - maxObjectKeys options)))) ?res) k
          = map_of ?res k"
      using ne by (simp add: assign_other)
    with r show ?thesis
      by (simp only: if_P[OF True])
  next
    case False
    from r show ?thesis
      by (simp only: if_not_P[OF False])
  qed
  ultimately show ?thesis
    by blast
qed

text \<open>
  Claim C9 (every sensitive key is emitted as \<open>[REDACTED]\<close> and every phone-like value only
  as \<open>***\<close> followed by its last four characters). The code masks a phone only when it is
  a string: the payload \<open>{"phone": 15551234567}\<close> goes through \<open>buildPayloadPreview\<close>
  and then through \<open>sanitizeForLog\<close>, as the ingest log line does, with all eleven digits,
  because \<open>sanitizeValue\<close> returns a number before it looks at the key and the object branch
  masks a phone-keyed entry only when it is a string. The same digits as a string under the
  same key become \<open>***4567\<close>, a phone-shaped string under any key is masked, and the
  entries under sensitive keys become \<open>[REDACTED]\<close>.
\<close>

theorem sanitizeForLog_numeric_phone:
  "sanitizeForLog toIso
     (JObj [(''payloadPreview'',
             buildPayloadPreview toIso (JObj [(''phone'', JNum (Fin 15551234567))]) previewChars)])
   = JObj [(''payloadPreview'', JObj [(''phone'', JNum (Fin 15551234567))])]
   \<and> sanitizeForLog toIso (JObj [(''phone'', JStr ''15551234567'')])
       = JObj [(''phone'', JStr ''***4567'')]
   \<and> sanitizeForLog toIso (JObj [(''contact'', JStr ''+1 (555) 123-4567'')])
       = JObj [(''contact'', JStr ''***4567'')]
   \<and> sanitizeForLog toIso (JObj [(''apiKey'', JStr ''k-1''), (''Authorization'', JNum (Fin 7))])
       = JObj [(''apiKey'', JStr ''[REDACTED]''), (''Authorization'', JStr ''[REDACTED]'')]"
  by code_simp

end
